(* ===== verification/Prelude.thy ===== *)
theory Prelude
  imports Main
begin

text \<open>
  Shared vocabulary of the development: the Python string operations that the
  converter and the standard library it calls rely on, written as executable
  HOL functions over lists, with the lemmas the component theories share.
  \<^item> \<open>split_char c s\<close> is Python's \<open>s.split(c)\<close> for a one-character separator;
  \<^item> \<open>join_with sep ws\<close> is Python's \<open>sep.join(ws)\<close>;
  \<^item> \<open>py_rfind c s\<close> is Python's \<open>s.rfind(c)\<close> for one character (\<open>-1\<close> when
    absent);
  \<^item> \<open>nat_str\<close> and \<open>int_str\<close> are Python's \<open>str\<close> of an integer, with
    \<open>digits_value\<close> reading a digit string back;
  \<^item> \<open>seq_sum\<close> runs a list of results left to right and stops at the first
    exception;
  \<^item> \<open>py_error\<close> is the exception a Python call raises, the left side of every
    result of type \<open>py_error + 'a\<close>.
  Their characteristic lemmas are collected in the named collection
  \<open>py_simps\<close>, which the component proofs add to the simplifier.
\<close>

named_theorems py_simps "characteristic equations of the Python string model"

section \<open>Python exceptions\<close>

text \<open>
  The exceptions that can leave \<open>csv2apkg\<close>, as one datatype that every
  component returns on its error branch (\<open>Inl\<close> of a result \<open>py_error + 'a\<close>).
  \<open>NotModelled\<close> marks inputs outside the modelled subset of a library
  (for instance a regular-expression separator in pandas); \<open>FireError\<close>
  is the exception of the \<open>fire\<close> library that \<open>fire.Fire\<close> turns into a usage
  message and exit status 2.
\<close>

datatype py_error =
    AssertionError string
  | ValueError string
  | KeyError string
  | FileNotFoundError string
  | ParserError string
  | EmptyDataError string
  | UnicodeDecodeError string
  | FireError string
  | IndexError string
  | Exception string
  | NotModelled string

section \<open>str.split with a one-character separator\<close>

fun split_char :: "'a \<Rightarrow> 'a list \<Rightarrow> 'a list list" where
  "split_char c [] = [[]]"
| "split_char c (x # xs) =
     (if x = c then [] # split_char c xs
      else (case split_char c xs of
              [] \<Rightarrow> [[x]]
            | w # ws \<Rightarrow> (x # w) # ws))"

section \<open>str.join\<close>

fun join_with :: "'a list \<Rightarrow> 'a list list \<Rightarrow> 'a list" where
  "join_with sep [] = []"
| "join_with sep [w] = w"
| "join_with sep (w # v # ws) = w @ sep @ join_with sep (v # ws)"

section \<open>str.rfind with one character\<close>

primrec py_rfind :: "'a \<Rightarrow> 'a list \<Rightarrow> int" where
  "py_rfind c [] = -1"
| "py_rfind c (x # xs) =
     (let r = py_rfind c xs in if 0 \<le> r then r + 1 else if x = c then 0 else -1)"

section \<open>str of an integer\<close>

definition is_digit :: "char \<Rightarrow> bool" where
  "is_digit c \<longleftrightarrow> 48 \<le> (of_char c :: nat) \<and> (of_char c :: nat) \<le> 57"

definition digits_value :: "string \<Rightarrow> nat" where
  "digits_value ds = foldl (\<lambda>n c. 10 * n + ((of_char c :: nat) - 48)) 0 ds"

text \<open>Python's \<open>str\<close> of an integer, in the shape of JinjaThreads' \<open>int_toString\<close>.\<close>

fun nat_str :: "nat \<Rightarrow> string" where
  "nat_str n = (if n < 10 then [char_of (48 + n)] else nat_str (n div 10) @ [char_of (48 + n mod 10)])"

definition int_str :: "int \<Rightarrow> string" where
  "int_str i = (if i < 0 then CHR ''-'' # nat_str (nat (- i)) else nat_str (nat i))"

section \<open>Sequencing results\<close>

text \<open>The first exception of a list of results, or the list of their values.\<close>

fun seq_sum :: "('e + 'a) list \<Rightarrow> 'e + 'a list" where
  "seq_sum [] = Inr []"
| "seq_sum (Inl e # xs) = Inl e"
| "seq_sum (Inr x # xs) = (case seq_sum xs of Inl e \<Rightarrow> Inl e | Inr ys \<Rightarrow> Inr (x # ys))"

section \<open>Lemmas on splitting and joining\<close>

lemma split_char_not_Nil [simp]: "split_char c s \<noteq> []"
  by (induction s) (auto split: list.split)

lemma split_char_hd_tl:
  "split_char c (x # xs) =
     (if x = c then [] # split_char c xs
      else (x # hd (split_char c xs)) # tl (split_char c xs))"
  by (cases "split_char c xs") auto

lemma split_char_append_free:
  "c \<notin> set w \<Longrightarrow>
   split_char c (w @ rest) = (w @ hd (split_char c rest)) # tl (split_char c rest)"
  by (induction w) (auto simp: split_char_hd_tl)

lemma split_char_free [py_simps]: "c \<notin> set w \<Longrightarrow> split_char c w = [w]"
  using split_char_append_free [of c w "[]"] by simp

lemma split_char_field [py_simps]:
  "c \<notin> set w \<Longrightarrow> split_char c (w @ c # rest) = w # split_char c rest"
  using split_char_append_free [of c w "c # rest"] by simp

lemma split_char_sep_free:
  "w \<in> set (split_char c s) \<Longrightarrow> c \<notin> set w"
proof (induction s arbitrary: w)
  case Nil
  then show ?case by simp
next
  case (Cons x xs)
  then show ?case
    by (cases "split_char c xs")
       (auto simp: split_char_hd_tl split: if_splits)
qed

lemma length_split_char [py_simps]:
  "length (split_char c s) = Suc (count_list s c)"
  by (induction s) (auto split: list.split)

lemma join_with_Cons [py_simps]:
  "ws \<noteq> [] \<Longrightarrow> join_with sep (w # ws) = w @ sep @ join_with sep ws"
  by (cases ws) auto

text \<open>Python's \<open>c.join(s.split(c)) == s\<close>: joining undoes splitting.\<close>

lemma join_split_char: "join_with [c] (split_char c s) = s"
proof (induction s)
  case Nil
  then show ?case by simp
next
  case (Cons x xs)
  show ?case
  proof (cases "split_char c xs")
    case Nil
    then show ?thesis by simp
  next
    case (Cons w ws)
    with Cons.IH show ?thesis by (cases ws) auto
  qed
qed

text \<open>Splitting undoes joining when no piece holds the separator.\<close>

lemma split_join_char [py_simps]:
  "ws \<noteq> [] \<Longrightarrow> (\<forall>w \<in> set ws. c \<notin> set w) \<Longrightarrow> split_char c (join_with [c] ws) = ws"
proof (induction ws)
  case Nil
  then show ?case by simp
next
  case (Cons w ws)
  from Cons.prems have w: "c \<notin> set w" by simp
  show ?case
  proof (cases "ws = []")
    case True
    with w split_char_append_free [of c w "[]"] show ?thesis by simp
  next
    case False
    with Cons have IH: "split_char c (join_with [c] ws) = ws" by simp
    from w have "split_char c (w @ c # join_with [c] ws)
        = (w @ hd (split_char c (c # join_with [c] ws))) # tl (split_char c (c # join_with [c] ws))"
      by (rule split_char_append_free)
    with IH False show ?thesis by (simp add: join_with_Cons)
  qed
qed

section \<open>Lemmas on rfind\<close>

lemma py_rfind_absent [py_simps]: "c \<notin> set xs \<Longrightarrow> py_rfind c xs = -1"
  by (induction xs) (auto simp: Let_def)

lemma py_rfind_nonneg_iff: "0 \<le> py_rfind c xs \<longleftrightarrow> c \<in> set xs"
  by (induction xs) (auto simp: Let_def)

text \<open>\<open>rfind\<close> returns the index of the last occurrence.\<close>

lemma py_rfind_last [py_simps]:
  "c \<notin> set ys \<Longrightarrow> py_rfind c (xs @ c # ys) = int (length xs)"
proof (induction xs)
  case Nil
  then show ?case by (simp add: py_rfind_absent)
next
  case (Cons x xs)
  then show ?case by (simp add: Let_def)
qed

lemma py_rfind_cases:
  obtains (absent) "c \<notin> set xs" "py_rfind c xs = -1"
  | (found) ys zs where "xs = ys @ c # zs" "c \<notin> set zs" "py_rfind c xs = int (length ys)"
proof (cases "c \<in> set xs")
  case True
  then obtain ys zs where xs: "xs = ys @ c # zs" and zs: "c \<notin> set zs"
    using split_list_last [OF True] by blast
  from zs have "py_rfind c (ys @ c # zs) = int (length ys)" by (rule py_rfind_last)
  with xs zs show ?thesis using found by simp
next
  case False
  then have "py_rfind c xs = -1" by (rule py_rfind_absent)
  with False show ?thesis by (rule absent)
qed

section \<open>Lemmas on decimal printing\<close>

declare nat_str.simps [simp del]

lemma of_char_digit [simp]: "d < 10 \<Longrightarrow> (of_char (char_of (48 + d) :: char) :: nat) = 48 + d"
  by (simp add: of_char_of)

lemma is_digit_char_of [simp]: "(d :: nat) < 10 \<Longrightarrow> is_digit (char_of (48 + d))"
  by (simp add: is_digit_def)

lemma nat_str_small: "n < 10 \<Longrightarrow> nat_str n = [char_of (48 + n)]"
  and nat_str_large: "\<not> n < 10 \<Longrightarrow> nat_str n = nat_str (n div 10) @ [char_of (48 + n mod 10)]"
  by (subst nat_str.simps; simp)+

lemma nat_str_zero: "nat_str 0 = ''0''"
proof -
  have "(of_char CHR ''0'' :: nat) = 48" by simp
  then have "char_of (48::nat) = CHR ''0''" using char_of_char [of "CHR ''0''"] by metis
  then show ?thesis by (simp add: nat_str_small)
qed

lemma nat_str_digits: "list_all is_digit (nat_str n) \<and> nat_str n \<noteq> []"
proof (induction n rule: nat_str.induct)
  case (1 n)
  then show ?case
    by (cases "n < 10") (simp_all add: nat_str_small nat_str_large)
qed

lemma digits_value_snoc: "digits_value (xs @ [c]) = 10 * digits_value xs + ((of_char c :: nat) - 48)"
  by (simp add: digits_value_def)

lemma digits_value_nat_str_large:
  "\<not> n < 10 \<Longrightarrow> digits_value (nat_str n) = 10 * digits_value (nat_str (n div 10)) + n mod 10"
proof -
  have "(of_char (char_of (48 + n mod 10) :: char) :: nat) = 48 + n mod 10"
    by (rule of_char_digit) simp
  then show "\<not> n < 10 \<Longrightarrow> ?thesis"
    by (simp add: nat_str_large digits_value_snoc del: of_char_digit)
qed

lemma nat_str_value: "digits_value (nat_str n) = n"
proof (induction n rule: nat_str.induct)
  case (1 n)
  show ?case
  proof (cases "n < 10")
    case True
    then show ?thesis by (simp add: nat_str_small digits_value_def)
  next
    case False
    then have "digits_value (nat_str (n div 10)) = n div 10" by (rule "1.IH")
    with False show ?thesis by (simp add: digits_value_nat_str_large)
  qed
qed

lemma nat_str_inj: "nat_str a = nat_str b \<longleftrightarrow> a = b"
  by (metis nat_str_value)

lemma nat_str_head: "hd (nat_str n) = CHR ''0'' \<Longrightarrow> n = 0"
proof (induction n rule: nat_str.induct)
  case (1 n)
  show ?case
  proof (cases "n < 10")
    case True
    with "1.prems" have "char_of (48 + n) = CHR ''0''" by (simp only: nat_str_small list.sel(1))
    then have "(of_char (char_of (48 + n) :: char) :: nat) = of_char CHR ''0''" by (rule arg_cong)
    with True show ?thesis by (simp only: of_char_digit) simp
  next
    case False
    have "nat_str (n div 10) \<noteq> []" using nat_str_digits by blast
    then have "hd (nat_str n) = hd (nat_str (n div 10))"
      by (simp only: nat_str_large [OF False]) (rule hd_append2)
    with "1.prems" have "hd (nat_str (n div 10)) = CHR ''0''" by simp
    with False have "n div 10 = 0" by (rule "1.IH")
    with False show ?thesis by simp
  qed
qed

lemma nat_str_hd_digit: "is_digit (hd (nat_str n))"
  using nat_str_digits [of n] by (cases "nat_str n") auto

lemma join_with_set: "x \<in> set (join_with sep ws) \<Longrightarrow> x \<in> set sep \<or> (\<exists>w \<in> set ws. x \<in> set w)"
  by (induction sep ws rule: join_with.induct) auto

section \<open>Lemmas on sequencing\<close>

lemma seq_sum_map_Inr:
  "seq_sum (map f xs) = Inr ys \<longleftrightarrow> list_all2 (\<lambda>x y. f x = Inr y) xs ys"
proof (induction xs arbitrary: ys)
  case Nil
  then show ?case by auto
next
  case (Cons x xs)
  then show ?case
    by (cases "f x"; cases "seq_sum (map f xs)") (auto simp: list_all2_Cons1)
qed

lemma seq_sum_map_same:
  "\<forall>x \<in> set xs. f x = Inr x \<Longrightarrow> seq_sum (map f xs) = Inr xs"
  by (simp add: seq_sum_map_Inr list_all2_same)

end
