(* ===== verification/PyPath.thy ===== *)
theory PyPath
  imports Prelude
begin

text \<open>
  The part of Python's \<open>pathlib\<close> (CPython 3.12, POSIX flavour) that
  \<open>csv2apkg\<close> uses: \<open>Path(filename)\<close>, \<open>.suffix\<close>, \<open>.stem\<close>, \<open>.parent\<close>,
  the \<open>/\<close> operator and \<open>str\<close>. A path is kept as CPython keeps it after
  parsing: its root (\<open>''''\<close>, \<open>''/''\<close> or \<open>''//''\<close>; POSIX has no drive) and
  its list of components (\<open>_tail\<close>), with empty and \<open>.\<close> components dropped.
  The lemmas show that parsing yields a well-formed path, that parsing the
  printed form gives the path back, that \<open>p / name\<close> appends one component,
  and how \<open>stem\<close> and \<open>suffix\<close> split the last component.
\<close>

record ppath =
  root :: string
  tail :: "string list"

section \<open>Parsing: posixpath.splitroot and PurePath._parse_path\<close>

definition posix_splitroot :: "string \<Rightarrow> string \<times> string" where
  "posix_splitroot p =
     (if take 1 p \<noteq> ''/'' then ([], p)
      else if take 1 (drop 1 p) \<noteq> ''/'' \<or> take 1 (drop 2 p) = ''/'' then (''/'', drop 1 p)
      else (take 2 p, drop 2 p))"

definition parse_path :: "string \<Rightarrow> ppath" where
  "parse_path s =
     (if s = [] then \<lparr>root = [], tail = []\<rparr>
      else (case posix_splitroot s of (r, rel) \<Rightarrow>
        \<lparr>root = r, tail = filter (\<lambda>x. x \<noteq> [] \<and> x \<noteq> ''.'') (split_char CHR ''/'' rel)\<rparr>))"

section \<open>Printing: PurePath._format_parsed_parts and __str__\<close>

definition format_parts :: "ppath \<Rightarrow> string" where
  "format_parts p = root p @ join_with ''/'' (tail p)"

definition path_str :: "ppath \<Rightarrow> string" where
  "path_str p = (if format_parts p = [] then ''.'' else format_parts p)"

section \<open>Properties name, suffix, stem, parent\<close>

definition path_name :: "ppath \<Rightarrow> string" where
  "path_name p = (if tail p = [] then [] else last (tail p))"

definition path_suffix :: "ppath \<Rightarrow> string" where
  "path_suffix p =
     (let name = path_name p; i = py_rfind CHR ''.'' name
      in if 0 < i \<and> i < int (length name) - 1 then drop (nat i) name else [])"

definition path_stem :: "ppath \<Rightarrow> string" where
  "path_stem p =
     (let name = path_name p; i = py_rfind CHR ''.'' name
      in if 0 < i \<and> i < int (length name) - 1 then take (nat i) name else name)"

definition path_parent :: "ppath \<Rightarrow> ppath" where
  "path_parent p = (if tail p = [] then p else p\<lparr>tail := butlast (tail p)\<rparr>)"

section \<open>Joining: posixpath.join and PurePath.__truediv__\<close>

definition posix_join :: "string \<Rightarrow> string \<Rightarrow> string" where
  "posix_join a b =
     (if take 1 b = ''/'' then b
      else if a = [] \<or> last a = CHR ''/'' then a @ b
      else a @ ''/'' @ b)"

definition path_div :: "ppath \<Rightarrow> string \<Rightarrow> ppath" where
  "path_div p key = parse_path (posix_join (format_parts p) key)"

section \<open>Well-formed paths\<close>

definition valid_component :: "string \<Rightarrow> bool" where
  "valid_component c \<longleftrightarrow> c \<noteq> [] \<and> c \<noteq> ''.'' \<and> CHR ''/'' \<notin> set c"

definition wf_path :: "ppath \<Rightarrow> bool" where
  "wf_path p \<longleftrightarrow> root p \<in> {[], ''/'', ''//''} \<and> list_all valid_component (tail p)"

section \<open>Lemmas\<close>

lemma posix_splitroot_root: "fst (posix_splitroot s) \<in> {[], ''/'', ''//''}"
proof (cases s)
  case (Cons x xs)
  then show ?thesis by (cases xs) (auto simp: posix_splitroot_def)
qed (simp add: posix_splitroot_def)

lemma valid_component_filter:
  "c \<in> set (filter (\<lambda>x. x \<noteq> [] \<and> x \<noteq> ''.'') (split_char CHR ''/'' s)) \<Longrightarrow> valid_component c"
  by (auto simp: valid_component_def dest: split_char_sep_free)

lemma wf_parse_path: "wf_path (parse_path s)"
  using posix_splitroot_root [of s] valid_component_filter
  by (auto simp: wf_path_def parse_path_def list_all_iff split: prod.split)

lemma take1_join_with:
  "w \<noteq> [] \<Longrightarrow> take 1 (join_with sep (w # ws)) = take 1 w"
  by (cases w; cases ws) auto

lemma join_with_snoc:
  "ws \<noteq> [] \<Longrightarrow> join_with sep (ws @ [w]) = join_with sep ws @ sep @ w"
proof (induction ws)
  case (Cons v vs)
  then show ?case by (cases "vs = []") (auto simp: join_with_Cons)
qed simp

lemma posix_splitroot_format:
  assumes r: "r \<in> {[], ''/'', ''//''}" and j: "take 1 j \<noteq> ''/''"
  shows "posix_splitroot (r @ j) = (r, j)"
  using r j by (auto simp: posix_splitroot_def)

lemma ppath_eqI: "root p = root q \<Longrightarrow> tail p = tail q \<Longrightarrow> p = (q::ppath)"
  by (cases p, cases q) simp

lemma filter_valid_components:
  "list_all valid_component ws \<Longrightarrow> filter (\<lambda>x. x \<noteq> [] \<and> x \<noteq> ''.'') ws = ws"
  by (auto simp: list_all_iff valid_component_def filter_id_conv)

lemma take1_join_valid:
  assumes "list_all valid_component ws"
  shows "take 1 (join_with ''/'' ws) \<noteq> ''/''"
proof (cases ws)
  case Nil
  then show ?thesis by simp
next
  case (Cons w vs)
  with assms have w: "w \<noteq> []" "CHR ''/'' \<notin> set w" by (auto simp: valid_component_def)
  then have "take 1 w \<noteq> ''/''" by (cases w) auto
  with Cons take1_join_with [OF w(1), of "''/''" vs] show ?thesis by simp
qed

lemma split_join_valid:
  assumes v: "list_all valid_component ws"
  shows "filter (\<lambda>x. x \<noteq> [] \<and> x \<noteq> ''.'') (split_char CHR ''/'' (join_with ''/'' ws)) = ws"
proof (cases "ws = []")
  case True
  then show ?thesis by simp
next
  case False
  from v have "\<forall>w\<in>set ws. CHR ''/'' \<notin> set w" by (auto simp: list_all_iff valid_component_def)
  with False have "split_char CHR ''/'' (join_with [CHR ''/''] ws) = ws" by (rule split_join_char)
  with v show ?thesis by (simp add: filter_valid_components)
qed

lemma parse_format_parts:
  assumes "wf_path p"
  shows "parse_path (format_parts p) = p"
proof -
  from assms have r: "root p \<in> {[], ''/'', ''//''}" and v: "list_all valid_component (tail p)"
    by (auto simp: wf_path_def)
  have sr: "posix_splitroot (format_parts p) = (root p, join_with ''/'' (tail p))"
    unfolding format_parts_def using r take1_join_valid [OF v] by (rule posix_splitroot_format)
  have t: "filter (\<lambda>x. x \<noteq> [] \<and> x \<noteq> ''.'') (split_char CHR ''/'' (join_with ''/'' (tail p)))
      = tail p"
    using v by (rule split_join_valid)
  show ?thesis
  proof (cases "format_parts p = []")
    case True
    then have "root p = []" "join_with ''/'' (tail p) = []" by (auto simp: format_parts_def)
    with t have "tail p = []" by simp
    with True \<open>root p = []\<close> show ?thesis by (intro ppath_eqI) (simp_all add: parse_path_def)
  next
    case False
    with sr t show ?thesis by (intro ppath_eqI) (simp_all add: parse_path_def)
  qed
qed

lemma last_join_with:
  "ws \<noteq> [] \<Longrightarrow> last ws \<noteq> [] \<Longrightarrow> last (join_with sep ws) = last (last ws)"
proof (induction ws rule: rev_induct)
  case (snoc w vs)
  then show ?case by (cases "vs = []") (auto simp: join_with_snoc)
qed simp

lemma join_with_not_Nil:
  "ws \<noteq> [] \<Longrightarrow> last ws \<noteq> [] \<Longrightarrow> join_with sep ws \<noteq> []"
proof (induction ws rule: rev_induct)
  case (snoc w vs)
  then show ?case by (cases "vs = []") (auto simp: join_with_snoc)
qed simp

lemma wf_path_snoc:
  "wf_path p \<Longrightarrow> valid_component key \<Longrightarrow> wf_path (p\<lparr>tail := tail p @ [key]\<rparr>)"
  by (simp add: wf_path_def)

lemma posix_join_format:
  assumes p: "wf_path p" and k: "valid_component key"
  shows "posix_join (format_parts p) key = format_parts (p\<lparr>tail := tail p @ [key]\<rparr>)"
proof -
  from k have k1: "take 1 key \<noteq> ''/''" by (cases key) (auto simp: valid_component_def)
  show ?thesis
  proof (cases "tail p = []")
    case True
    with p k1 show ?thesis by (auto simp: posix_join_def format_parts_def wf_path_def)
  next
    case False
    from p False have lw: "last (tail p) \<noteq> []" "CHR ''/'' \<notin> set (last (tail p))"
      by (auto simp: wf_path_def list_all_iff valid_component_def)
    then have "last (last (tail p)) \<noteq> CHR ''/''" using last_in_set by metis
    with False lw have "last (join_with ''/'' (tail p)) \<noteq> CHR ''/''"
      by (simp add: last_join_with)
    moreover from False lw(1) have "join_with ''/'' (tail p) \<noteq> []"
      by (rule join_with_not_Nil)
    ultimately show ?thesis using k1 False
      by (auto simp: posix_join_def format_parts_def join_with_snoc)
  qed
qed

theorem path_div_component:
  "wf_path p \<Longrightarrow> valid_component key \<Longrightarrow> path_div p key = p\<lparr>tail := tail p @ [key]\<rparr>"
  unfolding path_div_def by (simp add: posix_join_format parse_format_parts wf_path_snoc)

lemma stem_suffix_name: "path_stem p @ path_suffix p = path_name p"
  by (simp add: path_stem_def path_suffix_def Let_def)

lemma suffix_stem_not_Nil: "path_suffix p \<noteq> [] \<Longrightarrow> path_stem p \<noteq> []"
  by (auto simp: path_stem_def path_suffix_def Let_def split: if_splits)

lemma suffix_stem_of_name:
  assumes "path_name p = s @ CHR ''.'' # e" and "s \<noteq> []" and "e \<noteq> []"
    and "CHR ''.'' \<notin> set e"
  shows "path_suffix p = CHR ''.'' # e \<and> path_stem p = s"
proof -
  from assms(4) have "py_rfind CHR ''.'' (s @ CHR ''.'' # e) = int (length s)"
    by (rule py_rfind_last)
  with assms show ?thesis by (simp add: path_suffix_def path_stem_def Let_def)
qed

lemma wf_name_no_slash: "wf_path p \<Longrightarrow> CHR ''/'' \<notin> set (path_name p)"
  by (auto simp: wf_path_def path_name_def list_all_iff valid_component_def)

lemma wf_stem_no_slash: "wf_path p \<Longrightarrow> CHR ''/'' \<notin> set (path_stem p)"
  using wf_name_no_slash [of p] stem_suffix_name [of p] by (metis Un_iff set_append)

lemma wf_path_parent: "wf_path p \<Longrightarrow> wf_path (path_parent p)"
  by (auto simp: wf_path_def path_parent_def list_all_iff dest: in_set_butlastD)

lemma path_name_snoc [simp]: "path_name (p\<lparr>tail := tail p @ [k]\<rparr>) = k"
  by (simp add: path_name_def)

lemma path_parent_snoc [simp]: "path_parent (p\<lparr>tail := tail p @ [k]\<rparr>) = p"
  by (simp add: path_parent_def)


lemma csv_suffix_iff:
  "path_suffix p = ''.csv'' \<longleftrightarrow> (\<exists>s. s \<noteq> [] \<and> path_name p = s @ ''.csv'')"
proof
  assume a: "path_suffix p = ''.csv''"
  then have "path_stem p \<noteq> []" by (intro suffix_stem_not_Nil) simp
  moreover have "path_name p = path_stem p @ ''.csv''"
    using stem_suffix_name [of p] a by simp
  ultimately show "\<exists>s. s \<noteq> [] \<and> path_name p = s @ ''.csv''" by blast
next
  assume "\<exists>s. s \<noteq> [] \<and> path_name p = s @ ''.csv''"
  then obtain s where "s \<noteq> []" "path_name p = s @ CHR ''.'' # ''csv''" by auto
  then show "path_suffix p = ''.csv''"
    using suffix_stem_of_name [of p s "''csv''"] by simp
qed

text \<open>\<open>stem + suffix == name\<close>, and a non-empty suffix is a dot, at least one character and no further dot, behind a non-empty stem.\<close>

lemma stem_suffix_split:
  "path_stem p @ path_suffix p = path_name p
   \<and> (path_suffix p = []
      \<or> (path_stem p \<noteq> [] \<and> hd (path_suffix p) = CHR ''.''
         \<and> tl (path_suffix p) \<noteq> [] \<and> CHR ''.'' \<notin> set (tl (path_suffix p))))"
proof (cases rule: py_rfind_cases [of "CHR ''.''" "path_name p"])
  case absent
  then show ?thesis by (simp add: path_suffix_def path_stem_def)
next
  case (found ys zs)
  then show ?thesis by (auto simp: path_suffix_def path_stem_def)
qed

end
