(* ===== verification/CsvTable.thy ===== *)
theory CsvTable
  imports Prelude "HOL-Library.AList"
begin

text \<open>
  The table reader the converter calls, \<open>pandas.read_csv\<close>, and the
  DataFrame operations it uses (\<open>df['answer'] = " "\<close> and
  \<open>DataFrame.iterrows\<close>). pandas is a dependency, not code of this
  repository: the reader is modelled from the specification (section 4.1 step 3
  and section 7) and from pandas' C engine, restricted to one-character
  separators and unquoted fields (\<open>csv_in_model\<close>; other inputs give
  \<open>NotModelled\<close>):
  \<^item> \<open>\r\n\<close> and \<open>\r\<close> end lines as \<open>\n\<close> does; lines of nothing
    but spaces and tabs (other than the separator) are skipped
    (\<open>skip_blank_lines=True\<close>);
  \<^item> fields are split at the separator; a field equal to one of pandas'
    default NA strings (the empty field, \<open>NA\<close>, \<open>None\<close>, \<open>nan\<close>, ...) is the
    missing value \<open>NaN\<close>;
  \<^item> with \<open>header=0\<close> the first line names the columns; with
    \<open>header=None, names=[...]\<close> the names are given and every line is data;
  \<^item> a data line with more fields than the first data line (or the columns)
    is a \<open>ParserError\<close>, whose message names the line's number in the file
    (blank lines counted, \<open>record_lines\<close>); shorter lines are padded with \<open>NaN\<close>; when the first
    data line is longer than the columns, its leading fields are the row index
    (pandas' implicit index) and are not columns;
  \<^item> each column is converted as the C parser's type inference does: a
    column of integers becomes int64 (float64 with a missing value), a column
    of \<open>True\<close>/\<open>false\<close>-style words becomes bool, anything else stays text;
    float columns and integers of magnitude \<open>2^53\<close> or more are \<open>NotModelled\<close>;
  \<^item> the header's names are made distinct (\<open>header_names\<close>): an empty
    name becomes \<open>Unnamed: i\<close> and a repeated name \<open>old\<close> becomes
    \<open>old.k\<close> for the first free \<open>k\<close>;
  \<^item> a file with no non-blank line raises \<open>EmptyDataError\<close> when the header
    is read from it, and reads as an empty frame when the names are given;
  \<^item> \<open>iterrows\<close> yields each row as a Series of the columns' common dtype, so
    the integers of a row whose columns are all int64 or float64 become floats.
  The lemmas show that the renaming loop returns and gives distinct names
  that keep every given one, that no cell of a read frame is the empty text,
  that every frame the reader returns is rectangular, that
  type inference keeps the shape and leaves text columns alone, how
  \<open>csv_of_pairs\<close> files and one-column files read back, and how rows are
  looked up by label.
\<close>

section \<open>DataFrames\<close>

text \<open>
  A cell as the program sees it: a string, the missing value, or a value of
  a numeric or boolean column (\<open>FloatV i\<close> is the integral float64 \<open>i\<close>).
\<close>

datatype cell = Text string | NaN | IntV int | FloatV int | BoolV bool

record frame =
  columns :: "string list"
  rows :: "cell list list"

definition rectangular :: "frame \<Rightarrow> bool" where
  "rectangular df \<longleftrightarrow> list_all (\<lambda>r. length r = length (columns df)) (rows df)"

text \<open>
  \<open>str(value)\<close> of a cell: a missing value prints as \<open>nan\<close>, an integral
  float with \<open>.0\<close> (exact below \<open>10^16\<close>, which the reader's bound keeps).
\<close>

fun py_str_cell :: "cell \<Rightarrow> string" where
  "py_str_cell (Text s) = s"
| "py_str_cell NaN = ''nan''"
| "py_str_cell (IntV i) = int_str i"
| "py_str_cell (FloatV i) = int_str i @ ''.0''"
| "py_str_cell (BoolV b) = (if b then ''True'' else ''False'')"

section \<open>Series: one row with the frame's columns as index\<close>

text \<open>\<open>label in row\<close> tests the Series index, not its values.\<close>

definition series_contains :: "string list \<Rightarrow> string \<Rightarrow> bool" where
  "series_contains cols label \<longleftrightarrow> label \<in> set cols"

definition series_get :: "string list \<Rightarrow> cell list \<Rightarrow> string \<Rightarrow> py_error + cell" where
  "series_get cols r label =
     (case map_of (zip cols r) label of
        None \<Rightarrow> Inl (KeyError label)
      | Some v \<Rightarrow> Inr v)"

section \<open>Column assignment: df[col] = v\<close>

definition assign_const :: "string \<Rightarrow> string \<Rightarrow> frame \<Rightarrow> frame" where
  "assign_const col v df =
     (case map_of (zip (columns df) [0..<length (columns df)]) col of
        Some i \<Rightarrow> df\<lparr>rows := map (\<lambda>r. r[i := Text v]) (rows df)\<rparr>
      | None \<Rightarrow> \<lparr>columns = columns df @ [col], rows = map (\<lambda>r. r @ [Text v]) (rows df)\<rparr>)"

section \<open>The reader: pandas.read_csv, C engine\<close>

definition pandas_na_values :: "string list" where
  "pandas_na_values =
     ['''', ''#N/A'', ''#N/A N/A'', ''#NA'', ''-1.#IND'', ''-1.#QNAN'', ''-NaN'', ''-nan'',
      ''1.#IND'', ''1.#QNAN'', ''<NA>'', ''N/A'', ''NA'', ''NULL'', ''NaN'', ''None'',
      ''n/a'', ''nan'', ''null'']"

definition parse_cell :: "string \<Rightarrow> cell" where
  "parse_cell f = (if f \<in> set pandas_na_values then NaN else Text f)"

text \<open>
  The tokenizer's line terminators: \<open>\r\n\<close> and a lone \<open>\r\<close> end a
  line as \<open>\n\<close> does.
\<close>

fun norm_newlines :: "string \<Rightarrow> string" where
  "norm_newlines [] = []"
| "norm_newlines [c] = [if c = CHR 0x0D then CHR ''\<newline>'' else c]"
| "norm_newlines (c # d # cs) =
     (if c = CHR 0x0D \<and> d = CHR ''\<newline>'' then CHR ''\<newline>'' # norm_newlines cs
      else if c = CHR 0x0D then CHR ''\<newline>'' # norm_newlines (d # cs)
      else c # norm_newlines (d # cs))"

text \<open>
  Records: the lines, without the blank ones (\<open>skip_blank_lines\<close> skips a
  line of spaces and tabs that are not the separator), split at the separator.
\<close>

definition csv_records :: "char \<Rightarrow> string \<Rightarrow> string list list" where
  "csv_records sep text =
     map (split_char sep)
       (filter (\<lambda>l. \<not> list_all (\<lambda>c. (c = CHR '' '' \<or> c = CHR 0x09) \<and> c \<noteq> sep) l)
         (split_char CHR ''\<newline>'' (norm_newlines text)))"

text \<open>
  The tokenizer's line counter \<open>file_lines\<close>: the number in the file (from 1,
  blank and skipped lines counted) of each record \<open>csv_records\<close> returns.
\<close>

definition record_lines :: "char \<Rightarrow> string \<Rightarrow> nat list" where
  "record_lines sep text =
     (let ls = split_char CHR ''\<newline>'' (norm_newlines text)
      in map fst (filter (\<lambda>(i, l). \<not> list_all (\<lambda>c. (c = CHR '' '' \<or> c = CHR 0x09) \<and> c \<noteq> sep) l)
                   (zip [1..<Suc (length ls)] ls)))"

definition pad_row :: "nat \<Rightarrow> cell list \<Rightarrow> cell list" where
  "pad_row k r = r @ replicate (k - length r) NaN"

text \<open>
  The rows of the records \<open>recs\<close> at file lines \<open>lnos\<close> under \<open>n\<close> column
  names: the first data line sets the width \<open>k\<close> (its leading fields beyond
  \<open>n\<close> are the implicit index); the first longer line raises the tokenizer's
  \<open>ParserError\<close>, which names the line's number in the file. The reader
  passes one line number per record (\<open>length_record_lines\<close>), so the
  fallback message is never produced.
\<close>

definition shape_rows :: "nat \<Rightarrow> nat list \<Rightarrow> string list list \<Rightarrow> py_error + cell list list" where
  "shape_rows n lnos recs =
     (case recs of
        [] \<Rightarrow> Inr []
      | r0 # _ \<Rightarrow>
          (let k = max n (length r0) in
           if list_ex (\<lambda>r. k < length r) recs
           then (case find (\<lambda>(l, r). k < length r) (zip lnos recs) of
                   Some (l, r) \<Rightarrow>
                     Inl (ParserError (''Error tokenizing data. C error: Expected '' @ nat_str k
                       @ '' fields in line '' @ nat_str l @ '', saw '' @ nat_str (length r) @ ''\<newline>''))
                 | None \<Rightarrow> Inl (ParserError ''Error tokenizing data''))
           else Inr (map (\<lambda>r. drop (k - n) (pad_row k (map parse_cell r))) recs)))"

text \<open>
  Type inference of the C parser (\<open>TextReader._convert_tokens\<close>), column by
  column, in the order int64, float64, bool, object. A token is an integer when
  it is digits with an optional sign between spaces (\<open>str_to_int64\<close>);
  \<open>float_like\<close> contains every token \<open>xstrtod\<close> accepts (and some it
  rejects) and the spellings of \<open>inf\<close> and \<open>infinity\<close> in any case; the
  boolean tokens are pandas' default \<open>true_values\<close> and \<open>false_values\<close>.
\<close>

definition int_token :: "string \<Rightarrow> int option" where
  "int_token s =
     (let sp = (\<lambda>c. (of_char c :: nat) \<in> {9, 10, 11, 12, 13, 32});
          t = rev (dropWhile sp (rev (dropWhile sp s)));
          (neg, ds) = (case t of
                         c # r \<Rightarrow> if c = CHR ''-'' then (True, r) else if c = CHR ''+'' then (False, r) else (False, t)
                       | [] \<Rightarrow> (False, []))
      in if ds \<noteq> [] \<and> list_all is_digit ds
         then Some (if neg then - int (digits_value ds) else int (digits_value ds)) else None)"

definition float_like :: "string \<Rightarrow> bool" where
  "float_like s \<longleftrightarrow>
     (list_ex is_digit s \<and> list_all (\<lambda>c. is_digit c \<or> (of_char c :: nat) \<in> {9, 10, 11, 12, 13, 32, 43, 45, 46, 69, 101}) s)
     \<or> list_ex (\<lambda>w. list_all2 (\<lambda>c d. c = d \<or> (of_char c :: nat) + 32 = of_char d) s w)
         [''inf'', ''+inf'', ''-inf'', ''infinity'', ''+infinity'', ''-infinity'']"

definition bool_token :: "string \<Rightarrow> bool option" where
  "bool_token s =
     (if s \<in> {''True'', ''TRUE'', ''true''} then Some True
      else if s \<in> {''False'', ''FALSE'', ''false''} then Some False else None)"

text \<open>
  One column: integers become int64 (float64 when the column has a missing
  value, \<open>_maybe_upcast\<close>); booleans become bool (object holding
  \<open>True\<close>, \<open>False\<close> and \<open>NaN\<close> with a missing value); anything else stays
  text. Integers of magnitude \<open>2^53\<close> or more and non-integral floats are
  outside the model.
\<close>

definition column_convert :: "cell list \<Rightarrow> py_error + cell list" where
  "column_convert cs =
     (if list_all (\<lambda>c. case c of Text s \<Rightarrow> int_token s \<noteq> None | NaN \<Rightarrow> True | _ \<Rightarrow> False) cs then
        (if list_all (\<lambda>c. case c of Text s \<Rightarrow> (case int_token s of Some i \<Rightarrow> \<bar>i\<bar> < 2 ^ 53 | None \<Rightarrow> False) | _ \<Rightarrow> True) cs
         then Inr (map (\<lambda>c. case c of
                            Text s \<Rightarrow> (case int_token s of
                                        Some i \<Rightarrow> if NaN \<in> set cs then FloatV i else IntV i
                                      | None \<Rightarrow> c)
                          | _ \<Rightarrow> c) cs)
         else Inl (NotModelled ''integer column beyond 2^53''))
      else if list_all (\<lambda>c. case c of Text s \<Rightarrow> float_like s | NaN \<Rightarrow> True | _ \<Rightarrow> False) cs
      then Inl (NotModelled ''float column'')
      else if list_all (\<lambda>c. case c of Text s \<Rightarrow> bool_token s \<noteq> None | NaN \<Rightarrow> True | _ \<Rightarrow> False) cs
      then Inr (map (\<lambda>c. case c of
                         Text s \<Rightarrow> (case bool_token s of Some b \<Rightarrow> BoolV b | None \<Rightarrow> c)
                       | _ \<Rightarrow> c) cs)
      else Inr cs)"

text \<open>The parser converts the columns left to right; the frame is their transpose.\<close>

definition infer_dtypes :: "cell list list \<Rightarrow> py_error + cell list list" where
  "infer_dtypes rs =
     (case seq_sum (map column_convert (transpose rs)) of
        Inl e \<Rightarrow> Inl e
      | Inr cols \<Rightarrow> Inr (transpose cols))"

text \<open>
  The column names of a header row (\<open>TextReader._get_header\<close>): an empty
  name becomes \<open>Unnamed: i\<close>; then the names are visited, the given ones
  before the unnamed ones, and a name \<open>old\<close> already taken is replaced by
  \<open>old.k\<close>, where the inner \<open>while\<close> loop (\<open>mangle_loop\<close>) searches \<open>k\<close>
  from the name's count in the dictionary \<open>counts\<close> (an association list),
  stepping past names of the header. On a dictionary that is not one the
  header walk builds, the loop need not end, so it is a partial function
  whose result is \<open>None\<close> when it runs forever.
\<close>

partial_function (option) mangle_loop ::
  "string list \<Rightarrow> string \<Rightarrow> (string \<times> nat) list \<Rightarrow> string \<Rightarrow> nat \<Rightarrow> ((string \<times> nat) list \<times> string \<times> nat) option"
where
  "mangle_loop hdr old counts col cur =
     (if cur = 0 then Some (counts, col, cur)
      else (let counts' = AList.update old (cur + 1) counts;
                col' = old @ CHR ''.'' # nat_str cur
            in mangle_loop hdr old counts' col'
                 (if col' \<in> set hdr then cur + 1 else (case map_of counts' col' of Some k \<Rightarrow> k | None \<Rightarrow> 0))))"

declare mangle_loop.simps [code]

text \<open>One pass of the \<open>for i in col_loop_order\<close> loop per index, on the header and the counts.\<close>

fun mangle_cols :: "nat list \<Rightarrow> string list \<Rightarrow> (string \<times> nat) list \<Rightarrow> string list option" where
  "mangle_cols [] hdr counts = Some hdr"
| "mangle_cols (i # is) hdr counts =
     (let col = hdr ! i; cur = (case map_of counts col of Some k \<Rightarrow> k | None \<Rightarrow> 0)
      in case mangle_loop hdr col counts col cur of
           None \<Rightarrow> None
         | Some (counts', col', cur') \<Rightarrow> mangle_cols is (hdr[i := col']) (AList.update col' (cur' + 1) counts'))"

definition header_names :: "string list \<Rightarrow> string list option" where
  "header_names h =
     mangle_cols (filter (\<lambda>i. h ! i \<noteq> []) [0..<length h] @ filter (\<lambda>i. h ! i = []) [0..<length h])
       (map (\<lambda>(i, n). if n = [] then ''Unnamed: '' @ nat_str i else n) (zip [0..<length h] h)) []"

definition read_with_header :: "char \<Rightarrow> string \<Rightarrow> py_error + frame" where
  "read_with_header sep text =
     (case csv_records sep text of
        [] \<Rightarrow> Inl (EmptyDataError ''No columns to parse from file'')
      | h # recs \<Rightarrow>
          (case shape_rows (length h) (tl (record_lines sep text)) recs of
             Inl e \<Rightarrow> Inl e
           | Inr rs \<Rightarrow>
               (case infer_dtypes rs of
                  Inl e \<Rightarrow> Inl e
                | Inr rs' \<Rightarrow>
                    (case header_names h of
                       None \<Rightarrow> Inl (NotModelled ''header renaming without end'')
                     | Some cols \<Rightarrow> Inr \<lparr>columns = cols, rows = rs'\<rparr>))))"

definition read_with_names :: "char \<Rightarrow> string list \<Rightarrow> string \<Rightarrow> py_error + frame" where
  "read_with_names sep names text =
     (case csv_records sep text of
        [] \<Rightarrow> Inr \<lparr>columns = names, rows = []\<rparr>
      | recs \<Rightarrow>
          (case shape_rows (length names) (record_lines sep text) recs of
             Inl e \<Rightarrow> Inl e
           | Inr rs \<Rightarrow>
               (case infer_dtypes rs of
                  Inl e \<Rightarrow> Inl e
                | Inr rs' \<Rightarrow> Inr \<lparr>columns = names, rows = rs'\<rparr>)))"

datatype header_spec = HeaderRow | Names "string list"

text \<open>
  The inputs inside the modelled subset: no records, or a separator other
  than the quote and the line break characters, no field opening with a quote
  character (the tokenizer's quoted-field state) and no UTF-8 byte order mark
  opening the first record.
\<close>

definition csv_in_model :: "char \<Rightarrow> string \<Rightarrow> bool" where
  "csv_in_model c text \<longleftrightarrow>
     (let recs = csv_records c text in
      recs = []
      \<or> ((of_char c :: nat) \<notin> {10, 13, 34}
          \<and> \<not> list_ex (list_ex (\<lambda>f. f \<noteq> [] \<and> (of_char (hd f) :: nat) = 34)) recs
          \<and> map (\<lambda>x. of_char x :: nat) (take 3 (hd (hd recs))) \<noteq> [239, 187, 191]))"

definition read_csv :: "string \<Rightarrow> string \<Rightarrow> header_spec \<Rightarrow> py_error + frame" where
  "read_csv text sep hdr =
     (case sep of
        [c] \<Rightarrow>
          (if \<not> csv_in_model c text
           then Inl (NotModelled ''quoting, byte order mark or separator outside the model'')
           else case hdr of
                  HeaderRow \<Rightarrow> read_with_header c text
                | Names ns \<Rightarrow> read_with_names c ns text)
      | _ \<Rightarrow> Inl (NotModelled ''separator that is not one character''))"

text \<open>A field the reader keeps as text: not an NA string, a number or a boolean.\<close>

definition text_field :: "string \<Rightarrow> bool" where
  "text_field f \<longleftrightarrow>
     f \<notin> set pandas_na_values \<and> int_token f = None \<and> \<not> float_like f \<and> bool_token f = None"

text \<open>
  A field the tokenizer reads back unchanged from a line: no separator, no
  line break, and no quote character opening it.
\<close>

definition plain_field :: "char \<Rightarrow> string \<Rightarrow> bool" where
  "plain_field c f \<longleftrightarrow>
     list_all (\<lambda>x. x \<noteq> c \<and> x \<noteq> CHR ''\<newline>'' \<and> x \<noteq> CHR 0x0D) f \<and> (f = [] \<or> (of_char (hd f) :: nat) \<noteq> 34)"

text \<open>The comma-separated file with the header \<open>question,answer\<close> and one line per pair.\<close>

definition csv_of_pairs :: "(string \<times> string) list \<Rightarrow> string" where
  "csv_of_pairs ps = join_with ''\<newline>'' (''question,answer'' # map (\<lambda>(q, a). q @ CHR '','' # a) ps)"

section \<open>DataFrame.iterrows\<close>

text \<open>
  The dtype of a column, and the rows \<open>iterrows\<close> yields: each row is a
  Series of the columns' common dtype, so when every column is int64 or
  float64 and one is float64, the integers of the row become floats.
\<close>

definition col_dtype :: "cell list \<Rightarrow> string" where
  "col_dtype cs =
     (if list_all (\<lambda>c. case c of IntV _ \<Rightarrow> True | _ \<Rightarrow> False) cs then ''int64''
      else if list_all (\<lambda>c. case c of FloatV _ \<Rightarrow> True | NaN \<Rightarrow> True | _ \<Rightarrow> False) cs then ''float64''
      else if list_all (\<lambda>c. case c of BoolV _ \<Rightarrow> True | _ \<Rightarrow> False) cs then ''bool''
      else ''object'')"

definition iter_rows :: "frame \<Rightarrow> cell list list" where
  "iter_rows df =
     (let dts = map col_dtype (transpose (rows df)) in
      if list_all (\<lambda>d. d = ''int64'' \<or> d = ''float64'') dts \<and> ''float64'' \<in> set dts
      then map (map (\<lambda>c. case c of IntV i \<Rightarrow> FloatV i | _ \<Rightarrow> c)) (rows df)
      else rows df)"

text \<open>Two reader results that agree up to the line number a \<open>ParserError\<close> names.\<close>

definition eq_up_to_parser_msg :: "py_error + 'a \<Rightarrow> py_error + 'a \<Rightarrow> bool" where
  "eq_up_to_parser_msg x y \<longleftrightarrow> x = y \<or> (\<exists>m m'. x = Inl (ParserError m) \<and> y = Inl (ParserError m'))"

section \<open>Lemmas\<close>
lemma length_pad_row_drop:
  "length r \<le> k \<Longrightarrow> n \<le> k \<Longrightarrow> length (drop (k - n) (pad_row k r)) = n"
  by (simp add: pad_row_def)

lemma shape_rows_rect:
  assumes "shape_rows n lnos recs = Inr rs"
  shows "list_all (\<lambda>r. length r = n) rs \<and> length rs = length recs"
proof (cases recs)
  case Nil
  with assms show ?thesis by (simp add: shape_rows_def)
next
  case (Cons r0 rest)
  let ?k = "max n (length r0)"
  from assms Cons have ok: "\<not> list_ex (\<lambda>r. ?k < length r) recs"
    and rs: "rs = map (\<lambda>r. drop (?k - n) (pad_row ?k (map parse_cell r))) recs"
    by (auto simp: shape_rows_def Let_def split: if_splits option.splits)
  from ok have "\<forall>r \<in> set recs. length (map parse_cell r) \<le> ?k"
    by (auto simp: list_ex_iff)
  then show ?thesis
    using rs length_pad_row_drop [of _ ?k n] by (auto simp: list_all_iff)
qed

text \<open>Without an implicit index, rows are the parsed records padded to the width.\<close>

lemma shape_rows_fit:
  assumes "list_all (\<lambda>r. length r \<le> n) recs"
  shows "shape_rows n lnos recs = Inr (map (\<lambda>r. pad_row n (map parse_cell r)) recs)"
proof (cases recs)
  case Nil
  then show ?thesis by (simp add: shape_rows_def)
next
  case (Cons r0 rest)
  with assms have "max n (length r0) = n" by simp
  with assms Cons show ?thesis
    by (auto simp: shape_rows_def list_all_iff list_ex_iff Let_def)
qed

lemma column_convert_length: "column_convert cs = Inr cs' \<Longrightarrow> length cs' = length cs"
  by (auto simp: column_convert_def split: if_splits)

lemma transpose_rect:
  assumes "list_all (\<lambda>r. length r = n) rs" and "rs \<noteq> []"
  shows "transpose rs = map (\<lambda>i. map (\<lambda>j. rs ! j ! i) [0..<length rs]) [0..<n]"
  using assms by (intro transpose_rectangle) (auto simp: list_all_length)

lemma infer_dtypes_rect:
  assumes r: "list_all (\<lambda>r. length r = n) rs" and i: "infer_dtypes rs = Inr rs'"
  shows "list_all (\<lambda>r. length r = n) rs' \<and> (0 < n \<longrightarrow> length rs' = length rs)"
proof (cases "rs = []")
  case True
  with i show ?thesis by (simp add: infer_dtypes_def)
next
  case False
  obtain cols where s: "seq_sum (map column_convert (transpose rs)) = Inr cols"
    and rs': "rs' = transpose cols"
    using i by (auto simp: infer_dtypes_def split: sum.splits)
  have a2: "list_all2 (\<lambda>x y. column_convert x = Inr y) (transpose rs) cols"
    using s by (simp add: seq_sum_map_Inr)
  have lc: "length cols = n" "\<forall>i<n. length (cols ! i) = length rs"
    using a2 transpose_rect [OF r False]
    by (auto simp: list_all2_conv_all_nth dest!: column_convert_length)
  show ?thesis
  proof (cases "n = 0")
    case True
    with lc rs' show ?thesis by simp
  next
    case False
    have "transpose cols = map (\<lambda>i. map (\<lambda>j. cols ! j ! i) [0..<length cols]) [0..<length rs]"
      by (rule transpose_rectangle) (use lc False in auto)
    with rs' lc False show ?thesis by (simp add: list_all_iff)
  qed
qed

lemma transpose_transpose_rect:
  assumes "list_all (\<lambda>r. length r = n) rs" and "0 < n"
  shows "transpose (transpose rs) = rs"
proof -
  have "map length rs = replicate (length rs) n"
    using assms(1) by (induction rs) auto
  then have "sorted (rev (map length rs))" by simp
  moreover have "takeWhile (\<lambda>x. x \<noteq> []) rs = rs"
    using assms by (auto simp: list_all_iff takeWhile_eq_all_conv)
  ultimately show ?thesis by (simp add: transpose_transpose)
qed

text \<open>Columns that keep their text leave the rows as they are.\<close>

lemma infer_dtypes_same:
  assumes "list_all (\<lambda>r. length r = n) rs" and "0 < n"
    and "\<forall>cs \<in> set (transpose rs). column_convert cs = Inr cs"
  shows "infer_dtypes rs = Inr rs"
  using seq_sum_map_same [OF assms(3)] transpose_transpose_rect [OF assms(1,2)]
  by (simp add: infer_dtypes_def)

lemma column_convert_text:
  "list_ex (\<lambda>c. case c of Text s \<Rightarrow> int_token s = None \<and> \<not> float_like s \<and> bool_token s = None | _ \<Rightarrow> False) cs
   \<Longrightarrow> column_convert cs = Inr cs"
proof -
  assume "list_ex (\<lambda>c. case c of Text s \<Rightarrow> int_token s = None \<and> \<not> float_like s \<and> bool_token s = None | _ \<Rightarrow> False) cs"
  then obtain c where c: "c \<in> set cs"
    and p: "case c of Text s \<Rightarrow> int_token s = None \<and> \<not> float_like s \<and> bool_token s = None | _ \<Rightarrow> False"
    unfolding list_ex_iff by blast
  from p obtain s where "c = Text s" by (cases c) simp_all
  with c p have s: "Text s \<in> set cs" "int_token s = None" "\<not> float_like s" "bool_token s = None"
    by simp_all
  have "\<not> list_all (\<lambda>c. case c of Text s \<Rightarrow> int_token s \<noteq> None | NaN \<Rightarrow> True | _ \<Rightarrow> False) cs"
    "\<not> list_all (\<lambda>c. case c of Text s \<Rightarrow> float_like s | NaN \<Rightarrow> True | _ \<Rightarrow> False) cs"
    "\<not> list_all (\<lambda>c. case c of Text s \<Rightarrow> bool_token s \<noteq> None | NaN \<Rightarrow> True | _ \<Rightarrow> False) cs"
    unfolding list_all_iff by (simp_all add: s(2-4) bexI [OF _ s(1)])
  then show ?thesis by (simp only: column_convert_def if_False)
qed

lemma cell_in_transpose:
  assumes "list_all (\<lambda>r. length r = n) rs" and "r \<in> set rs" and "c \<in> set r"
  shows "\<exists>cs \<in> set (transpose rs). c \<in> set cs"
proof -
  obtain j where j: "j < length rs" "rs ! j = r" using assms(2) by (auto simp: in_set_conv_nth)
  obtain i where i: "i < length r" "r ! i = c" using assms(3) by (auto simp: in_set_conv_nth)
  have n: "length r = n" using assms(1,2) by (simp add: list_all_iff)
  have "rs \<noteq> []" using assms(2) by auto
  note t = transpose_rect [OF assms(1) this]
  have "map (\<lambda>j. rs ! j ! i) [0..<length rs] \<in> set (transpose rs)"
    unfolding t using i n by (auto intro!: image_eqI [where x = i])
  moreover have "c \<in> set (map (\<lambda>j. rs ! j ! i) [0..<length rs])"
    using i j by force
  ultimately show ?thesis by blast
qed

lemma text_field_parse: "text_field f \<Longrightarrow> parse_cell f = Text f"
  by (simp add: text_field_def parse_cell_def)

lemma column_convert_text_field:
  assumes "Text f \<in> set cs" and "text_field f"
  shows "column_convert cs = Inr cs"
proof (rule column_convert_text)
  show "list_ex (\<lambda>c. case c of Text s \<Rightarrow> int_token s = None \<and> \<not> float_like s \<and> bool_token s = None | _ \<Rightarrow> False) cs"
    unfolding list_ex_iff using assms(2) by (intro bexI [OF _ assms(1)]) (simp add: text_field_def)
qed

lemma column_convert_NaN: "column_convert (replicate k NaN) = Inr (replicate k NaN)"
  by (simp add: column_convert_def list_all_iff)

lemma transpose_single_col: "xs \<noteq> [] \<Longrightarrow> transpose (map (\<lambda>x. [f x]) xs) = [map f xs]"
proof -
  assume "xs \<noteq> []"
  then have "transpose (map (\<lambda>x. [f x]) xs)
      = map (\<lambda>i. map (\<lambda>j. map (\<lambda>x. [f x]) xs ! j ! i) [0..<length (map (\<lambda>x. [f x]) xs)]) [0..<1]"
    by (intro transpose_rect) (simp_all add: list_all_iff)
  moreover have "map (\<lambda>j. map (\<lambda>x. [f x]) xs ! j ! 0) [0..<length xs] = map f xs"
    by (rule nth_equalityI) simp_all
  ultimately show ?thesis by simp
qed

text \<open>A text or boolean cell makes its column's dtype object or bool, so \<open>iterrows\<close> casts nothing.\<close>

lemma iter_rows_keep:
  assumes "list_all (\<lambda>r. length r = n) (rows df)" and "r \<in> set (rows df)" and "c \<in> set r"
    and "case c of Text _ \<Rightarrow> True | BoolV _ \<Rightarrow> True | _ \<Rightarrow> False"
  shows "iter_rows df = rows df"
proof -
  obtain cs where cs: "cs \<in> set (transpose (rows df))" "c \<in> set cs"
    using cell_in_transpose [OF assms(1-3)] by blast
  have "col_dtype cs \<noteq> ''int64'' \<and> col_dtype cs \<noteq> ''float64''"
    using cs(2) assms(4) by (auto simp: col_dtype_def list_all_iff split: cell.splits)
  with cs(1) show ?thesis by (auto simp: iter_rows_def Let_def list_all_iff)
qed

lemma iter_rows_shape:
  "length (iter_rows df) = length (rows df)"
  "list_all (\<lambda>r. length r = k) (rows df) \<Longrightarrow> list_all (\<lambda>r. length r = k) (iter_rows df)"
  by (simp_all add: iter_rows_def Let_def list_all_iff)

subsection \<open>Header names: the renaming loop returns, and the names are distinct\<close>

lemma mangle_name_finite: "finite {c. old @ CHR ''.'' # nat_str c \<in> set hdr}"
proof -
  have "inj (\<lambda>c. old @ CHR ''.'' # nat_str c)" by (auto intro: injI simp: nat_str_inj)
  from finite_vimageI [OF finite_set this] show ?thesis by (simp add: vimage_def)
qed

lemma mangle_loop_stop:
  assumes keys: "fst ` set counts \<subseteq> set hdr" and old: "old \<in> set hdr"
    and run: "\<forall>c. cur \<le> c \<and> c < b \<longrightarrow> old @ CHR ''.'' # nat_str c \<in> set hdr"
    and stop: "old @ CHR ''.'' # nat_str b \<notin> set hdr" and pos: "0 < cur" "cur \<le> b"
  shows "mangle_loop hdr old counts col cur = Some (AList.update old (b + 1) counts, old @ CHR ''.'' # nat_str b, 0)"
  using keys run pos
proof (induction "b - cur" arbitrary: cur counts col)
  case 0
  then have b: "cur = b" by simp
  have "fst ` set (AList.update old (b + 1) counts) \<subseteq> set hdr"
    using 0(2) old by (simp add: dom_update)
  then have "map_of (AList.update old (b + 1) counts) (old @ CHR ''.'' # nat_str b) = None"
    using stop by (auto simp: map_of_eq_None_iff)
  then show ?case
    using b stop 0(4) by (simp add: mangle_loop.simps [of hdr old counts] mangle_loop.simps [of hdr old _ _ 0])
next
  case (Suc d)
  then have lt: "cur < b" and inh: "old @ CHR ''.'' # nat_str cur \<in> set hdr" by auto
  have keys': "fst ` set (AList.update old (cur + 1) counts) \<subseteq> set hdr"
    using Suc(3) old by (simp add: dom_update)
  have "mangle_loop hdr old (AList.update old (cur + 1) counts) (old @ CHR ''.'' # nat_str cur) (Suc cur)
      = Some (AList.update old (b + 1) (AList.update old (cur + 1) counts), old @ CHR ''.'' # nat_str b, 0)"
    using Suc(1) [of "Suc cur"] Suc(2) keys' Suc(4) lt by simp
  then show ?case
    using Suc(5) inh by (simp add: mangle_loop.simps [of hdr old counts])
qed

lemma mangle_loop_returns:
  assumes keys: "fst ` set counts \<subseteq> set hdr" and old: "old \<in> set hdr" and pos: "0 < cur"
  shows "\<exists>b. old @ CHR ''.'' # nat_str b \<notin> set hdr \<and>
           mangle_loop hdr old counts col cur = Some (AList.update old (b + 1) counts, old @ CHR ''.'' # nat_str b, 0)"
proof -
  let ?S = "{c. cur \<le> c \<and> old @ CHR ''.'' # nat_str c \<notin> set hdr}"
  obtain m where m: "\<forall>c \<in> {c. old @ CHR ''.'' # nat_str c \<in> set hdr}. c \<le> m"
    using mangle_name_finite [of old hdr] finite_nat_set_iff_bounded_le by blast
  have "cur + m + 1 \<in> ?S" using m by fastforce
  then have in_S: "Least (\<lambda>c. c \<in> ?S) \<in> ?S" by (rule LeastI)
  have "\<forall>c. cur \<le> c \<and> c < Least (\<lambda>c. c \<in> ?S) \<longrightarrow> old @ CHR ''.'' # nat_str c \<in> set hdr"
    using not_less_Least [where P = "\<lambda>c. c \<in> ?S"] by blast
  with in_S show ?thesis
    using mangle_loop_stop [OF keys old _ _ pos] by blast
qed

lemma nth_update_image: "i \<notin> P \<Longrightarrow> (!) (xs[i := x]) ` P = (!) xs ` P"
proof -
  assume "i \<notin> P"
  then have "j \<in> P \<Longrightarrow> xs[i := x] ! j = xs ! j" for j by (metis nth_list_update_neq)
  then show ?thesis by (simp cong: image_cong)
qed

lemma mangle_col_step:
  assumes keys: "fst ` set counts = (!) hdr ` P" and pos: "\<forall>k. map_of counts k \<noteq> Some 0"
    and i: "i < length hdr" "i \<notin> P" and P: "P \<subseteq> {..<length hdr}"
  obtains counts' col' cur' where
    "mangle_loop hdr (hdr ! i) counts (hdr ! i) (case map_of counts (hdr ! i) of Some k \<Rightarrow> k | None \<Rightarrow> 0)
       = Some (counts', col', cur')"
    "fst ` set (AList.update col' (cur' + 1) counts') = (!) (hdr[i := col']) ` insert i P"
    "\<forall>k. map_of (AList.update col' (cur' + 1) counts') k \<noteq> Some 0"
    "col' \<notin> (!) hdr ` P" "hdr ! i \<in> (!) hdr ` P \<or> col' = hdr ! i"
proof -
  note agree = nth_update_image [OF i(2), of hdr]
  have old: "hdr ! i \<in> set hdr" using i(1) by simp
  have kh: "fst ` set counts \<subseteq> set hdr" using keys P by auto
  show ?thesis
  proof (cases "map_of counts (hdr ! i)")
    case None
    then have "hdr ! i \<notin> (!) hdr ` P" using keys by (auto simp: map_of_eq_None_iff)
    moreover have "(!) (hdr[i := hdr ! i]) ` insert i P = insert (hdr ! i) ((!) hdr ` P)" by simp
    ultimately show ?thesis
      using that [of counts "hdr ! i" 0] None keys pos
      by (simp add: mangle_loop.simps [of hdr "hdr ! i" counts] dom_update update_conv')
  next
    case (Some c)
    have c: "0 < c" using pos Some by (metis gr0I)
    have "hdr ! i \<in> fst ` set counts" using Some by (metis domI dom_map_of_conv_image_fst)
    then have kin: "hdr ! i \<in> (!) hdr ` P" using keys by simp
    obtain b where nb: "hdr ! i @ CHR ''.'' # nat_str b \<notin> set hdr" and
      r: "mangle_loop hdr (hdr ! i) counts (hdr ! i) c
          = Some (AList.update (hdr ! i) (b + 1) counts, hdr ! i @ CHR ''.'' # nat_str b, 0)"
      using mangle_loop_returns [OF kh old c] by blast
    have "hdr ! i @ CHR ''.'' # nat_str b \<notin> (!) hdr ` P" using nb P by auto
    moreover have "(!) (hdr[i := hdr ! i @ CHR ''.'' # nat_str b]) ` insert i P
        = insert (hdr ! i @ CHR ''.'' # nat_str b) ((!) hdr ` P)"
      using i agree by simp
    ultimately show ?thesis
      using that [OF _ _ _ _ disjI1 [OF kin]] Some r keys kin pos
      by (simp add: dom_update insert_absorb update_conv')
  qed
qed

lemma mangle_cols_ok:
  assumes "fst ` set counts = (!) hdr ` P" "\<forall>k. map_of counts k \<noteq> Some 0"
    and "distinct is" "set is \<inter> P = {}" "set is \<subseteq> {..<length hdr}" "P \<subseteq> {..<length hdr}"
    and "inj_on ((!) hdr) P" "\<forall>k < length hdr. k \<notin> P \<longrightarrow> hdr ! k = named ! k"
    and "\<forall>k \<in> P. named ! k \<in> (!) hdr ` P"
  shows "\<exists>cols. mangle_cols is hdr counts = Some cols \<and> length cols = length hdr \<and>
           inj_on ((!) cols) (P \<union> set is) \<and> (\<forall>k \<in> P \<union> set is. named ! k \<in> (!) cols ` (P \<union> set is))"
  using assms
proof (induction "is" arbitrary: hdr counts P)
  case Nil
  then show ?case by simp
next
  case (Cons i "is")
  have i: "i < length hdr" "i \<notin> P" using Cons.prems(4,5) by auto
  obtain counts' col' cur' where
    r: "mangle_loop hdr (hdr ! i) counts (hdr ! i) (case map_of counts (hdr ! i) of Some k \<Rightarrow> k | None \<Rightarrow> 0)
       = Some (counts', col', cur')"
    and k: "fst ` set (AList.update col' (cur' + 1) counts') = (!) (hdr[i := col']) ` insert i P"
    and p: "\<forall>k. map_of (AList.update col' (cur' + 1) counts') k \<noteq> Some 0"
    and fresh: "col' \<notin> (!) hdr ` P" and old: "hdr ! i \<in> (!) hdr ` P \<or> col' = hdr ! i"
    using mangle_col_step [OF Cons.prems(1,2) i Cons.prems(6)] by blast
  have img: "(!) (hdr[i := col']) ` P = (!) hdr ` P" by (rule nth_update_image [OF i(2)])
  have "inj_on ((!) (hdr[i := col'])) (insert i P)"
    using Cons.prems(7) fresh i img by (auto simp: inj_on_def nth_list_update)
  moreover have "\<forall>k < length (hdr[i := col']). k \<notin> insert i P \<longrightarrow> hdr[i := col'] ! k = named ! k"
    using Cons.prems(8) by simp
  moreover have "\<forall>k \<in> insert i P. named ! k \<in> (!) (hdr[i := col']) ` insert i P"
    using Cons.prems(8,9) old i img by auto
  ultimately obtain cols where
    "mangle_cols is (hdr[i := col']) (AList.update col' (cur' + 1) counts') = Some cols \<and> length cols = length hdr \<and>
     inj_on ((!) cols) (insert i P \<union> set is) \<and> (\<forall>k \<in> insert i P \<union> set is. named ! k \<in> (!) cols ` (insert i P \<union> set is))"
    using Cons.IH [OF k p] Cons.prems(3-6) i by fastforce
  then show ?case using r by (simp add: Let_def)
qed

lemma header_names_total:
  "\<exists>cols. header_names h = Some cols \<and> length cols = length h \<and> distinct cols \<and>
     set (map (\<lambda>(k, n). if n = [] then ''Unnamed: '' @ nat_str k else n) (zip [0..<length h] h)) \<subseteq> set cols"
proof -
  let ?named = "map (\<lambda>(i, n). if n = [] then ''Unnamed: '' @ nat_str i else n) (zip [0..<length h] h)"
  let ?order = "filter (\<lambda>i. h ! i \<noteq> []) [0..<length h] @ filter (\<lambda>i. h ! i = []) [0..<length h]"
  have o: "distinct ?order" "set ?order = {..<length h}" by (auto simp: set_filter)
  obtain cols where c: "mangle_cols ?order ?named [] = Some cols" "length cols = length h"
    and inj: "inj_on ((!) cols) {..<length h}"
    and keep: "\<forall>k \<in> {..<length h}. ?named ! k \<in> (!) cols ` {..<length h}"
    using mangle_cols_ok [of "[]" ?named "{}" ?order ?named] o by auto
  have "distinct cols" using inj c(2) by (auto simp: distinct_conv_nth inj_on_def)
  moreover have "(!) cols ` {..<length h} = set cols" using c(2) by (auto simp: in_set_conv_nth)
  moreover have "set ?named \<subseteq> (!) cols ` {..<length h}"
  proof
    fix x assume "x \<in> set ?named"
    then obtain k where "k < length h" "x = ?named ! k" by (auto simp: in_set_conv_nth)
    with keep show "x \<in> (!) cols ` {..<length h}" by blast
  qed
  ultimately show ?thesis
    using c by (auto simp: header_names_def)
qed

lemma mangle_cols_length:
  "mangle_cols is hdr counts = Some cols \<Longrightarrow> length cols = length hdr"
  by (induction "is" hdr counts rule: mangle_cols.induct) (auto simp: Let_def split: option.splits prod.splits)

lemma header_names_length: "header_names h = Some cols \<Longrightarrow> length cols = length h"
  by (auto simp: header_names_def dest: mangle_cols_length)

lemma reader_rect:
  assumes "shape_rows n lnos recs = Inr rs" and "infer_dtypes rs = Inr rs'"
  shows "list_all (\<lambda>r. length r = n) rs'"
  using infer_dtypes_rect [OF conjunct1 [OF shape_rows_rect [OF assms(1)]] assms(2)] by simp

lemma read_csv_rectangular:
  assumes "read_csv text sep hdr = Inr df"
  shows "rectangular df"
proof -
  have "rows df = [] \<or> (\<exists>n lnos recs rs. shape_rows n lnos recs = Inr rs \<and> infer_dtypes rs = Inr (rows df)
                          \<and> n = length (columns df))"
    using assms
    by (auto simp: read_csv_def read_with_header_def read_with_names_def dest!: header_names_length
        split: list.splits header_spec.splits sum.splits if_splits option.splits)
  then show ?thesis unfolding rectangular_def by (auto intro: reader_rect)
qed

lemma assign_const_new:
  "col \<notin> set (columns df) \<Longrightarrow>
   assign_const col v df = \<lparr>columns = columns df @ [col], rows = map (\<lambda>r. r @ [Text v]) (rows df)\<rparr>"
proof -
  assume "col \<notin> set (columns df)"
  then have "map_of (zip (columns df) [0..<length (columns df)]) col = None"
    by simp
  then show ?thesis by (simp add: assign_const_def del: map_of_zip_is_None)
qed

lemma assign_const_rectangular:
  "rectangular df \<Longrightarrow> rectangular (assign_const col v df)"
  by (auto simp: assign_const_def rectangular_def list_all_iff split: option.split)

lemma series_get_found:
  "length r = length cols \<Longrightarrow> series_contains cols label \<Longrightarrow>
   \<exists>v. series_get cols r label = Inr v"
  by (auto simp: series_get_def series_contains_def split: option.split)

lemma series_get_snoc:
  assumes "length r = length cols" and "label \<notin> set cols"
  shows "series_get (cols @ [label]) (r @ [v]) label = Inr v"
proof -
  from assms have "map_of (zip cols r) label = None" by simp
  with assms(1) show ?thesis
    by (simp add: series_get_def map_add_def del: map_of_zip_is_None)
qed

lemma series_get_Cons:
  "series_get (label # cols) (v # r) label = Inr v"
  by (simp add: series_get_def)

text \<open>A text of newlines only has no records, so both readers raise \<open>EmptyDataError\<close>.\<close>

lemma norm_newlines_id: "CHR 0x0D \<notin> set t \<Longrightarrow> norm_newlines t = t"
  by (induction t rule: norm_newlines.induct) auto

lemma blank_lines_filtered:
  "set t \<subseteq> {c} \<Longrightarrow> filter (\<lambda>l. \<not> list_all P l) (split_char c t) = []"
  by (induction t) (auto simp: split_char_hd_tl)

lemma csv_records_blank: "set t \<subseteq> {CHR ''\<newline>''} \<Longrightarrow> csv_records c t = []"
proof -
  assume t: "set t \<subseteq> {CHR ''\<newline>''}"
  then have "norm_newlines t = t" by (intro norm_newlines_id) auto
  with t show ?thesis by (simp add: csv_records_def blank_lines_filtered)
qed

lemma read_csv_blank:
  "set t \<subseteq> {CHR ''\<newline>''} \<Longrightarrow> length sep = 1 \<Longrightarrow>
   read_csv t sep HeaderRow = Inl (EmptyDataError ''No columns to parse from file'')"
  by (auto simp: read_csv_def read_with_header_def csv_in_model_def csv_records_blank length_Suc_conv)

lemma read_csv_blank_names:
  "set t \<subseteq> {CHR ''\<newline>''} \<Longrightarrow> length sep = 1 \<Longrightarrow>
   read_csv t sep (Names ns) = Inr \<lparr>columns = ns, rows = []\<rparr>"
  by (auto simp: read_csv_def read_with_names_def csv_in_model_def csv_records_blank length_Suc_conv)

text \<open>
  Records all of one width \<open>k\<close> at least the number of names: the
  \<open>k - n\<close> leading fields of each become pandas' implicit index and are dropped.
\<close>

lemma shape_rows_index:
  "recs \<noteq> [] \<Longrightarrow> list_all (\<lambda>r. length r = k) recs \<Longrightarrow> n \<le> k \<Longrightarrow>
   shape_rows n lnos recs = Inr (map (\<lambda>r. drop (k - n) (map parse_cell r)) recs)"
  by (cases recs) (auto simp: shape_rows_def list_all_iff list_ex_iff pad_row_def max_def)

text \<open>The reader sees a text only through its lines that are not blank.\<close>

lemma csv_records_lines:
  assumes "\<forall>l \<in> set ls. CHR ''\<newline>'' \<notin> set l \<and> CHR 0x0D \<notin> set l"
  shows "csv_records c (join_with ''\<newline>'' ls)
    = map (split_char c) (filter (\<lambda>l. \<not> list_all (\<lambda>x. (x = CHR '' '' \<or> x = CHR 0x09) \<and> x \<noteq> c) l) ls)"
proof -
  have "CHR 0x0D \<notin> set (join_with ''\<newline>'' ls)"
    using assms join_with_set [of "CHR 0x0D" "''\<newline>''" ls] by auto
  then have "norm_newlines (join_with ''\<newline>'' ls) = join_with ''\<newline>'' ls"
    by (rule norm_newlines_id)
  with assms show ?thesis
    by (cases "ls = []") (simp_all add: csv_records_def split_join_char)
qed

lemma csv_records_drop_blank:
  assumes "\<forall>l \<in> set ls. CHR ''\<newline>'' \<notin> set l \<and> CHR 0x0D \<notin> set l"
  shows "csv_records c (join_with ''\<newline>'' (filter (\<lambda>l. l \<noteq> []) ls)) = csv_records c (join_with ''\<newline>'' ls)"
proof -
  have "\<forall>l \<in> set (filter (\<lambda>l. l \<noteq> []) ls). CHR ''\<newline>'' \<notin> set l \<and> CHR 0x0D \<notin> set l"
    using assms by simp
  moreover have "filter (\<lambda>l. \<not> list_all (\<lambda>x. (x = CHR '' '' \<or> x = CHR 0x09) \<and> x \<noteq> c) l) (filter (\<lambda>l. l \<noteq> []) ls)
      = filter (\<lambda>l. \<not> list_all (\<lambda>x. (x = CHR '' '' \<or> x = CHR 0x09) \<and> x \<noteq> c) l) ls"
    unfolding filter_filter by (rule filter_cong) auto
  ultimately show ?thesis
    using assms by (simp only: csv_records_lines)
qed

lemma length_filter_zip_snd:
  "length xs = length ys \<Longrightarrow> length (filter (\<lambda>(i, l). P l) (zip xs ys)) = length (filter P ys)"
  by (induction xs ys rule: list_induct2) auto

lemma length_record_lines: "length (record_lines c t) = length (csv_records c t)"
proof -
  let ?ls = "split_char CHR ''\<newline>'' (norm_newlines t)"
  have "length [1..<Suc (length ?ls)] = length ?ls" by (simp only: length_upt diff_Suc_1)
  then show ?thesis
    unfolding record_lines_def csv_records_def Let_def length_map by (rule length_filter_zip_snd)
qed

text \<open>
  Two results that are equal, or both the tokenizer's \<open>ParserError\<close> (whose
  message names a line number).
\<close>

lemma eq_up_to_parser_msg_case:
  "eq_up_to_parser_msg x y \<Longrightarrow>
   eq_up_to_parser_msg (case x of Inl e \<Rightarrow> Inl e | Inr a \<Rightarrow> f a) (case y of Inl e \<Rightarrow> Inl e | Inr a \<Rightarrow> f a)"
  by (auto simp: eq_up_to_parser_msg_def)

lemma eq_up_to_parser_msg_refl [simp]: "eq_up_to_parser_msg x x"
  by (simp add: eq_up_to_parser_msg_def)

lemma find_zip_list_ex:
  assumes "length lx = length xs" and "list_ex P xs"
  shows "\<exists>l x. find (\<lambda>(l, x). P x) (zip lx xs) = Some (l, x) \<and> P x"
proof -
  from assms(2) obtain i where i: "i < length xs" "P (xs ! i)"
    by (auto simp: list_ex_iff in_set_conv_nth)
  then have "(lx ! i, xs ! i) \<in> set (zip lx xs)" using assms(1) by (auto simp: in_set_zip)
  with i(2) have "find (\<lambda>(l, x). P x) (zip lx xs) \<noteq> None" by (auto simp: find_None_iff)
  then obtain l x where f: "find (\<lambda>(l, x). P x) (zip lx xs) = Some (l, x)" by auto
  then have "P x" unfolding find_Some_iff by (metis case_prod_conv)
  with f show ?thesis by blast
qed

lemma shape_rows_lines:
  assumes "length l1 = length recs" and "length l2 = length recs"
  shows "eq_up_to_parser_msg (shape_rows n l1 recs) (shape_rows n l2 recs)"
proof (cases recs)
  case Nil
  then show ?thesis by (simp add: shape_rows_def)
next
  case (Cons r0 rest)
  let ?P = "\<lambda>(l, r). max n (length r0) < length r"
  have "find ?P (zip lx recs) \<noteq> None" if "length lx = length recs" "list_ex (\<lambda>r. max n (length r0) < length r) recs" for lx
    using find_zip_list_ex [OF that] by auto
  then show ?thesis
    using assms Cons by (auto simp: shape_rows_def eq_up_to_parser_msg_def Let_def split: option.splits)
qed

lemma read_csv_records:
  assumes "\<And>c. csv_records c t = csv_records c t'"
  shows "eq_up_to_parser_msg (read_csv t sep hdr) (read_csv t' sep hdr)"
proof -
  have l: "length (record_lines c t) = length (csv_records c t')" "length (record_lines c t') = length (csv_records c t')" for c
    using assms by (simp_all add: length_record_lines)
  have h: "eq_up_to_parser_msg (read_with_header c t) (read_with_header c t')" for c
  proof (cases "csv_records c t'")
    case Nil
    then show ?thesis by (simp add: read_with_header_def assms)
  next
    case (Cons h0 recs)
    with l have "length (tl (record_lines c t)) = length recs" "length (tl (record_lines c t')) = length recs"
      by simp_all
    from shape_rows_lines [OF this, of "length h0"] show ?thesis
      unfolding read_with_header_def assms Cons list.case by (rule eq_up_to_parser_msg_case)
  qed
  have n: "eq_up_to_parser_msg (read_with_names c ns t) (read_with_names c ns t')" for c ns
  proof (cases "csv_records c t'")
    case Nil
    then show ?thesis by (simp add: read_with_names_def assms)
  next
    case (Cons h0 recs)
    from shape_rows_lines [OF l(1) [of c] l(2) [of c], of "length ns", unfolded Cons] show ?thesis
      unfolding read_with_names_def assms Cons list.case by (rule eq_up_to_parser_msg_case)
  qed
  show ?thesis
    using h n by (simp add: read_csv_def csv_in_model_def assms split: list.split header_spec.split)
qed

text \<open>
  A one-column read of records all \<open>k\<close> fields wide: the last field of each
  record is its cell (the others are the implicit index), and a column with a
  text field keeps its cells.
\<close>

lemma drop_butlast_len: "xs \<noteq> [] \<Longrightarrow> drop (length xs - 1) xs = [last xs]"
  by (induction xs) (auto simp: drop_Cons' split: if_splits)

lemma read_csv_one_column:
  assumes m: "csv_in_model c t" and ne: "csv_records c t \<noteq> []"
    and k: "list_all (\<lambda>r. length r = k) (csv_records c t)" and k0: "0 < k"
    and tf: "list_ex (\<lambda>r. text_field (last r)) (csv_records c t)"
  shows "read_csv t [c] (Names [l]) = Inr \<lparr>columns = [l], rows = map (\<lambda>r. [parse_cell (last r)]) (csv_records c t)\<rparr>"
proof -
  let ?recs = "csv_records c t"
  have "map (\<lambda>r. drop (k - length [l]) (map parse_cell r)) ?recs = map (\<lambda>r. [parse_cell (last r)]) ?recs"
  proof (rule map_cong [OF refl])
    fix r assume "r \<in> set ?recs"
    with k k0 have "length r = k" "r \<noteq> []" by (auto simp: list_all_iff)
    then show "drop (k - length [l]) (map parse_cell r) = [parse_cell (last r)]"
      using drop_butlast_len [of "map parse_cell r"] by (simp add: last_map)
  qed
  then have s: "shape_rows (length [l]) (record_lines c t) ?recs = Inr (map (\<lambda>r. [parse_cell (last r)]) ?recs)"
    using shape_rows_index [OF ne k, of "length [l]"] k0 by simp
  obtain r0 where r0: "r0 \<in> set ?recs" "text_field (last r0)" using tf by (auto simp: list_ex_iff)
  have "Text (last r0) \<in> set (map (\<lambda>r. parse_cell (last r)) ?recs)"
    using r0 text_field_parse [OF r0(2)] by force
  then have "column_convert (map (\<lambda>r. parse_cell (last r)) ?recs) = Inr (map (\<lambda>r. parse_cell (last r)) ?recs)"
    using r0(2) by (rule column_convert_text_field)
  then have "infer_dtypes (map (\<lambda>r. [parse_cell (last r)]) ?recs) = Inr (map (\<lambda>r. [parse_cell (last r)]) ?recs)"
    by (intro infer_dtypes_same [where n = 1]) (simp_all add: list_all_iff transpose_single_col ne)
  moreover have "read_with_names c [l] t =
      (case shape_rows (length [l]) (record_lines c t) ?recs of
         Inl e \<Rightarrow> Inl e
       | Inr rs \<Rightarrow> (case infer_dtypes rs of Inl e \<Rightarrow> Inl e | Inr rs' \<Rightarrow> Inr \<lparr>columns = [l], rows = rs'\<rparr>))"
    using ne by (simp add: read_with_names_def split: list.split)
  ultimately show ?thesis
    using s m by (simp add: read_csv_def)
qed

text \<open>Reading back the lines of \<open>csv_of_pairs\<close>.\<close>

lemma plain_field_chars: "plain_field c f \<Longrightarrow> c \<notin> set f \<and> CHR ''\<newline>'' \<notin> set f \<and> CHR 0x0D \<notin> set f"
  unfolding plain_field_def list_all_iff by blast

lemma split_plain_pair:
  "plain_field c q \<Longrightarrow> plain_field c a \<Longrightarrow> split_char c (q @ c # a) = [q, a]"
proof -
  assume "plain_field c q" "plain_field c a"
  then have "c \<notin> set q" "c \<notin> set a" by (simp_all add: plain_field_chars)
  then show ?thesis by (simp add: split_char_field split_char_free)
qed

lemma csv_records_pairs:
  assumes "\<forall>(q, a) \<in> set ps. plain_field CHR '','' q \<and> plain_field CHR '','' a"
  shows "csv_records CHR '','' (csv_of_pairs ps) = [''question'', ''answer''] # map (\<lambda>(q, a). [q, a]) ps"
proof -
  let ?ls = "''question,answer'' # map (\<lambda>(q, a). q @ CHR '','' # a) ps"
  have "\<forall>(q, a) \<in> set ps. CHR ''\<newline>'' \<notin> set (q @ CHR '','' # a) \<and> CHR 0x0D \<notin> set (q @ CHR '','' # a)"
    using assms plain_field_chars by fastforce
  then have nl: "\<forall>l \<in> set ?ls. CHR ''\<newline>'' \<notin> set l \<and> CHR 0x0D \<notin> set l" by auto
  have "filter (\<lambda>l. \<not> list_all (\<lambda>x. (x = CHR '' '' \<or> x = CHR 0x09) \<and> x \<noteq> CHR '','') l) ?ls = ?ls"
    by (rule filter_True) auto
  moreover have "map (split_char CHR '','') (map (\<lambda>(q, a). q @ CHR '','' # a) ps) = map (\<lambda>(q, a). [q, a]) ps"
    using assms by (auto simp: split_plain_pair)
  moreover have "split_char CHR '','' ''question,answer'' = [''question'', ''answer'']"
    by (simp add: split_char_field split_char_free)
  ultimately show ?thesis
    using csv_records_lines [OF nl] by (simp add: csv_of_pairs_def)
qed

lemma csv_in_model_pairs:
  assumes "\<forall>(q, a) \<in> set ps. plain_field CHR '','' q \<and> plain_field CHR '','' a"
  shows "csv_in_model CHR '','' (csv_of_pairs ps)"
  using assms
  by (auto simp: csv_in_model_def csv_records_pairs list_ex_iff plain_field_def)

lemma map_nth_column: "map (\<lambda>j. map h ps ! j ! i) [0..<length ps] = map (\<lambda>x. h x ! i) ps"
  by (rule nth_equalityI) simp_all

lemma transpose_pairs:
  "ps \<noteq> [] \<Longrightarrow> transpose (map (\<lambda>(q, a). [f q, g a]) ps) = [map (\<lambda>(q, a). f q) ps, map (\<lambda>(q, a). g a) ps]"
proof -
  assume ne: "ps \<noteq> []"
  have "transpose (map (\<lambda>(q, a). [f q, g a]) ps)
      = map (\<lambda>i. map (\<lambda>j. map (\<lambda>(q, a). [f q, g a]) ps ! j ! i) [0..<length (map (\<lambda>(q, a). [f q, g a]) ps)]) [0..<2]"
    using ne by (intro transpose_rect) (auto simp: list_all_iff)
  also have "\<dots> = [map (\<lambda>(q, a). f q) ps, map (\<lambda>(q, a). g a) ps]"
    by (simp add: numeral_2_eq_2 map_nth_column case_prod_beta)
  finally show ?thesis .
qed

text \<open>The frame double mode reads from \<open>csv_of_pairs\<close>, given what each column converts to.\<close>

lemma read_csv_pairs:
  assumes pf: "\<forall>(q, a) \<in> set ps. plain_field CHR '','' q \<and> plain_field CHR '','' a" and ne: "ps \<noteq> []"
    and cq: "column_convert (map (\<lambda>(q, a). parse_cell q) ps) = Inr qs"
    and ca: "column_convert (map (\<lambda>(q, a). parse_cell a) ps) = Inr as"
  shows "read_csv (csv_of_pairs ps) '','' HeaderRow
    = Inr \<lparr>columns = [''question'', ''answer''], rows = map (\<lambda>i. [qs ! i, as ! i]) [0..<length ps]\<rparr>"
proof -
  let ?rows0 = "map (\<lambda>(q, a). [parse_cell q, parse_cell a]) ps"
  have "shape_rows 2 (tl (record_lines CHR '','' (csv_of_pairs ps))) (map (\<lambda>(q, a). [q, a]) ps) = Inr (map (\<lambda>r. pad_row 2 (map parse_cell r)) (map (\<lambda>(q, a). [q, a]) ps))"
    by (rule shape_rows_fit) (auto simp: list_all_iff)
  also have "map (\<lambda>r. pad_row 2 (map parse_cell r)) (map (\<lambda>(q, a). [q, a]) ps) = ?rows0"
    by (auto simp: pad_row_def)
  finally have s: "shape_rows 2 (tl (record_lines CHR '','' (csv_of_pairs ps))) (map (\<lambda>(q, a). [q, a]) ps) = Inr ?rows0" .
  have lq: "length qs = length ps" and la: "length as = length ps"
    using column_convert_length [OF cq] column_convert_length [OF ca] by simp_all
  have "transpose [qs, as] = map (\<lambda>i. map (\<lambda>j. [qs, as] ! j ! i) [0..<length [qs, as]]) [0..<length ps]"
    by (rule transpose_rectangle) (use lq la in \<open>auto simp: less_Suc_eq\<close>)
  then have t: "transpose [qs, as] = map (\<lambda>i. [qs ! i, as ! i]) [0..<length ps]"
    by (simp add: numeral_2_eq_2)
  have "infer_dtypes ?rows0 = Inr (map (\<lambda>i. [qs ! i, as ! i]) [0..<length ps])"
    using transpose_pairs [OF ne, of parse_cell parse_cell] cq ca t by (simp add: infer_dtypes_def)
  then show ?thesis
    using s csv_records_pairs [OF pf] csv_in_model_pairs [OF pf]
    by (simp add: read_csv_def read_with_header_def header_names_def mangle_loop.simps numeral_2_eq_2)
qed

lemma read_csv_pairs_map:
  assumes pf: "\<forall>(q, a) \<in> set ps. plain_field CHR '','' q \<and> plain_field CHR '','' a" and ne: "ps \<noteq> []"
    and cq: "column_convert (map (\<lambda>(q, a). parse_cell q) ps) = Inr (map (\<lambda>(q, a). F q) ps)"
    and ca: "column_convert (map (\<lambda>(q, a). parse_cell a) ps) = Inr (map (\<lambda>(q, a). G a) ps)"
  shows "read_csv (csv_of_pairs ps) '','' HeaderRow
    = Inr \<lparr>columns = [''question'', ''answer''], rows = map (\<lambda>(q, a). [F q, G a]) ps\<rparr>"
proof -
  have "map (\<lambda>i. [map (\<lambda>(q, a). F q) ps ! i, map (\<lambda>(q, a). G a) ps ! i]) [0..<length ps]
      = map (\<lambda>(q, a). [F q, G a]) ps"
    by (rule nth_equalityI) (simp_all split: prod.split)
  with read_csv_pairs [OF pf ne cq ca] show ?thesis by simp
qed

text \<open>Digit strings are integer tokens; a column of them becomes int64.\<close>

lemma digit_not_space: "is_digit c \<Longrightarrow> (of_char c :: nat) \<notin> {9, 10, 11, 12, 13, 32}"
  by (auto simp: is_digit_def)

lemma int_token_digits:
  assumes "ds \<noteq> []" and "list_all is_digit ds"
  shows "int_token ds = Some (int (digits_value ds))"
proof -
  let ?sp = "\<lambda>c. (of_char c :: nat) \<in> {9, 10, 11, 12, 13, 32}"
  have h: "is_digit (hd ds)" and l: "is_digit (last ds)"
    using assms by (auto simp: list_all_iff)
  have d1: "dropWhile ?sp ds = ds"
    using assms(1) digit_not_space [OF h] by (simp add: dropWhile_eq_self_iff)
  have d2: "dropWhile ?sp (rev ds) = rev ds"
    using assms(1) digit_not_space [OF l] by (simp add: dropWhile_eq_self_iff hd_rev)
  obtain c r where c: "ds = c # r" using assms(1) by (cases ds) auto
  have "c \<noteq> CHR ''-''" "c \<noteq> CHR ''+''" using h c by (auto simp: is_digit_def)
  with c d1 d2 assms show ?thesis by (simp add: int_token_def)
qed

lemma column_convert_ints:
  assumes "\<forall>s \<in> set ss. s \<noteq> [] \<and> list_all is_digit s \<and> digits_value s < 2 ^ 53"
  shows "column_convert (map Text ss) = Inr (map (\<lambda>s. IntV (int (digits_value s))) ss)"
proof -
  have t: "\<forall>s \<in> set ss. int_token s = Some (int (digits_value s)) \<and> int (digits_value s) < 2 ^ 53"
    using assms int_token_digits by (metis of_nat_less_iff of_nat_numeral of_nat_power)
  then have "list_all (\<lambda>c. case c of Text s \<Rightarrow> int_token s \<noteq> None | NaN \<Rightarrow> True | _ \<Rightarrow> False) (map Text ss)"
    "list_all (\<lambda>c. case c of Text s \<Rightarrow> (case int_token s of Some i \<Rightarrow> \<bar>i\<bar> < 2 ^ 53 | None \<Rightarrow> False) | _ \<Rightarrow> True) (map Text ss)"
    by (auto simp: list_all_iff)
  moreover have "NaN \<notin> set (map Text ss)" by auto
  ultimately show ?thesis using t by (simp add: column_convert_def)
qed

lemma csv_records_not_Nil: "r \<in> set (csv_records c t) \<Longrightarrow> r \<noteq> []"
  by (auto simp: csv_records_def)

text \<open>The frame read with a header row: its columns, one row per data record, one cell per column.\<close>

lemma read_csv_header_shape:
  assumes "read_csv t [c] HeaderRow = Inr df"
  shows "header_names (hd (csv_records c t)) = Some (columns df)
    \<and> length (rows df) = length (csv_records c t) - 1 \<and> rectangular df"
proof -
  obtain h recs lnos rs where e: "csv_records c t = h # recs" and s: "shape_rows (length h) lnos recs = Inr rs"
    and i: "infer_dtypes rs = Inr (rows df)" and cols: "header_names h = Some (columns df)"
    using assms by (auto simp: read_csv_def read_with_header_def split: if_splits list.splits sum.splits option.splits)
  have "h \<noteq> []" using csv_records_not_Nil [of h c t] e by simp
  then have "length (rows df) = length rs"
    using infer_dtypes_rect [OF conjunct1 [OF shape_rows_rect [OF s]] i] by simp
  then show ?thesis
    using e cols shape_rows_rect [OF s] read_csv_rectangular [OF assms] by simp
qed

lemma read_csv_sep: "read_csv t sep HeaderRow = Inr df \<Longrightarrow> sep \<noteq> ''\<newline>''"
  by (auto simp: read_csv_def csv_in_model_def read_with_header_def
      split: list.splits if_splits)

lemma digits_plain_field:
  assumes "list_all is_digit q" and "\<not> is_digit c"
  shows "plain_field c q"
proof -
  have "\<forall>x \<in> set q. x \<noteq> c \<and> x \<noteq> CHR ''\<newline>'' \<and> x \<noteq> CHR 0x0D"
    using assms by (auto simp: list_all_iff is_digit_def)
  moreover have "q = [] \<or> (of_char (hd q) :: nat) \<noteq> 34"
    using assms(1) by (cases q) (auto simp: is_digit_def)
  ultimately show ?thesis by (simp add: plain_field_def list_all_iff)
qed

lemma digits_not_na: "list_all is_digit q \<Longrightarrow> q \<noteq> [] \<Longrightarrow> q \<notin> set pandas_na_values"
  by (auto simp: pandas_na_values_def is_digit_def)

text \<open>An int64 column next to a float64 one: \<open>iterrows\<close> yields the integers as floats.\<close>

lemma iter_rows_int_float:
  assumes "ps \<noteq> []"
  shows "iter_rows \<lparr>columns = cols, rows = map (\<lambda>(q, a). [IntV (f q), NaN]) ps\<rparr>
    = map (\<lambda>(q, a). [FloatV (f q), NaN]) ps"
proof -
  have t: "transpose (map (\<lambda>(q, a). [IntV (f q), (\<lambda>_. NaN) a]) ps)
      = [map (\<lambda>(q, a). IntV (f q)) ps, map (\<lambda>(q, a). (\<lambda>_. NaN) a) ps]"
    by (rule transpose_pairs [OF assms])
  have "col_dtype (map (\<lambda>(q, a). IntV (f q)) ps) = ''int64''"
    by (simp add: col_dtype_def list_all_iff split: prod.split)
  moreover have "col_dtype (map (\<lambda>(q, a). NaN) ps) = ''float64''"
    using assms by (cases ps) (simp_all add: col_dtype_def list_all_iff split: prod.split)
  ultimately show ?thesis
    using t by (simp add: iter_rows_def Let_def split: prod.split)
qed


subsection \<open>No cell of a read frame is the empty string\<close>

text \<open>
  An empty field is one of pandas' NA strings, so no cell of a frame the
  reader builds is the empty text, and its \<open>str\<close> is never empty.
\<close>

lemma parse_cell_not_empty: "parse_cell f \<noteq> Text []"
  by (simp add: parse_cell_def pandas_na_values_def)

lemma shape_rows_not_empty:
  "shape_rows n lnos recs = Inr rs \<Longrightarrow> list_all (list_all (\<lambda>c. c \<noteq> Text [])) rs"
  by (auto simp: shape_rows_def pad_row_def list_all_iff parse_cell_not_empty parse_cell_not_empty [symmetric] Let_def
      split: option.splits
      list.splits if_splits dest!: in_set_dropD)

lemma column_convert_not_empty:
  assumes "column_convert cs = Inr cs'" and "list_all (\<lambda>c. c \<noteq> Text []) cs"
  shows "list_all (\<lambda>c. c \<noteq> Text []) cs'"
proof -
  have m: "list_all (\<lambda>c. c \<noteq> Text []) (map f cs)" if "\<And>c. c \<noteq> Text [] \<Longrightarrow> f c \<noteq> Text []" for f
    using assms(2) that by (simp add: list_all_iff)
  have f1: "(case c of Text s \<Rightarrow> (case int_token s of Some i \<Rightarrow> if NaN \<in> set cs then FloatV i else IntV i
                                      | None \<Rightarrow> c)
                     | _ \<Rightarrow> c) \<noteq> Text []" if "c \<noteq> Text []" for c
    using that by (cases c) (auto split: option.split)
  have f2: "(case c of Text s \<Rightarrow> (case bool_token s of Some b \<Rightarrow> BoolV b | None \<Rightarrow> c) | _ \<Rightarrow> c) \<noteq> Text []"
    if "c \<noteq> Text []" for c
    using that by (cases c) (auto split: option.split)
  show ?thesis
    using assms m [OF f1] m [OF f2] unfolding column_convert_def by (auto split: if_splits)
qed

lemma transpose_list_all:
  assumes "list_all (list_all P) xs"
  shows "list_all (list_all P) (transpose xs)"
proof -
  have "P x" if "ys \<in> set (transpose xs)" "x \<in> set ys" for ys x
  proof -
    from that(1) obtain i where i: "i < length (transpose xs)" "ys = transpose xs ! i"
      by (auto simp: in_set_conv_nth)
    with that(2) obtain zs where "zs \<in> set xs" "i < length zs" "x = zs ! i"
      by (auto simp: nth_transpose)
    with assms show ?thesis by (auto simp: list_all_iff)
  qed
  then show ?thesis by (auto simp: list_all_iff)
qed

lemma infer_dtypes_not_empty:
  assumes "infer_dtypes rs = Inr rs'" and "list_all (list_all (\<lambda>c. c \<noteq> Text [])) rs"
  shows "list_all (list_all (\<lambda>c. c \<noteq> Text [])) rs'"
proof -
  obtain cols where s: "list_all2 (\<lambda>x y. column_convert x = Inr y) (transpose rs) cols"
    and rs': "rs' = transpose cols"
    using assms(1) by (auto simp: infer_dtypes_def seq_sum_map_Inr split: sum.splits)
  have t: "list_all (list_all (\<lambda>c. c \<noteq> Text [])) (transpose rs)"
    by (rule transpose_list_all [OF assms(2)])
  have "list_all (list_all (\<lambda>c. c \<noteq> Text [])) cols"
    using s t by (induction rule: list_all2_induct) (auto intro: column_convert_not_empty)
  then show ?thesis unfolding rs' by (rule transpose_list_all)
qed

lemma read_csv_not_empty:
  assumes "read_csv t sep hdr = Inr df"
  shows "list_all (list_all (\<lambda>c. c \<noteq> Text [])) (rows df)"
  using assms
  by (auto simp: read_csv_def read_with_header_def read_with_names_def
      split: list.splits header_spec.splits sum.splits if_splits option.splits
      intro: infer_dtypes_not_empty shape_rows_not_empty)

lemma assign_const_not_empty:
  "v \<noteq> [] \<Longrightarrow> list_all (list_all (\<lambda>c. c \<noteq> Text [])) (rows df)
   \<Longrightarrow> list_all (list_all (\<lambda>c. c \<noteq> Text [])) (rows (assign_const col v df))"
  by (auto simp: assign_const_def list_all_iff split: option.splits dest!: set_update_subset_insert [THEN subsetD])

lemma iter_rows_not_empty:
  "list_all (list_all (\<lambda>c. c \<noteq> Text [])) (rows df) \<Longrightarrow> list_all (list_all (\<lambda>c. c \<noteq> Text [])) (iter_rows df)"
  by (auto simp: iter_rows_def Let_def list_all_iff split: cell.splits)

lemma py_str_cell_not_empty: "c \<noteq> Text [] \<Longrightarrow> py_str_cell c \<noteq> []"
  using nat_str_digits by (cases c) (auto simp: int_str_def)

end
