(* ===== verification/Anki.thy ===== *)
theory Anki
  imports Prelude
begin

text \<open>
  The flashcard data the converter builds with the \<open>genanki\<close> library: the
  fixed note type \<open>MODEL\<close> of \<open>src/genanki/csv2apkg.py\<close> (lines 10-25), notes,
  the deck, \<open>Deck.add_note\<close>, and the check that \<open>Package.write_to_file\<close>
  makes on every note before it serialises the deck (genanki's
  \<open>Note._check_number_model_fields_matches_num_fields\<close>, which raises
  \<open>ValueError\<close>). The SQLite/zip serialisation itself is not modelled: a
  written package is the deck value it holds. Note GUIDs (a hash of the
  fields) and the HTML-tag warnings are not modelled.
\<close>

section \<open>Note types: genanki.Model\<close>

record field_spec =
  field_name :: string
  field_font :: string

record card_template =
  template_name :: string
  qfmt :: string
  afmt :: string

record anki_model =
  model_id :: int
  model_name :: string
  model_fields :: "field_spec list"
  model_templates :: "card_template list"
  model_css :: string

text \<open>The module-level constant \<open>MODEL\<close>: two fields, one card template.\<close>

definition MODEL :: anki_model where
  "MODEL =
     \<lparr>model_id = 2559383000,
      model_name = ''Basic (zhaisilong)'',
      model_fields =
        [\<lparr>field_name = ''Front'', field_font = ''Arial''\<rparr>,
         \<lparr>field_name = ''Back'', field_font = ''Arial''\<rparr>],
      model_templates =
        [\<lparr>template_name = ''ZCard-1'',
          qfmt = ''{{Front}}'',
          afmt = ''{{FrontSide}}\<newline>\<newline><hr id=answer>\<newline>\<newline>{{Back}}''\<rparr>],
      model_css =
        ''.card {\<newline> font-family: Arial;\<newline> font-size: 20px;\<newline> text-align: center;\<newline> color: black;\<newline> background-color: white;\<newline>}\<newline>''\<rparr>"

section \<open>Notes: genanki.Note\<close>

record anki_note =
  note_model :: anki_model
  note_fields :: "string list"
  note_tags :: "string list"

definition new_note :: "anki_model \<Rightarrow> string list \<Rightarrow> anki_note" where
  "new_note m fs = \<lparr>note_model = m, note_fields = fs, note_tags = []\<rparr>"

section \<open>Decks: genanki.Deck and Deck.add_note\<close>

record deck =
  deck_id :: int
  deck_name :: string
  deck_description :: string
  deck_notes :: "anki_note list"

definition new_deck :: "int \<Rightarrow> string \<Rightarrow> deck" where
  "new_deck i n = \<lparr>deck_id = i, deck_name = n, deck_description = [], deck_notes = []\<rparr>"

definition add_note :: "anki_note \<Rightarrow> deck \<Rightarrow> deck" where
  "add_note n d = d\<lparr>deck_notes := deck_notes d @ [n]\<rparr>"

section \<open>Packages: the check made by Package.write_to_file\<close>

definition fields_match :: "anki_note \<Rightarrow> bool" where
  "fields_match n \<longleftrightarrow> length (note_fields n) = length (model_fields (note_model n))"

fun check_notes :: "anki_note list \<Rightarrow> py_error + unit" where
  "check_notes [] = Inr ()"
| "check_notes (n # ns) =
     (if fields_match n then check_notes ns
      else Inl (ValueError ''Number of fields in Model does not match number of fields in Note''))"

definition package_write :: "deck \<Rightarrow> py_error + deck" where
  "package_write d = (case check_notes (deck_notes d) of Inl e \<Rightarrow> Inl e | Inr _ \<Rightarrow> Inr d)"

section \<open>Lemmas\<close>

lemma check_notes_ok_iff: "check_notes ns = Inr () \<longleftrightarrow> list_all fields_match ns"
  by (induction ns) auto

lemma package_write_ok: "list_all fields_match (deck_notes d) \<Longrightarrow> package_write d = Inr d"
  by (simp add: package_write_def check_notes_ok_iff [symmetric])

lemma package_write_result: "package_write d = Inr d' \<Longrightarrow> d' = d"
  by (auto simp: package_write_def split: sum.splits)

lemma deck_notes_add_note [simp]: "deck_notes (add_note n d) = deck_notes d @ [n]"
  by (simp add: add_note_def)

lemma deck_id_add_note [simp]: "deck_id (add_note n d) = deck_id d"
  and deck_name_add_note [simp]: "deck_name (add_note n d) = deck_name d"
  by (simp_all add: add_note_def)

lemma new_note_sel [simp]:
  "note_fields (new_note m fs) = fs" "note_model (new_note m fs) = m" "note_tags (new_note m fs) = []"
  by (simp_all add: new_note_def)

lemma MODEL_two_fields: "length (model_fields MODEL) = 2"
  by (simp add: MODEL_def)

lemma fields_match_MODEL_note: "fields_match (new_note MODEL [q, a])"
  by (simp add: fields_match_def new_note_def MODEL_def)

end
