(* ===== verification/Converter.thy ===== *)
theory Converter
  imports Complex_Main PyPath CsvTable Anki
begin

text \<open>
  The function \<open>csv2apkg\<close> of \<open>src/genanki/csv2apkg.py\<close> (lines 28-83) over an
  explicit world: the files (a map from parsed paths to contents), the clock
  that \<open>time.time()\<close> reads, and the sequence of observable events (progress
  bar, printed lines, the package write). Arguments arrive as Python values
  because the command line is parsed by \<open>fire\<close>, which turns \<open>--title 2024\<close>
  into an integer. The row loop of lines 61-78 is \<open>process_rows\<close>, one
  \<open>row_step\<close> per iteration; the \<open>with tqdm(...)\<close> block is the
  \<open>ProgressOpen\<close>/\<open>ProgressClose\<close> events around it. Every exception is a
  value \<open>Inl e\<close> of the result, and the world returned with it is the world
  as the exception left it.
\<close>

section \<open>Python values, files, events and the world\<close>

datatype pyval = PyNone | PyStr string | PyInt int | PyBool bool

fun py_truthy :: "pyval \<Rightarrow> bool" where
  "py_truthy PyNone = False"
| "py_truthy (PyStr s) = (s \<noteq> [])"
| "py_truthy (PyInt i) = (i \<noteq> 0)"
| "py_truthy (PyBool b) = b"

fun is_pystr :: "pyval \<Rightarrow> bool" where
  "is_pystr (PyStr _) = True"
| "is_pystr _ = False"

fun pystr_value :: "pyval \<Rightarrow> string" where
  "pystr_value (PyStr s) = s"
| "pystr_value _ = []"

datatype file_content = TextFile string | ApkgFile deck

datatype event =
    ProgressOpen nat
  | ProgressUpdate nat
  | ProgressClose nat
  | SkipRow "string list" "cell list"
  | FileWritten ppath
  | Stdout string

record world =
  files :: "ppath \<Rightarrow> file_content option"
  clock :: real
  out :: "event list"

section \<open>The assert (line 32)\<close>

definition assert_csv :: "ppath \<Rightarrow> py_error + unit" where
  "assert_csv csv_path =
     (if path_suffix csv_path = ''.csv'' then Inr ()
      else Inl (AssertionError ''Input file must be a .csv file''))"

section \<open>Deck title and output path (lines 34-43)\<close>

definition derive_title :: "pyval \<Rightarrow> ppath \<Rightarrow> string" where
  "derive_title title csv_path =
     (if py_truthy title \<and> is_pystr title then pystr_value title
      else if path_stem csv_path \<noteq> [] then path_stem csv_path
      else ''Deck'')"

definition apkg_path_of :: "ppath \<Rightarrow> ppath" where
  "apkg_path_of csv_path = path_div (path_parent csv_path) (path_stem csv_path @ ''.apkg'')"

section \<open>Reading the table (lines 46-52)\<close>

definition read_file :: "world \<Rightarrow> ppath \<Rightarrow> py_error + string" where
  "read_file w p =
     (case files w p of
        None \<Rightarrow> Inl (FileNotFoundError (path_str p))
      | Some (TextFile t) \<Rightarrow> Inr t
      | Some (ApkgFile _) \<Rightarrow> Inl (UnicodeDecodeError (path_str p)))"

text \<open>Line 47: \<open>pd.read_csv(csv_path, sep=sep)\<close>; pandas rejects the line terminator as separator before opening the file.\<close>

definition read_double :: "string \<Rightarrow> world \<Rightarrow> ppath \<Rightarrow> py_error + frame" where
  "read_double sep w csv_path =
     (if sep = ''\<newline>'' then Inl (ValueError ''Specified the line terminator as separator or delimiter'')
      else case read_file w csv_path of
        Inl e \<Rightarrow> Inl e
      | Inr t \<Rightarrow> read_csv t sep HeaderRow)"

text \<open>Lines 49-50: \<open>pd.read_csv(csv_path, header=None, names=["question"])\<close>, then \<open>df['answer'] = " "\<close>.\<close>

definition read_single :: "world \<Rightarrow> ppath \<Rightarrow> py_error + frame" where
  "read_single w csv_path =
     (case read_file w csv_path of
        Inl e \<Rightarrow> Inl e
      | Inr t \<Rightarrow>
          (case read_csv t '','' (Names [''question'']) of
             Inl e \<Rightarrow> Inl e
           | Inr df \<Rightarrow> Inr (assign_const ''answer'' '' '' df)))"

definition load_frame :: "pyval \<Rightarrow> string \<Rightarrow> world \<Rightarrow> ppath \<Rightarrow> py_error + frame" where
  "load_frame mode sep w csv_path =
     (if mode = PyStr ''double'' then read_double sep w csv_path
      else if mode = PyStr ''single'' then read_single w csv_path
      else Inl (ValueError ''Invalid mode: csv format error''))"

section \<open>The deck id (line 56): int(time.time())\<close>

definition py_int_of_float :: "real \<Rightarrow> int" where
  "py_int_of_float x = (if 0 \<le> x then \<lfloor>x\<rfloor> else \<lceil>x\<rceil>)"

section \<open>The row loop (lines 61-78)\<close>

record loop_state =
  st_deck :: deck
  st_bar_n :: nat
  st_out :: "event list"

definition tick :: "loop_state \<Rightarrow> loop_state" where
  "tick st = st\<lparr>st_bar_n := Suc (st_bar_n st), st_out := st_out st @ [ProgressUpdate (Suc (st_bar_n st))]\<rparr>"

text \<open>Lines 66-67: \<open>str(row['question'])\<close> and \<open>str(row['answer'])\<close>, the note's fields.\<close>

definition row_fields :: "string list \<Rightarrow> cell list \<Rightarrow> py_error + string list" where
  "row_fields cols r =
     (case series_get cols r ''question'' of
        Inl e \<Rightarrow> Inl e
      | Inr q \<Rightarrow>
          (case series_get cols r ''answer'' of
             Inl e \<Rightarrow> Inl e
           | Inr a \<Rightarrow> Inr [py_str_cell q, py_str_cell a]))"

definition row_step :: "string list \<Rightarrow> cell list \<Rightarrow> loop_state \<Rightarrow> py_error + loop_state" where
  "row_step cols r st =
     (if series_contains cols ''question'' \<and> series_contains cols ''answer'' then
        (case row_fields cols r of
           Inl e \<Rightarrow> Inl e
         | Inr fs \<Rightarrow> Inr (tick (st\<lparr>st_deck := add_note (new_note MODEL fs) (st_deck st)\<rparr>)))
      else Inr (tick (st\<lparr>st_out := st_out st @ [SkipRow cols r]\<rparr>)))"

fun process_rows ::
  "string list \<Rightarrow> cell list list \<Rightarrow> loop_state \<Rightarrow> loop_state \<times> (py_error + unit)" where
  "process_rows cols [] st = (st, Inr ())"
| "process_rows cols (r # rs) st =
     (case row_step cols r st of
        Inl e \<Rightarrow> (st, Inl e)
      | Inr st' \<Rightarrow> process_rows cols rs st')"

section \<open>Writing the package (line 81) and the whole function\<close>

text \<open>Line 83: \<open>print(f"Anki deck saved to {apkg_path}")\<close>.\<close>

definition saved_message :: "ppath \<Rightarrow> event" where
  "saved_message apkg_path = Stdout (''Anki deck saved to '' @ path_str apkg_path)"

definition write_to_file :: "deck \<Rightarrow> ppath \<Rightarrow> world \<Rightarrow> (py_error + unit) \<times> world" where
  "write_to_file d p w =
     (case package_write d of
        Inl e \<Rightarrow> (Inl e, w)
      | Inr content \<Rightarrow>
          (Inr (), w\<lparr>files := (files w)(p \<mapsto> ApkgFile content), out := out w @ [FileWritten p]\<rparr>))"

definition csv2apkg ::
  "string \<Rightarrow> pyval \<Rightarrow> string \<Rightarrow> pyval \<Rightarrow> world \<Rightarrow> (py_error + unit) \<times> world" where
  "csv2apkg filename title sep mode w =
     (let csv_path = parse_path filename in
      case assert_csv csv_path of
        Inl e \<Rightarrow> (Inl e, w)
      | Inr _ \<Rightarrow>
        (let title' = derive_title title csv_path;
             apkg_path = apkg_path_of csv_path
         in case load_frame mode sep w csv_path of
              Inl e \<Rightarrow> (Inl e, w)
            | Inr df \<Rightarrow>
                (let n = length (rows df);
                     st0 = \<lparr>st_deck = new_deck (py_int_of_float (clock w)) title',
                            st_bar_n = 0, st_out = out w @ [ProgressOpen n]\<rparr>
                 in case process_rows (columns df) (iter_rows df) st0 of
                      (st1, r) \<Rightarrow>
                        (let w1 = w\<lparr>out := st_out st1 @ [ProgressClose (st_bar_n st1)]\<rparr>
                         in case r of
                              Inl e \<Rightarrow> (Inl e, w1)
                            | Inr _ \<Rightarrow>
                                (case write_to_file (st_deck st1) apkg_path w1 of
                                   (Inl e, w2) \<Rightarrow> (Inl e, w2)
                                 | (Inr _, w2) \<Rightarrow>
                                     (Inr (), w2\<lparr>out := out w2 @ [saved_message apkg_path]\<rparr>))))))"


section \<open>Abstract specification of the conversion\<close>

text \<open>
  What the row loop promises, stated without the loop: the fields of the
  notes (\<open>spec_notes\<close>: every row when the frame has both columns, none
  otherwise), the events it emits (\<open>spec_events\<close>), and the deck that ends
  up in the package (\<open>final_deck\<close>).
\<close>
definition has_qa :: "string list \<Rightarrow> bool" where
  "has_qa cols \<longleftrightarrow> series_contains cols ''question'' \<and> series_contains cols ''answer''"

definition row_field :: "string list \<Rightarrow> cell list \<Rightarrow> string \<Rightarrow> string" where
  "row_field cols r label =
     (case map_of (zip cols r) label of Some v \<Rightarrow> py_str_cell v | None \<Rightarrow> [])"

definition spec_notes :: "string list \<Rightarrow> cell list list \<Rightarrow> string list list" where
  "spec_notes cols rs =
     (if has_qa cols
      then map (\<lambda>r. [row_field cols r ''question'', row_field cols r ''answer'']) rs
      else [])"

fun spec_events :: "string list \<Rightarrow> nat \<Rightarrow> cell list list \<Rightarrow> event list" where
  "spec_events cols k [] = []"
| "spec_events cols k (r # rs) =
     (if has_qa cols then [] else [SkipRow cols r]) @ ProgressUpdate (Suc k) # spec_events cols (Suc k) rs"

definition final_deck :: "world \<Rightarrow> pyval \<Rightarrow> ppath \<Rightarrow> frame \<Rightarrow> deck" where
  "final_deck w title p df =
     \<lparr>deck_id = py_int_of_float (clock w), deck_name = derive_title title p,
      deck_description = [], deck_notes = map (new_note MODEL) (spec_notes (columns df) (iter_rows df))\<rparr>"

fun is_update :: "event \<Rightarrow> bool" where
  "is_update (ProgressUpdate _) = True"
| "is_update _ = False"

section \<open>Lemmas\<close>

lemma series_get_field:
  assumes "length r = length cols" and "series_contains cols label"
  shows "\<exists>v. series_get cols r label = Inr v \<and> py_str_cell v = row_field cols r label"
proof -
  from assms obtain v where "series_get cols r label = Inr v"
    using series_get_found by blast
  then show ?thesis
    by (auto simp: series_get_def row_field_def split: option.splits)
qed

lemma row_step_rect:
  assumes "length r = length cols"
  shows "row_step cols r st =
    Inr (tick (if has_qa cols
               then st\<lparr>st_deck := add_note (new_note MODEL
                      [row_field cols r ''question'', row_field cols r ''answer'']) (st_deck st)\<rparr>
               else st\<lparr>st_out := st_out st @ [SkipRow cols r]\<rparr>))"
proof (cases "has_qa cols")
  case True
  then have q: "series_contains cols ''question''" and a: "series_contains cols ''answer''"
    by (simp_all add: has_qa_def)
  obtain vq where vq: "series_get cols r ''question'' = Inr vq"
    "py_str_cell vq = row_field cols r ''question''"
    using series_get_field [OF assms q] by blast
  obtain va where va: "series_get cols r ''answer'' = Inr va"
    "py_str_cell va = row_field cols r ''answer''"
    using series_get_field [OF assms a] by blast
  have "row_step cols r st = Inr (tick (st\<lparr>st_deck := add_note (new_note MODEL
      [row_field cols r ''question'', row_field cols r ''answer'']) (st_deck st)\<rparr>))"
    using q a vq va by (simp add: row_step_def row_fields_def)
  with True show ?thesis by simp
next
  case False
  then have "row_step cols r st = Inr (tick (st\<lparr>st_out := st_out st @ [SkipRow cols r]\<rparr>))"
    by (auto simp: row_step_def row_fields_def has_qa_def)
  with False show ?thesis by simp
qed

lemma process_rows_spec:
  "list_all (\<lambda>r. length r = length cols) rs \<Longrightarrow>
   process_rows cols rs st =
     (st\<lparr>st_deck := (st_deck st)\<lparr>deck_notes := deck_notes (st_deck st) @ map (new_note MODEL) (spec_notes cols rs)\<rparr>,
         st_bar_n := st_bar_n st + length rs,
         st_out := st_out st @ spec_events cols (st_bar_n st) rs\<rparr>, Inr ())"
proof (induction rs arbitrary: st)
  case Nil
  then show ?case by (simp add: spec_notes_def)
next
  case (Cons r rs)
  then show ?case
    by (cases "has_qa cols") (simp_all add: row_step_rect tick_def spec_notes_def add_note_def)
qed

lemma load_frame_rectangular:
  "load_frame mode sep w p = Inr df \<Longrightarrow> rectangular df"
  by (auto simp: load_frame_def read_double_def read_single_def split: if_splits sum.splits
      intro: read_csv_rectangular assign_const_rectangular)

lemma spec_notes_fields_match:
  "list_all fields_match (map (new_note MODEL) (spec_notes cols rs))"
  by (auto simp: spec_notes_def list_all_iff fields_match_MODEL_note)

lemma csv2apkg_success:
  assumes s: "path_suffix (parse_path fn) = ''.csv''"
    and l: "load_frame mode sep w (parse_path fn) = Inr df"
  shows "csv2apkg fn title sep mode w =
    (Inr (), w\<lparr>files := (files w)(apkg_path_of (parse_path fn) \<mapsto> ApkgFile (final_deck w title (parse_path fn) df)),
               out := out w @ [ProgressOpen (length (rows df))] @ spec_events (columns df) 0 (iter_rows df)
                  @ [ProgressClose (length (rows df)), FileWritten (apkg_path_of (parse_path fn)),
                     Stdout (''Anki deck saved to '' @ path_str (apkg_path_of (parse_path fn)))]\<rparr>)"
proof -
  from load_frame_rectangular [OF l]
  have rect: "list_all (\<lambda>r. length r = length (columns df)) (iter_rows df)"
    by (simp add: rectangular_def iter_rows_shape)
  have ok: "package_write (final_deck w title (parse_path fn) df) = Inr (final_deck w title (parse_path fn) df)"
    by (rule package_write_ok) (simp add: final_deck_def spec_notes_fields_match)
  show ?thesis
    using s l ok
    by (simp add: csv2apkg_def assert_csv_def saved_message_def Let_def process_rows_spec [OF rect] write_to_file_def
        final_deck_def new_deck_def iter_rows_shape)
qed

lemma csv2apkg_suffix_error:
  "path_suffix (parse_path fn) \<noteq> ''.csv'' \<Longrightarrow>
   csv2apkg fn title sep mode w = (Inl (AssertionError ''Input file must be a .csv file''), w)"
  by (simp add: csv2apkg_def assert_csv_def saved_message_def)

lemma csv2apkg_load_error:
  "path_suffix (parse_path fn) = ''.csv'' \<Longrightarrow> load_frame mode sep w (parse_path fn) = Inl e \<Longrightarrow>
   csv2apkg fn title sep mode w = (Inl e, w)"
  by (simp add: csv2apkg_def assert_csv_def saved_message_def Let_def)

lemma load_frame_bad_mode:
  "mode \<noteq> PyStr ''double'' \<Longrightarrow> mode \<noteq> PyStr ''single'' \<Longrightarrow>
   load_frame mode sep w p = Inl (ValueError ''Invalid mode: csv format error'')"
  by (simp add: load_frame_def read_double_def read_single_def)

lemma valid_apkg_component:
  "wf_path p \<Longrightarrow> valid_component (path_stem p @ ''.apkg'')"
  using wf_stem_no_slash [of p] by (auto simp: valid_component_def append_eq_Cons_conv)

lemma apkg_path_shape:
  "wf_path p \<Longrightarrow> apkg_path_of p = (path_parent p)\<lparr>tail := tail (path_parent p) @ [path_stem p @ ''.apkg'']\<rparr>"
  by (simp add: apkg_path_of_def path_div_component wf_path_parent valid_apkg_component)

lemma apkg_path_suffix_stem:
  assumes "wf_path p" and "path_stem p \<noteq> []"
  shows "path_suffix (apkg_path_of p) = ''.apkg'' \<and> path_stem (apkg_path_of p) = path_stem p"
proof -
  have "path_name (apkg_path_of p) = path_stem p @ CHR ''.'' # ''apkg''"
    using assms(1) by (simp add: apkg_path_shape)
  then show ?thesis
    using suffix_stem_of_name [of "apkg_path_of p" "path_stem p" "''apkg''"] assms(2) by simp
qed


lemma spec_events_updates:
  "filter is_update (spec_events cols k rs) = map ProgressUpdate [Suc k..<Suc (k + length rs)]"
proof (induction rs arbitrary: k)
  case Nil
  then show ?case by simp
next
  case (Cons r rs)
  then show ?case by (simp add: upt_rec)
qed

lemma spec_events_no_write: "FileWritten p \<notin> set (spec_events cols k rs)"
  by (induction rs arbitrary: k) auto

lemma spec_events_skips:
  "\<not> has_qa cols \<Longrightarrow> filter (\<lambda>e. \<not> is_update e) (spec_events cols k rs) = map (SkipRow cols) rs"
  by (induction rs arbitrary: k) auto

lemma csv2apkg_cases:
  assumes "csv2apkg fn title sep mode w = (r, w')"
  obtains (bad_suffix) "path_suffix (parse_path fn) \<noteq> ''.csv''"
      "r = Inl (AssertionError ''Input file must be a .csv file'')" "w' = w"
  | (load_error) e where "path_suffix (parse_path fn) = ''.csv''"
      "load_frame mode sep w (parse_path fn) = Inl e" "r = Inl e" "w' = w"
  | (success) df where "path_suffix (parse_path fn) = ''.csv''"
      "load_frame mode sep w (parse_path fn) = Inr df" "r = Inr ()"
      "w' = w\<lparr>files := (files w)(apkg_path_of (parse_path fn) \<mapsto> ApkgFile (final_deck w title (parse_path fn) df)),
               out := out w @ [ProgressOpen (length (rows df))] @ spec_events (columns df) 0 (iter_rows df)
                  @ [ProgressClose (length (rows df)), FileWritten (apkg_path_of (parse_path fn)),
                     Stdout (''Anki deck saved to '' @ path_str (apkg_path_of (parse_path fn)))]\<rparr>"
proof (cases "path_suffix (parse_path fn) = ''.csv''")
  case False
  note eq = assms [unfolded csv2apkg_suffix_error [OF False]]
  show ?thesis
    by (rule bad_suffix [OF False]) (use eq in \<open>simp_all only: prod.inject\<close>)
next
  case True
  show ?thesis
  proof (cases "load_frame mode sep w (parse_path fn)")
    case (Inl e)
    note eq = assms [unfolded csv2apkg_load_error [OF True Inl]]
    show ?thesis
      by (rule load_error [OF True Inl]) (use eq in \<open>simp_all only: prod.inject\<close>)
  next
    case (Inr df)
    note eq = assms [unfolded csv2apkg_success [OF True Inr]]
    show ?thesis
      by (rule success [OF True Inr]) (use eq in \<open>simp_all only: prod.inject\<close>)
  qed
qed


lemma row_step_fields_match:
  "row_step cols r st = Inr st' \<Longrightarrow> list_all fields_match (deck_notes (st_deck st)) \<Longrightarrow>
   list_all fields_match (deck_notes (st_deck st'))"
  by (auto simp: row_step_def row_fields_def tick_def add_note_def fields_match_MODEL_note
      split: if_splits sum.splits)

lemma process_rows_fields_match:
  "list_all fields_match (deck_notes (st_deck st)) \<Longrightarrow>
   list_all fields_match (deck_notes (st_deck (fst (process_rows cols rs st))))"
proof (induction rs arbitrary: st)
  case Nil
  then show ?case by simp
next
  case (Cons r rs)
  show ?case
  proof (cases "row_step cols r st")
    case (Inl e)
    with Cons.prems show ?thesis by simp
  next
    case (Inr st')
    from Inr Cons.prems have "list_all fields_match (deck_notes (st_deck st'))"
      by (rule row_step_fields_match)
    with Inr Cons.IH show ?thesis by simp
  qed
qed

lemma apkg_path_not_input:
  assumes "path_suffix (parse_path fn) = ''.csv''"
  shows "apkg_path_of (parse_path fn) \<noteq> parse_path fn"
proof -
  have "path_suffix (apkg_path_of (parse_path fn)) = ''.apkg''"
    using assms apkg_path_suffix_stem [OF wf_parse_path] suffix_stem_not_Nil by simp
  with assms show ?thesis by auto
qed

lemma load_frame_same_records:
  assumes "files w p = Some (TextFile t)" and "files w' p = Some (TextFile t')"
    and "\<And>c. csv_records c t = csv_records c t'"
  shows "eq_up_to_parser_msg (load_frame mode sep w p) (load_frame mode sep w' p)"
proof -
  have d: "eq_up_to_parser_msg (read_double sep w p) (read_double sep w' p)"
    using read_csv_records [OF assms(3)] assms(1,2) by (simp add: read_double_def read_file_def)
  have s: "eq_up_to_parser_msg (read_single w p) (read_single w' p)"
    unfolding read_single_def read_file_def assms(1,2) option.case file_content.case sum.case
    by (rule eq_up_to_parser_msg_case, rule read_csv_records [OF assms(3)])
  show ?thesis using d s by (simp add: load_frame_def)
qed

text \<open>The title argument matters only through the derived deck name.\<close>

lemma derive_title_non_str: "\<not> is_pystr t \<Longrightarrow> derive_title t p = derive_title PyNone p"
  by (simp add: derive_title_def)

lemma csv2apkg_same_title:
  "derive_title t (parse_path fn) = derive_title t' (parse_path fn) \<Longrightarrow>
   csv2apkg fn t s m w = csv2apkg fn t' s m w"
  by (simp add: csv2apkg_def assert_csv_def saved_message_def Let_def)

text \<open>
  Single mode on records all \<open>k\<close> fields wide whose cells stay text: one
  note per record, with the record's last field (the others are the implicit
  index) and a blank back.
\<close>

lemma csv2apkg_single_text:
  assumes s: "path_suffix (parse_path fn) = ''.csv''"
    and f: "files w (parse_path fn) = Some (TextFile t)"
    and m: "csv_in_model CHR '','' t" and ne: "csv_records CHR '','' t \<noteq> []"
    and k: "list_all (\<lambda>r. length r = k) (csv_records CHR '','' t)" and k0: "0 < k"
    and tf: "list_ex (\<lambda>r. text_field (last r)) (csv_records CHR '','' t)"
  shows "\<exists>w' d. csv2apkg fn title sep (PyStr ''single'') w = (Inr (), w')
    \<and> files w' (apkg_path_of (parse_path fn)) = Some (ApkgFile d)
    \<and> map note_fields (deck_notes d) =
        map (\<lambda>r. [py_str_cell (parse_cell (last r)), '' '']) (csv_records CHR '','' t)"
proof -
  let ?df = "\<lparr>columns = [''question'', ''answer''],
              rows = map (\<lambda>r. [parse_cell (last r), Text '' '']) (csv_records CHR '','' t)\<rparr>"
  have l: "load_frame (PyStr ''single'') sep w (parse_path fn) = Inr ?df"
    using read_csv_one_column [OF m ne k k0 tf, of "''question''"] f
    by (simp add: load_frame_def read_double_def read_single_def read_file_def assign_const_new)
  obtain r0 where "r0 \<in> set (csv_records CHR '','' t)" using ne by (cases "csv_records CHR '','' t") auto
  then have mem: "[parse_cell (last r0), Text '' ''] \<in> set (rows ?df)" by simp
  have i: "iter_rows ?df = rows ?df"
    using iter_rows_keep [where n = 2 and c = "Text '' ''", OF _ mem] by (simp add: list_all_iff)
  have qa: "has_qa (columns ?df)" by (simp add: has_qa_def series_contains_def)
  show ?thesis
    using csv2apkg_success [OF s l, of title] qa i
    by (simp add: final_deck_def spec_notes_def row_field_def)
qed

text \<open>Double mode on a frame of the two columns \<open>question\<close>, \<open>answer\<close>: one note per row as \<open>iterrows\<close> yields it.\<close>

lemma csv2apkg_qa_frame:
  assumes s: "path_suffix (parse_path fn) = ''.csv''"
    and f: "files w (parse_path fn) = Some (TextFile t)"
    and r: "read_csv t '','' HeaderRow = Inr \<lparr>columns = [''question'', ''answer''], rows = rs\<rparr>"
    and l: "list_all (\<lambda>r. length r = 2) rs"
  shows "\<exists>w' d. csv2apkg fn title '','' (PyStr ''double'') w = (Inr (), w')
    \<and> files w' (apkg_path_of (parse_path fn)) = Some (ApkgFile d)
    \<and> map note_fields (deck_notes d) =
        map (\<lambda>r. [py_str_cell (r ! 0), py_str_cell (r ! 1)])
          (iter_rows \<lparr>columns = [''question'', ''answer''], rows = rs\<rparr>)"
proof -
  let ?df = "\<lparr>columns = [''question'', ''answer''], rows = rs\<rparr>"
  have ld: "load_frame (PyStr ''double'') '','' w (parse_path fn) = Inr ?df"
    using f r by (simp add: load_frame_def read_double_def read_single_def read_file_def)
  have qa: "has_qa (columns ?df)" by (simp add: has_qa_def series_contains_def)
  have "list_all (\<lambda>r. length r = 2) (iter_rows ?df)"
    using iter_rows_shape(2) [where df = ?df and k = 2] l by simp
  then have "map (\<lambda>r. [row_field [''question'', ''answer''] r ''question'', row_field [''question'', ''answer''] r ''answer''])
      (iter_rows ?df) = map (\<lambda>r. [py_str_cell (r ! 0), py_str_cell (r ! 1)]) (iter_rows ?df)"
    by (auto simp: list_all_iff row_field_def numeral_2_eq_2 length_Suc_conv)
  then show ?thesis
    using csv2apkg_success [OF s ld, of title] qa
    by (simp add: final_deck_def spec_notes_def)
qed

text \<open>Every field the loop puts into a note is a non-empty string.\<close>

lemma load_frame_not_empty:
  "load_frame mode sep w p = Inr df \<Longrightarrow> list_all (list_all (\<lambda>c. c \<noteq> Text [])) (iter_rows df)"
  by (auto simp: load_frame_def read_double_def read_single_def split: if_splits sum.splits
      intro!: iter_rows_not_empty intro: read_csv_not_empty assign_const_not_empty)

lemma row_field_not_empty:
  assumes "series_contains cols label" and "length r = length cols" and "list_all (\<lambda>c. c \<noteq> Text []) r"
  shows "row_field cols r label \<noteq> []"
proof -
  obtain v where v: "map_of (zip cols r) label = Some v"
    using assms(1,2) by (cases "map_of (zip cols r) label") (auto simp: series_contains_def map_of_zip_is_None)
  then have "v \<in> set r" by (auto dest: map_of_SomeD set_zip_rightD)
  with assms(3) have "v \<noteq> Text []" by (auto simp: list_all_iff)
  with v show ?thesis by (simp add: row_field_def py_str_cell_not_empty)
qed

end
