(* ===== verification/RunMachine.thy ===== *)
theory RunMachine
  imports Converter
begin

text \<open>
  A small-step view of one call of \<open>csv2apkg\<close>: the program counter of the
  function as a datatype of phases (before the assert, after it, inside the
  \<open>for\<close> loop with the rows still to visit, after the \<open>with\<close> block closed the
  progress bar, after the package write, done, or an exception raised), and one
  inductive rule per statement group of lines 32-83. The theory proves that the
  relation is deterministic, that exactly the phases \<open>Done\<close> and \<open>Raised\<close> are
  final, that the loop phase simulates \<open>process_rows\<close>, and that every run
  from \<open>Start\<close> reaches the final configuration \<open>csv2apkg\<close> computes. Its
  main use is the invariant that no file changes before the package write.
\<close>

section \<open>Configurations and steps\<close>

record args =
  arg_filename :: string
  arg_title :: pyval
  arg_sep :: string
  arg_mode :: pyval

datatype phase =
    Start
  | Checked
  | Looping "string list" "cell list list" loop_state
  | Closed loop_state
  | Written
  | Done
  | Raised py_error

type_synonym config = "phase \<times> world"

definition in_path :: "args \<Rightarrow> ppath" where
  "in_path a = parse_path (arg_filename a)"

definition loop_start :: "args \<Rightarrow> world \<Rightarrow> frame \<Rightarrow> loop_state" where
  "loop_start a w df =
     \<lparr>st_deck = new_deck (py_int_of_float (clock w)) (derive_title (arg_title a) (in_path a)),
      st_bar_n = 0, st_out = out w @ [ProgressOpen (length (rows df))]\<rparr>"

definition close_bar :: "loop_state \<Rightarrow> world \<Rightarrow> world" where
  "close_bar st w = w\<lparr>out := st_out st @ [ProgressClose (st_bar_n st)]\<rparr>"

inductive run_step :: "args \<Rightarrow> config \<Rightarrow> config \<Rightarrow> bool" for a :: args where
  check_ok: "assert_csv (in_path a) = Inr () \<Longrightarrow> run_step a (Start, w) (Checked, w)"
| check_fail: "assert_csv (in_path a) = Inl e \<Longrightarrow> run_step a (Start, w) (Raised e, w)"
| load_ok: "load_frame (arg_mode a) (arg_sep a) w (in_path a) = Inr df \<Longrightarrow>
    run_step a (Checked, w) (Looping (columns df) (iter_rows df) (loop_start a w df), w)"
| load_fail: "load_frame (arg_mode a) (arg_sep a) w (in_path a) = Inl e \<Longrightarrow>
    run_step a (Checked, w) (Raised e, w)"
| row_ok: "row_step cols r st = Inr st' \<Longrightarrow>
    run_step a (Looping cols (r # rs) st, w) (Looping cols rs st', w)"
| row_fail: "row_step cols r st = Inl e \<Longrightarrow>
    run_step a (Looping cols (r # rs) st, w) (Raised e, close_bar st w)"
| loop_end: "run_step a (Looping cols [] st, w) (Closed st, close_bar st w)"
| write_ok: "write_to_file (st_deck st) (apkg_path_of (in_path a)) w = (Inr (), w') \<Longrightarrow>
    run_step a (Closed st, w) (Written, w')"
| write_fail: "write_to_file (st_deck st) (apkg_path_of (in_path a)) w = (Inl e, w') \<Longrightarrow>
    run_step a (Closed st, w) (Raised e, w')"
| report: "run_step a (Written, w) (Done, w\<lparr>out := out w @ [saved_message (apkg_path_of (in_path a))]\<rparr>)"

inductive_cases run_step_StartE: "run_step a (Start, w) c"
inductive_cases run_step_CheckedE: "run_step a (Checked, w) c"
inductive_cases run_step_LoopingE: "run_step a (Looping cols rs st, w) c"
inductive_cases run_step_ClosedE: "run_step a (Closed st, w) c"
inductive_cases run_step_WrittenE: "run_step a (Written, w) c"
inductive_cases run_step_DoneE: "run_step a (Done, w) c"
inductive_cases run_step_RaisedE: "run_step a (Raised e, w) c"

lemmas run_step_elims =
  run_step_StartE run_step_CheckedE run_step_LoopingE run_step_ClosedE
  run_step_WrittenE run_step_DoneE run_step_RaisedE

section \<open>Outcomes\<close>

fun outcome :: "phase \<Rightarrow> (py_error + unit) option" where
  "outcome Done = Some (Inr ())"
| "outcome (Raised e) = Some (Inl e)"
| "outcome _ = None"

definition args_of :: "string \<Rightarrow> pyval \<Rightarrow> string \<Rightarrow> pyval \<Rightarrow> args" where
  "args_of fn title sep mode = \<lparr>arg_filename = fn, arg_title = title, arg_sep = sep, arg_mode = mode\<rparr>"

section \<open>Lemmas\<close>

lemma final_no_step: "outcome p \<noteq> None \<Longrightarrow> \<not> run_step a (p, w) c"
  by (cases p) (auto elim: run_step_elims)

lemma run_step_det: "run_step a c c1 \<Longrightarrow> run_step a c c2 \<Longrightarrow> c1 = c2"
proof (induction rule: run_step.induct)
qed (auto elim: run_step_elims)

lemma loop_simulates:
  "process_rows cols rs st = (st', r) \<Longrightarrow>
   (run_step a)\<^sup>*\<^sup>* (Looping cols rs st, w)
     (case r of Inr _ \<Rightarrow> (Looping cols [] st', w) | Inl e \<Rightarrow> (Raised e, close_bar st' w))"
proof (induction rs arbitrary: st)
  case Nil
  then show ?case by auto
next
  case (Cons x rs)
  show ?case
  proof (cases "row_step cols x st")
    case (Inl e)
    with Cons.prems have "st' = st" "r = Inl e" by simp_all
    with Inl show ?thesis by (auto intro: run_step.row_fail)
  next
    case (Inr st1)
    with Cons.prems have "process_rows cols rs st1 = (st', r)" by simp
    then have "(run_step a)\<^sup>*\<^sup>* (Looping cols rs st1, w)
        (case r of Inr _ \<Rightarrow> (Looping cols [] st', w) | Inl e \<Rightarrow> (Raised e, close_bar st' w))"
      by (rule Cons.IH)
    moreover from Inr have "run_step a (Looping cols (x # rs) st, w) (Looping cols rs st1, w)"
      by (rule run_step.row_ok)
    ultimately show ?thesis by (blast intro: converse_rtranclp_into_rtranclp)
  qed
qed

lemma args_of_sel [simp]:
  "arg_filename (args_of fn t s m) = fn" "arg_title (args_of fn t s m) = t"
  "arg_sep (args_of fn t s m) = s" "arg_mode (args_of fn t s m) = m"
  by (simp_all add: args_of_def)

lemma csv2apkg_run:
  assumes big: "csv2apkg fn t s m w = (r, w')"
  shows "\<exists>p. (run_step (args_of fn t s m))\<^sup>*\<^sup>* (Start, w) (p, w') \<and> outcome p = Some r"
proof -
  define a where "a = args_of fn t s m"
  have ip: "in_path a = parse_path fn" "arg_mode a = m" "arg_sep a = s" "arg_title a = t"
    by (simp_all add: a_def in_path_def)
  show ?thesis
  proof (cases "path_suffix (parse_path fn) = ''.csv''")
    case False
    then have "r = Inl (AssertionError ''Input file must be a .csv file'') \<and> w' = w"
      using big by (simp add: csv2apkg_def assert_csv_def)
    moreover have "run_step a (Start, w) (Raised (AssertionError ''Input file must be a .csv file''), w)"
      using False ip by (auto intro: run_step.check_fail simp: assert_csv_def)
    ultimately show ?thesis unfolding a_def
      by (intro exI [of _ "Raised (AssertionError ''Input file must be a .csv file'')"]) auto
  next
    case True
    then have ac: "assert_csv (parse_path fn) = Inr ()" by (simp add: assert_csv_def)
    then have s0: "run_step a (Start, w) (Checked, w)" by (simp add: ip run_step.check_ok)
    show ?thesis
    proof (cases "load_frame m s w (parse_path fn)")
      case (Inl e)
      with ac big have "r = Inl e \<and> w' = w" by (simp add: csv2apkg_def)
      moreover from Inl have "run_step a (Checked, w) (Raised e, w)"
        by (simp add: ip run_step.load_fail)
      ultimately show ?thesis using s0 unfolding a_def
        by (intro exI [of _ "Raised e"]) auto
    next
      case (Inr df)
      from Inr have s1: "run_step a (Checked, w) (Looping (columns df) (iter_rows df) (loop_start a w df), w)"
        by (simp add: ip run_step.load_ok)
      obtain st1 rr where pr: "process_rows (columns df) (iter_rows df) (loop_start a w df) = (st1, rr)"
        by fastforce
      have pre: "(run_step a)\<^sup>*\<^sup>* (Start, w) (Looping (columns df) (iter_rows df) (loop_start a w df), w)"
        using s0 s1 by auto
      have loop: "(run_step a)\<^sup>*\<^sup>* (Looping (columns df) (iter_rows df) (loop_start a w df), w)
          (case rr of Inr _ \<Rightarrow> (Looping (columns df) [] st1, w) | Inl e \<Rightarrow> (Raised e, close_bar st1 w))"
        using pr by (rule loop_simulates)
      have big2: "csv2apkg fn t s m w =
          (case rr of Inl e \<Rightarrow> (Inl e, close_bar st1 w)
           | Inr _ \<Rightarrow> (case write_to_file (st_deck st1) (apkg_path_of (in_path a)) (close_bar st1 w) of
                (Inl e, w2) \<Rightarrow> (Inl e, w2)
              | (Inr _, w2) \<Rightarrow> (Inr (), w2\<lparr>out := out w2 @
                   [saved_message (apkg_path_of (in_path a))]\<rparr>)))"
        using ac Inr pr unfolding ip(1) close_bar_def
        by (simp add: csv2apkg_def Let_def loop_start_def ip)
      show ?thesis
      proof (cases rr)
        case (Inl e)
        with big big2 have "r = Inl e" "w' = close_bar st1 w" by simp_all
        with Inl pre loop show ?thesis unfolding a_def
          by (intro exI [of _ "Raised e"]) auto
      next
        case (Inr u)
        with loop have "(run_step a)\<^sup>*\<^sup>* (Looping (columns df) (iter_rows df) (loop_start a w df), w)
            (Looping (columns df) [] st1, w)" by simp
        with pre have "(run_step a)\<^sup>*\<^sup>* (Start, w) (Looping (columns df) [] st1, w)"
          by (rule rtranclp_trans)
        then have pre2: "(run_step a)\<^sup>*\<^sup>* (Start, w) (Closed st1, close_bar st1 w)"
          using run_step.loop_end by (rule rtranclp.rtrancl_into_rtrancl)
        obtain rw w2 where wr: "write_to_file (st_deck st1) (apkg_path_of (in_path a)) (close_bar st1 w) = (rw, w2)"
          by fastforce
        show ?thesis
        proof (cases rw)
          case (Inl e)
          with big big2 Inr wr have "r = Inl e" "w' = w2" by simp_all
          moreover from Inl wr have "run_step a (Closed st1, close_bar st1 w) (Raised e, w2)"
            by (simp add: run_step.write_fail)
          ultimately show ?thesis using pre2 unfolding a_def
            by (intro exI [of _ "Raised e"]) auto
        next
          case (Inr u')
          with big big2 \<open>rr = Inr u\<close> wr have "r = Inr ()"
            "w' = w2\<lparr>out := out w2 @ [saved_message (apkg_path_of (in_path a))]\<rparr>"
            by simp_all
          moreover from Inr wr have "run_step a (Closed st1, close_bar st1 w) (Written, w2)"
            by (simp add: run_step.write_ok)
          ultimately show ?thesis using pre2 run_step.report [of a w2] unfolding a_def
            by (intro exI [of _ Done]) (auto intro: rtranclp.rtrancl_into_rtrancl)
        qed
      qed
    qed
  qed
qed

lemma final_unique:
  "(run_step a)\<^sup>*\<^sup>* c c1 \<Longrightarrow> (run_step a)\<^sup>*\<^sup>* c c2 \<Longrightarrow>
   outcome (fst c1) \<noteq> None \<Longrightarrow> outcome (fst c2) \<noteq> None \<Longrightarrow> c1 = c2"
proof (induction c rule: converse_rtranclp_induct)
  case base
  then show ?case
    by (metis converse_rtranclpE final_no_step prod.collapse)
next
  case (step c y)
  have c2: "(run_step a)\<^sup>*\<^sup>* y c2"
    using step.prems(1)
  proof (cases rule: converse_rtranclpE)
    case base
    with step.hyps(1) step.prems(3) show ?thesis
      by (metis final_no_step prod.collapse)
  next
    case (step y')
    with \<open>run_step a c y\<close> show ?thesis by (metis run_step_det)
  qed
  with step.IH step.prems(2,3) show ?case by blast
qed

lemma write_to_file_error: "write_to_file d p w = (Inl e, w') \<Longrightarrow> w' = w"
  by (auto simp: write_to_file_def split: sum.splits)

lemma run_step_before_write:
  "run_step a (p1, w1) (p, w) \<Longrightarrow> p \<noteq> Written \<Longrightarrow> p \<noteq> Done \<Longrightarrow>
   p1 \<noteq> Written \<and> p1 \<noteq> Done \<and> files w = files w1 \<and> clock w = clock w1"
  by (induction "(p1, w1)" "(p, w)" arbitrary: p1 w1 p w rule: run_step.induct)
     (auto simp: close_bar_def dest: write_to_file_error)

end
