(* ===== verification/Cli.thy ===== *)
theory Cli
  imports Converter
begin

text \<open>
  The command line entry of \<open>src/genanki/csv2apkg.py\<close> (lines 85-90):
  \<open>main()\<close> calls \<open>fire.Fire(csv2apkg)\<close>, which turns the command line into
  Python values and calls the function. The \<open>fire\<close> library (version 0.5 and
  later) is not part of the repository; its behaviour is modelled from its
  documented parsing rules, restricted to the inputs whose outcome is certain:
  \<^item> \<open>fire_value\<close> is \<open>fire.parser.DefaultParseValue\<close>: \<open>True\<close>, \<open>False\<close>,
    \<open>None\<close>, decimal integers (with an optional sign) become Python values; a
    word Python cannot read as a literal stays a string. Floats, containers,
    quoted strings and anything else whose value depends on Python's parser in
    more detail are \<open>NotModelled\<close>.
  \<^item> \<open>fire_kw\<close> is \<open>fire.core._ParseKeywordArgs\<close>: flags \<open>--name value\<close>,
    \<open>--name=value\<close>, \<open>-n value\<close> (the unique parameter with that initial),
    boolean flags \<open>--name\<close> and \<open>--noname\<close>; unknown flags are left over.
  \<^item> \<open>fire_bind\<close> is \<open>fire.core._ParseArgs\<close>: each parameter takes its flag
    value, else the next positional token, else its default; a missing
    \<open>filename\<close> is a \<open>FireError\<close>.
  \<^item> \<open>main_run\<close> is running the module as a script: the exit status is 0 after
    a normal return, 1 after an exception from \<open>csv2apkg\<close> (\<open>script_exit\<close>),
    2 after a \<open>FireError\<close>, which fire also raises when tokens are left over
    after the call; a \<open>NotModelled\<close> outcome of \<open>csv2apkg\<close> stays
    \<open>NotModelled\<close> and gets no exit status.
\<close>

section \<open>Letters (decimal digits and str of an integer are in the prelude)\<close>

definition is_letter :: "char \<Rightarrow> bool" where
  "is_letter c \<longleftrightarrow> (65 \<le> (of_char c :: nat) \<and> (of_char c :: nat) \<le> 90) \<or> (97 \<le> (of_char c :: nat) \<and> (of_char c :: nat) \<le> 122)"

section \<open>fire.parser.DefaultParseValue\<close>

text \<open>
  An unsigned decimal literal Python accepts: digits without a leading zero,
  or zeros only. A signed one is a unary minus or plus on it, which
  \<open>ast.literal_eval\<close> accepts.
\<close>

definition unsigned_literal :: "string \<Rightarrow> int option" where
  "unsigned_literal ds =
     (if ds \<noteq> [] \<and> list_all is_digit ds \<and> (hd ds \<noteq> CHR ''0'' \<or> list_all (\<lambda>c. c = CHR ''0'') ds)
      then Some (int (digits_value ds)) else None)"

definition int_literal :: "string \<Rightarrow> int option" where
  "int_literal s =
     (case s of
        c # ds \<Rightarrow>
          if c = CHR ''-'' then map_option uminus (unsigned_literal ds)
          else if c = CHR ''+'' then unsigned_literal ds
          else unsigned_literal s
      | [] \<Rightarrow> None)"

text \<open>Digits with a leading zero (\<open>007\<close>) are a syntax error in Python 3, so fire keeps the text.\<close>

definition leading_zero_number :: "string \<Rightarrow> bool" where
  "leading_zero_number s =
     (let ds = (case s of c # r \<Rightarrow> if c = CHR ''-'' \<or> c = CHR ''+'' then r else s | [] \<Rightarrow> [])
      in ds \<noteq> [] \<and> list_all is_digit ds \<and> hd ds = CHR ''0'' \<and> \<not> list_all (\<lambda>c. c = CHR ''0'') ds)"

text \<open>
  A word whose Python reading is certainly not a literal: printable ASCII, no
  comma, bracket, brace, quote, backquote, comment sign or backslash (the
  character codes listed), no surrounding space, not
  starting like a number or an ellipsis, and a leading sign or tilde only
  before a letter. Python reads such a word as a name (which fire replaces by
  its text), an expression that is not a literal, or a syntax error; in every
  case fire returns the text.
\<close>

definition plain_word :: "string \<Rightarrow> bool" where
  "plain_word s \<longleftrightarrow>
     s \<noteq> [] \<and> list_all (\<lambda>c. 32 \<le> (of_char c :: nat) \<and> (of_char c :: nat) \<le> 126) s
     \<and> list_all (\<lambda>c. (of_char c :: nat) \<notin> {34, 35, 39, 40, 41, 44, 91, 92, 93, 96, 123, 125}) s
     \<and> hd s \<noteq> CHR '' '' \<and> last s \<noteq> CHR '' '' \<and> \<not> is_digit (hd s)
     \<and> (hd s = CHR ''.'' \<longrightarrow> length s \<ge> 2 \<and> \<not> is_digit (s ! 1) \<and> take 3 s \<noteq> ''...'')
     \<and> (hd s \<in> {CHR ''-'', CHR ''+'', CHR ''~''} \<longrightarrow> length s \<ge> 2 \<and> (is_letter (s ! 1) \<or> s ! 1 = CHR ''_''))"

definition fire_value :: "string \<Rightarrow> py_error + pyval" where
  "fire_value s =
     (if s = ''True'' then Inr (PyBool True)
      else if s = ''False'' then Inr (PyBool False)
      else if s = ''None'' then Inr PyNone
      else case int_literal s of
             Some i \<Rightarrow> Inr (PyInt i)
           | None \<Rightarrow>
               if leading_zero_number s then Inr (PyStr s)
               else if length s = 1 \<and> 33 \<le> (of_char (hd s) :: nat) \<and> (of_char (hd s) :: nat) \<le> 126
               then Inr (PyStr s)
               else if plain_word s then Inr (PyStr s)
               else Inl (NotModelled ''command-line value outside the modelled literal forms''))"

section \<open>fire.core._ParseKeywordArgs\<close>

text \<open>
  A flag is a token starting with \<open>--\<close>, or with \<open>-\<close> and a letter
  (\<open>_IsFlag\<close>). The parameters of \<open>csv2apkg\<close> in order, with their defaults
  (\<open>None\<close> marks the required \<open>filename\<close>).
\<close>

definition is_flag :: "string \<Rightarrow> bool" where
  "is_flag a \<longleftrightarrow> take 2 a = ''--'' \<or> (2 \<le> length a \<and> hd a = CHR ''-'' \<and> is_letter (a ! 1))"

definition csv2apkg_params :: "(string \<times> pyval option) list" where
  "csv2apkg_params =
     [(''filename'', None), (''title'', Some PyNone), (''sep'', Some (PyStr '','')),
      (''mode'', Some (PyStr ''double''))]"

definition param_names :: "string list" where
  "param_names = map fst csv2apkg_params"

text \<open>
  The keyword a flag sets: its key if that is a parameter (or \<open>no\<close> and a
  parameter, for a boolean flag), else the one parameter with the key as
  initial for a one-letter key. fire raises an ambiguity error when two
  parameters share the initial; the four initials here are distinct
  (lemma \<open>initials_distinct\<close>), so that branch cannot occur.
\<close>

definition flag_keyword :: "string \<Rightarrow> bool \<Rightarrow> string option" where
  "flag_keyword key bool_syntax =
     (if key \<in> set param_names \<or> (bool_syntax \<and> take 2 key = ''no'' \<and> drop 2 key \<in> set param_names)
      then Some key
      else if length key = 1 then
        (case filter (\<lambda>p. hd p = hd key) param_names of [p] \<Rightarrow> Some p | _ \<Rightarrow> None)
      else None)"

text \<open>
  The result of the scan: the keyword values in command-line order (a later
  value for the same keyword wins), the unconsumed flags and the positional
  tokens.
\<close>

type_synonym kw_scan = "(string \<times> string) list \<times> string list \<times> string list"

definition add_kw :: "string \<times> string \<Rightarrow> kw_scan \<Rightarrow> kw_scan" where
  "add_kw kv r = (case r of (kw, rk, ra) \<Rightarrow> (kv # kw, rk, ra))"

definition add_rkw :: "string list \<Rightarrow> kw_scan \<Rightarrow> kw_scan" where
  "add_rkw xs r = (case r of (kw, rk, ra) \<Rightarrow> (kw, xs @ rk, ra))"

definition add_rarg :: "string \<Rightarrow> kw_scan \<Rightarrow> kw_scan" where
  "add_rarg x r = (case r of (kw, rk, ra) \<Rightarrow> (kw, rk, x # ra))"

definition underscore_dashes :: "string \<Rightarrow> string" where
  "underscore_dashes s = map (\<lambda>c. if c = CHR ''-'' then CHR ''_'' else c) s"

fun fire_kw :: "string list \<Rightarrow> kw_scan" where
  "fire_kw [] = ([], [], [])"
| "fire_kw (a # rest) =
     (if is_flag a then
        (let eq = CHR ''='' \<in> set a;
             stripped = dropWhile (\<lambda>c. c = CHR ''-'') a;
             key = underscore_dashes (takeWhile (\<lambda>c. c \<noteq> CHR ''='') stripped);
             v = drop 1 (dropWhile (\<lambda>c. c \<noteq> CHR ''='') stripped);
             bool_syntax = (\<not> eq \<and> (rest = [] \<or> is_flag (hd rest)))
         in case flag_keyword key bool_syntax of
              None \<Rightarrow>
                if eq \<or> bool_syntax then add_rkw [a] (fire_kw rest)
                else add_rkw [a, hd rest] (fire_kw (tl rest))
            | Some k \<Rightarrow>
                if eq then add_kw (k, v) (fire_kw rest)
                else if bool_syntax then
                  add_kw (if k \<in> set param_names then (k, ''True'') else (drop 2 k, ''False'')) (fire_kw rest)
                else add_kw (k, hd rest) (fire_kw (tl rest)))
      else add_rarg a (fire_kw rest))"

section \<open>fire.core._ParseArgs and the call\<close>

definition bind_cons :: "py_error + pyval \<Rightarrow> py_error + pyval list \<times> string list \<Rightarrow> py_error + pyval list \<times> string list" where
  "bind_cons x r =
     (case x of
        Inl e \<Rightarrow> Inl e
      | Inr v \<Rightarrow> (case r of Inl e \<Rightarrow> Inl e | Inr (vs, rem) \<Rightarrow> Inr (v # vs, rem)))"

fun fire_bind ::
  "(string \<times> pyval option) list \<Rightarrow> (string \<rightharpoonup> string) \<Rightarrow> string list \<Rightarrow> py_error + pyval list \<times> string list" where
  "fire_bind [] kw rem = Inr ([], rem)"
| "fire_bind ((p, dflt) # ps) kw rem =
     (case kw p of
        Some v \<Rightarrow> bind_cons (fire_value v) (fire_bind ps kw rem)
      | None \<Rightarrow>
          (case rem of
             r # rem' \<Rightarrow> bind_cons (fire_value r) (fire_bind ps kw rem')
           | [] \<Rightarrow>
               (case dflt of
                  None \<Rightarrow> Inl (FireError (''The function received no value for the required argument: '' @ p))
                | Some d \<Rightarrow> bind_cons (Inr d) (fire_bind ps kw []))))"

text \<open>The argument values of the call and the tokens left over (positional first, then flags).\<close>

definition fire_call :: "string list \<Rightarrow> py_error + pyval list \<times> string list" where
  "fire_call argv =
     (case fire_kw argv of
        (kw, rkw, ra) \<Rightarrow>
          (case fire_bind csv2apkg_params (map_of (rev kw)) ra of
             Inl e \<Rightarrow> Inl e
           | Inr (vals, rem) \<Rightarrow> Inr (vals, rem @ rkw)))"

section \<open>main() and the exit status\<close>

fun is_fire_error :: "py_error \<Rightarrow> bool" where
  "is_fire_error (FireError _) = True"
| "is_fire_error _ = False"

text \<open>
  Inputs outside the model: fire's own flags (a \<open>--\<close> separator, a leading
  \<open>-h\<close> or \<open>--help\<close>), and a left-over token that names a member of
  \<open>None\<close> (all of which start with an underscore), which fire would access
  instead of reporting it.
\<close>

definition fire_own_flags :: "string list \<Rightarrow> bool" where
  "fire_own_flags argv \<longleftrightarrow> ''--'' \<in> set argv \<or> (argv \<noteq> [] \<and> (hd argv = ''-h'' \<or> hd argv = ''--help''))"

definition names_member_of_None :: "string \<Rightarrow> bool" where
  "names_member_of_None tok \<longleftrightarrow> take 1 (underscore_dashes tok) = ''_''"

text \<open>
  The exit status of the script (lines 85-90) once \<open>csv2apkg\<close> has run: 0
  when it returns, 1 when an exception escapes \<open>main()\<close> (the interpreter's
  traceback and status). An outcome outside the model (\<open>NotModelled\<close>) is
  kept as such: the real run may well succeed there, so it gets no status.
\<close>

definition script_exit :: "py_error + unit \<Rightarrow> py_error + nat" where
  "script_exit r =
     (case r of
        Inr _ \<Rightarrow> Inr 0
      | Inl (NotModelled m) \<Rightarrow> Inl (NotModelled m)
      | Inl _ \<Rightarrow> Inr 1)"

definition main_run :: "string list \<Rightarrow> world \<Rightarrow> (py_error + nat) \<times> world" where
  "main_run argv w =
     (if fire_own_flags argv then (Inl (NotModelled ''fire's own flags''), w)
      else case fire_call argv of
        Inl e \<Rightarrow> if is_fire_error e then (Inr 2, w) else (Inl e, w)
      | Inr (vals, rem) \<Rightarrow>
          (case vals of
             [fnv, t, sv, m] \<Rightarrow>
               (case fnv of
                  PyStr fn \<Rightarrow>
                    (case sv of
                       PyStr s \<Rightarrow>
                         (case csv2apkg fn t s m w of
                            (Inl e, w') \<Rightarrow> (script_exit (Inl e), w')
                          | (Inr _, w') \<Rightarrow>
                              if rem = [] then (Inr 0, w')
                              else if names_member_of_None (hd rem)
                              then (Inl (NotModelled ''left-over token naming a member of None''), w')
                              else (Inr 2, w'))
                     | _ \<Rightarrow> (Inl (NotModelled ''separator that is not a string''), w))
                | _ \<Rightarrow> (Inr 1, w))
           | _ \<Rightarrow> (Inl (NotModelled ''argument count''), w)))"

section \<open>Lemmas\<close>

lemma unsigned_literal_nat_str: "unsigned_literal (nat_str n) = Some (int n)"
proof -
  have "hd (nat_str n) \<noteq> CHR ''0'' \<or> list_all (\<lambda>c. c = CHR ''0'') (nat_str n)"
  proof (cases "n = 0")
    case True
    then show ?thesis by (simp add: nat_str_zero)
  next
    case False
    then show ?thesis using nat_str_head by blast
  qed
  with nat_str_digits [of n]
  have c: "nat_str n \<noteq> [] \<and> list_all is_digit (nat_str n)
      \<and> (hd (nat_str n) \<noteq> CHR ''0'' \<or> list_all (\<lambda>c. c = CHR ''0'') (nat_str n))" by blast
  show ?thesis
    unfolding unsigned_literal_def by (simp only: if_P [OF c] nat_str_value)
qed

lemma not_digit_chars [simp]:
  "\<not> is_digit CHR ''-''" "\<not> is_digit CHR ''+''" "\<not> is_digit CHR ''T''"
  "\<not> is_digit CHR ''F''" "\<not> is_digit CHR ''N''"
  by (simp_all add: is_digit_def)

lemma int_literal_int_str: "int_literal (int_str i) = Some i"
proof (cases "i < 0")
  case True
  then show ?thesis
    by (simp add: int_str_def int_literal_def unsigned_literal_nat_str)
next
  case False
  obtain c cs where e: "nat_str (nat i) = c # cs"
    using nat_str_digits [of "nat i"] by (cases "nat_str (nat i)") auto
  with nat_str_hd_digit [of "nat i"] have "c \<noteq> CHR ''-''" "c \<noteq> CHR ''+''" by auto
  with False e unsigned_literal_nat_str [of "nat i"] show ?thesis
    by (simp add: int_str_def int_literal_def)
qed

lemma int_str_not_word: "int_str i \<noteq> ''True''" "int_str i \<noteq> ''False''" "int_str i \<noteq> ''None''"
proof -
  have "is_digit (hd (int_str i)) \<or> hd (int_str i) = CHR ''-''"
    using nat_str_hd_digit by (simp add: int_str_def)
  then show "int_str i \<noteq> ''True''" "int_str i \<noteq> ''False''" "int_str i \<noteq> ''None''"
    by auto
qed

lemma fire_value_int_str: "fire_value (int_str i) = Inr (PyInt i)"
  by (simp add: fire_value_def int_str_not_word int_literal_int_str)

lemma is_flag_shape:
  "is_flag a \<Longrightarrow> \<exists>y ys. a = CHR ''-'' # y # ys \<and> (y = CHR ''-'' \<or> is_letter y)"
  unfolding is_flag_def by (cases a; cases "tl a") auto

lemma digit_not_letter: "is_digit c \<Longrightarrow> \<not> is_letter c \<and> c \<noteq> CHR ''-''"
  by (auto simp: is_digit_def is_letter_def)

lemma int_str_not_flag: "\<not> is_flag (int_str i)"
proof
  assume "is_flag (int_str i)"
  then obtain y ys where a: "int_str i = CHR ''-'' # y # ys" and y: "y = CHR ''-'' \<or> is_letter y"
    by (blast dest: is_flag_shape)
  obtain c cs where e: "nat_str (nat (if i < 0 then - i else i)) = c # cs" and "is_digit c"
    using nat_str_digits nat_str_hd_digit by (metis list.collapse list.sel(1))
  with a y show False
    by (auto simp: int_str_def split: if_splits dest: digit_not_letter)
qed

lemma initials_distinct: "length (filter (\<lambda>p. hd p = c) param_names) \<le> 1"
  by (auto simp: param_names_def csv2apkg_params_def)

text \<open>How the scan treats plain tokens and the three spellings of a parameter flag.\<close>

lemma fire_kw_plain_head: "\<not> is_flag a \<Longrightarrow> fire_kw (a # rest) = add_rarg a (fire_kw rest)"
  by simp

lemma own_flags_are_flags: "is_flag ''--''" "is_flag ''-h''" "is_flag ''--help''"
  by (simp_all add: is_flag_def is_letter_def)

lemma title_flag_facts:
  "is_flag ''--title''" "is_flag ''-t''" "underscore_dashes ''title'' = ''title''"
  "underscore_dashes ''t'' = ''t''"
  "flag_keyword ''title'' False = Some ''title''" "flag_keyword ''t'' False = Some ''title''"
  by (simp_all add: is_flag_def is_letter_def underscore_dashes_def flag_keyword_def
      param_names_def csv2apkg_params_def)

lemma fire_kw_title_flag:
  "\<not> is_flag t \<Longrightarrow> fire_kw (''--title'' # t # rest) = add_kw (''title'', t) (fire_kw rest)"
  using title_flag_facts by (simp add: Let_def)

lemma fire_kw_title_short:
  "\<not> is_flag t \<Longrightarrow> fire_kw (''-t'' # t # rest) = add_kw (''title'', t) (fire_kw rest)"
  using title_flag_facts by (simp add: Let_def)

lemma fire_kw_title_eq:
  "fire_kw ((''--title='' @ t) # rest) = add_kw (''title'', t) (fire_kw rest)"
proof -
  have "is_flag (''--title='' @ t)" by (simp add: is_flag_def)
  moreover have "dropWhile (\<lambda>c. c = CHR ''-'') (''--title='' @ t) = ''title='' @ t" by simp
  moreover have "takeWhile (\<lambda>c. c \<noteq> CHR ''='') (''title='' @ t) = ''title''" by simp
  moreover have "drop 1 (dropWhile (\<lambda>c. c \<noteq> CHR ''='') (''title='' @ t)) = t" by simp
  ultimately show ?thesis using title_flag_facts by (simp add: Let_def)
qed

lemma main_run_same_call:
  "fire_own_flags a = fire_own_flags b \<Longrightarrow> fire_call a = fire_call b \<Longrightarrow> main_run a w = main_run b w"
  by (simp add: main_run_def)

lemma bind_cons_Inl [simp]: "bind_cons (Inl e) r = Inl e"
  and bind_cons_Inr [simp]: "bind_cons (Inr v) (Inr (vs, rem)) = Inr (v # vs, rem)"
  by (simp_all add: bind_cons_def)

lemma append_leftover_Nil:
  "(case r of Inl e \<Rightarrow> Inl e | Inr (vals, rem) \<Rightarrow> Inr (vals, rem @ [])) = r"
  by (cases r) auto

lemma fire_bind_title:
  "fire_bind csv2apkg_params (map_of (rev [])) [fn, t] =
   fire_bind csv2apkg_params (map_of (rev [(''title'', t)])) [fn]"
  by (simp add: csv2apkg_params_def)

lemma fire_bind_defaults:
  "fire_bind csv2apkg_params (map_of (rev [])) [fn] =
     bind_cons (fire_value fn) (Inr ([PyNone, PyStr '','', PyStr ''double''], []))"
  "fire_bind csv2apkg_params (map_of (rev [(''title'', t)])) [fn] =
     bind_cons (fire_value fn) (bind_cons (fire_value t) (Inr ([PyStr '','', PyStr ''double''], [])))"
  by (simp_all add: csv2apkg_params_def)

lemma digit_zero: "is_digit CHR ''0''"
  by (simp add: is_digit_def)

lemma letter_chars: "is_letter c \<Longrightarrow> c \<noteq> CHR ''-'' \<and> c \<noteq> CHR ''_''"
  by (auto simp: is_letter_def)

end
