(* ===== verification/Render.thy ===== *)
theory Render
  imports Anki
begin

text \<open>
  How Anki shows a card of the note type \<open>MODEL\<close> (lines 10-25 of
  \<open>src/genanki/csv2apkg.py\<close>). The renderer is Anki's, not part of the
  repository; it is modelled from the specification's rendering rule (section 3:
  the front shows the field \<open>Front\<close>, the back shows the front side and then
  \<open>Back\<close>) and Anki's template syntax for the forms \<open>MODEL\<close> uses: a
  replacement \<open>{{Name}}\<close> inserts the field's HTML unchanged, and on the
  answer side \<open>{{FrontSide}}\<close> inserts the rendered question. An unclosed
  \<open>{{\<close> is text. Sections, filters and unknown fields (keys with \<open>#\<close>,
  \<open>^\<close>, \<open>/\<close>, \<open>:\<close>, or without a field) are \<open>NotModelled\<close>.
\<close>

section \<open>Templates\<close>

text \<open>The text before the first \<open>}}\<close> and the text after it.\<close>

fun split_close :: "string \<Rightarrow> (string \<times> string) option" where
  "split_close (a # b # r) =
     (if a = CHR ''}'' \<and> b = CHR ''}'' then Some ([], r)
      else map_option (\<lambda>(x, y). (a # x, y)) (split_close (b # r)))"
| "split_close _ = None"

definition special_key :: "string \<Rightarrow> bool" where
  "special_key k \<longleftrightarrow> list_ex (\<lambda>c. c \<in> set ''#^/:'') k"

definition cons_ok :: "string \<Rightarrow> py_error + string \<Rightarrow> py_error + string" where
  "cons_ok xs r = (case r of Inl e \<Rightarrow> Inl e | Inr s \<Rightarrow> Inr (xs @ s))"

lemma split_close_shorter [termination_simp]:
  "split_close s = Some (x, y) \<Longrightarrow> length y < length s"
  by (induction s arbitrary: x rule: split_close.induct) (auto split: if_splits)

function render_tmpl :: "(string \<rightharpoonup> string) \<Rightarrow> string \<Rightarrow> py_error + string" where
  "render_tmpl f [] = Inr []"
| "render_tmpl f (c # cs) =
     (if c = CHR ''{'' \<and> cs \<noteq> [] \<and> hd cs = CHR ''{'' then
        (case split_close (tl cs) of
           None \<Rightarrow> cons_ok [c] (render_tmpl f cs)
         | Some (key, rest) \<Rightarrow>
             if special_key key then Inl (NotModelled ''template section or filter'')
             else (case f key of
                     None \<Rightarrow> Inl (NotModelled ''unknown field'')
                   | Some v \<Rightarrow> cons_ok v (render_tmpl f rest)))
      else cons_ok [c] (render_tmpl f cs))"
  by pat_completeness auto
termination
proof (relation "measure (\<lambda>(f, s). length s)")
  fix f c cs x xa y
  assume "split_close (tl cs) = Some x" "(xa, y) = x"
  then have "split_close (tl cs) = Some (xa, y)" by simp
  then have "length y < length (tl cs)" by (rule split_close_shorter)
  then show "((f, y), f, c # cs) \<in> measure (\<lambda>(f, s). length s)" by simp
qed auto

section \<open>Cards\<close>

definition note_field_map :: "anki_note \<Rightarrow> string \<rightharpoonup> string" where
  "note_field_map n = map_of (zip (map field_name (model_fields (note_model n))) (note_fields n))"

text \<open>The question and answer of the note's first card (\<open>MODEL\<close> has one template).\<close>

definition render_note :: "anki_note \<Rightarrow> py_error + string \<times> string" where
  "render_note n =
     (case model_templates (note_model n) of
        [] \<Rightarrow> Inl (NotModelled ''note type without templates'')
      | t # _ \<Rightarrow>
          (case render_tmpl (note_field_map n) (qfmt t) of
             Inl e \<Rightarrow> Inl e
           | Inr q \<Rightarrow>
               (case render_tmpl ((note_field_map n)(''FrontSide'' \<mapsto> q)) (afmt t) of
                  Inl e \<Rightarrow> Inl e
                | Inr a \<Rightarrow> Inr (q, a))))"

section \<open>Lemmas\<close>

lemma cons_ok_Inr [simp]: "cons_ok xs (Inr s) = Inr (xs @ s)"
  by (simp add: cons_ok_def)

lemma render_tmpl_text:
  "CHR ''{'' \<notin> set s \<Longrightarrow> render_tmpl f (s @ rest) = cons_ok s (render_tmpl f rest)"
  by (induction s) (auto simp: cons_ok_def split: sum.split)

text \<open>The card of a \<open>MODEL\<close> note: the question alone, then the question, a rule and the answer.\<close>

lemma render_MODEL_note:
  "render_note (new_note MODEL [q, a]) = Inr (q, q @ ''\<newline>\<newline><hr id=answer>\<newline>\<newline>'' @ a)"
  by (simp add: render_note_def MODEL_def note_field_map_def new_note_def special_key_def)

end
