(* ===== verification/Cards.thy ===== *)
theory Cards
  imports Render "HOL-Library.Sublist"
begin

text \<open>
  Which cards genanki writes for a note (not part of the repository; modelled
  from genanki's source as the program calls it through \<open>MODEL\<close> and
  \<open>Package.write_to_file\<close>, line 81). \<open>Model._req\<close> decides, per template, which
  fields the front needs: it renders \<open>qfmt\<close> once per field with that field
  empty and the others a sentinel, and a field whose emptiness leaves no
  sentinel is required (\<open>all\<close>); when no field is, it sets the fields to
  the sentinel one after another in a single dictionary, rendering after each,
  and takes the fields whose step shows the sentinel (\<open>any\<close>); when none
  does, it raises. \<open>Note._front_cards\<close> makes a card for every template whose
  condition the note's fields meet (a field counts when it is a non-empty
  string). genanki renders with pystache, which agrees with \<open>render_tmpl\<close> on
  the templates modelled here (replacements only) for values without HTML
  characters, as the sentinel and the empty string are.
\<close>

section \<open>Model._req\<close>

fun model_req ::
  "string list \<Rightarrow> nat \<Rightarrow> card_template list \<Rightarrow> py_error + (nat \<times> string \<times> nat list) list" where
  "model_req names ord [] = Inr []"
| "model_req names ord (t # ts) =
     (let sentinel = ''SeNtInEl'';
          all_but = (\<lambda>f. (map_of (map (\<lambda>n. (n, sentinel)) names))(f \<mapsto> []));
          first_set = (\<lambda>i. fold (\<lambda>f m. m(f \<mapsto> sentinel)) (take (Suc i) names) (map_of (map (\<lambda>n. (n, [])) names)));
          entry =
            (case seq_sum (map (\<lambda>f. render_tmpl (all_but f) (qfmt t)) names) of
               Inl e \<Rightarrow> Inl e
             | Inr rendered \<Rightarrow>
                 (let required = filter (\<lambda>i. \<not> sublist sentinel (rendered ! i)) [0..<length names] in
                  if required \<noteq> [] then Inr (ord, ''all'', required)
                  else (case seq_sum (map (\<lambda>i. render_tmpl (first_set i) (qfmt t)) [0..<length names]) of
                          Inl e \<Rightarrow> Inl e
                        | Inr rendered' \<Rightarrow>
                            (let required' = filter (\<lambda>i. sublist sentinel (rendered' ! i)) [0..<length names] in
                             if required' = []
                             then Inl (Exception ''Could not compute required fields for this template; please check the formatting of \"qfmt\"'')
                             else Inr (ord, ''any'', required')))))
      in case entry of
           Inl e \<Rightarrow> Inl e
         | Inr x \<Rightarrow> (case model_req names (Suc ord) ts of Inl e \<Rightarrow> Inl e | Inr xs \<Rightarrow> Inr (x # xs)))"

section \<open>Note._front_cards\<close>

text \<open>
  The ordinals of the cards: \<open>any\<close> and \<open>all\<close> stop at the first field that
  decides them, so an ordinal beyond the note's fields raises \<open>IndexError\<close>
  only when it is reached.
\<close>

definition front_cards :: "anki_note \<Rightarrow> py_error + nat list" where
  "front_cards n =
     (case model_req (map field_name (model_fields (note_model n))) 0 (model_templates (note_model n)) of
        Inl e \<Rightarrow> Inl e
      | Inr req \<Rightarrow>
          map_sum id (\<lambda>keep. map fst (filter snd (zip (map fst req) keep)))
            (seq_sum (map (\<lambda>(card_ord, any_or_all, ords).
               (let fs = note_fields n;
                    stop = (\<lambda>i. length fs \<le> i \<or> (if any_or_all = ''any'' then fs ! i \<noteq> [] else fs ! i = []))
                in if any_or_all \<noteq> ''any'' \<and> any_or_all \<noteq> ''all'' then Inl (KeyError any_or_all)
                   else (case find stop ords of
                           None \<Rightarrow> Inr (any_or_all = ''all'')
                         | Some i \<Rightarrow>
                             if length fs \<le> i then Inl (IndexError ''list index out of range'')
                             else Inr (any_or_all = ''any'')))) req)))"

section \<open>Lemmas\<close>

lemma model_req_MODEL: "model_req [''Front'', ''Back''] 0 (model_templates MODEL) = Inr [(0, ''all'', [0])]"
  by code_simp

lemma MODEL_field_names: "map field_name (model_fields MODEL) = [''Front'', ''Back'']"
  by (simp add: MODEL_def)

lemma front_cards_MODEL: "front_cards (new_note MODEL [q, a]) = Inr (if q = [] then [] else [0])"
  by (simp add: front_cards_def MODEL_field_names model_req_MODEL)

end
