(* ===== verification/Spec2Isabelle.thy ===== *)
theory Spec2Isabelle
  imports RunMachine Cli Cards
begin

text \<open>
  \<^bold>\<open>A verification development of csv2apkg.\<close>
  The repository's program is one Python function, \<open>csv2apkg\<close> in
  \<open>src/genanki/csv2apkg.py\<close>, with the module constant \<open>MODEL\<close> and a command
  line entry \<open>main\<close>. It checks that the input is named \<open>*.csv\<close> (line 32),
  derives a deck title (lines 34-39) and the output path \<open>parent/stem.apkg\<close>
  (line 43), reads the table with \<open>pandas.read_csv\<close> in one of two modes
  (lines 46-52), creates a \<open>genanki.Deck\<close> whose id is \<open>int(time.time())\<close>
  (lines 55-58), turns every row into a \<open>genanki.Note\<close> of \<open>MODEL\<close> or prints a
  skip message, advancing a \<open>tqdm\<close> progress bar per row (lines 61-78), writes
  the package (line 81) and prints the output path (line 83). It interacts with
  four libraries: pathlib, pandas, genanki and tqdm, and with the file system
  and the clock.

  \<^bold>\<open>Theories.\<close>
  \<^item> \<open>Prelude\<close>: the Python built-ins the libraries rely on
    (\<open>split_char\<close> for \<open>str.split\<close>, \<open>join_with\<close> for \<open>str.join\<close>,
    \<open>py_rfind\<close> for \<open>str.rfind\<close>, \<open>nat_str\<close>/\<open>int_str\<close> for \<open>str\<close> of an
    integer), the combinator \<open>seq_sum\<close>, the exception datatype \<open>py_error\<close> every
    component returns on its error branch, and the \<open>py_simps\<close> collection.
  \<^item> \<open>PyPath\<close>: pathlib's POSIX paths as CPython 3.12 computes them: a record
    \<open>ppath\<close> (root and components), \<open>parse_path\<close> for \<open>Path(s)\<close>,
    \<open>format_parts\<close>/\<open>path_str\<close> for \<open>str\<close>, \<open>path_name\<close>, \<open>path_suffix\<close>,
    \<open>path_stem\<close>, \<open>path_parent\<close>, \<open>posix_join\<close> and \<open>path_div\<close> for \<open>/\<close>,
    and the well-formedness \<open>wf_path\<close>.
  \<^item> \<open>CsvTable\<close>: the DataFrame (\<open>frame\<close>; cells \<open>Text\<close>, \<open>NaN\<close>,
    \<open>IntV\<close>, \<open>FloatV\<close>, \<open>BoolV\<close>), Series membership and lookup
    (\<open>series_contains\<close>, \<open>series_get\<close>), column assignment
    (\<open>assign_const\<close>), \<open>iter_rows\<close> for \<open>DataFrame.iterrows\<close> (rows cast to
    the columns' common dtype) and the reader \<open>read_csv\<close> (pandas' C engine
    for one-character separators and unquoted fields, modelled from the
    specification and pandas' behaviour: \<open>\r\n\<close> line ends, blank and
    whitespace-only lines skipped, default NA strings, padding of short rows,
    \<open>ParserError\<close> on long rows with the tokenizer's message and file line
    number (\<open>record_lines\<close>), an empty frame for an empty input with given
    names, the implicit index, \<open>EmptyDataError\<close>, and
    per-column type inference \<open>column_convert\<close>/\<open>infer_dtypes\<close>), and the
    naming of the header's columns \<open>header_names\<close> (\<open>TextReader._get_header\<close>:
    an empty name becomes \<open>Unnamed: i\<close>, a repeated one \<open>old.k\<close>), whose
    inner \<open>while\<close> loop \<open>mangle_loop\<close> is a \<open>partial_function (option)\<close>
    over the dictionary of counts as an association list (\<open>AList.update\<close>).
  \<^item> \<open>Anki\<close>: \<open>MODEL\<close> (lines 10-25) and the genanki data the converter builds:
    \<open>anki_note\<close>, \<open>deck\<close>, \<open>new_deck\<close>, \<open>add_note\<close>, and the field-count check
    \<open>package_write\<close> that \<open>Package.write_to_file\<close> performs.
  \<^item> \<open>Converter\<close>: \<open>csv2apkg\<close> itself over an explicit \<open>world\<close> (files as a map
    from paths to contents, the clock, the log of \<open>event\<close>s: progress bar
    opening, updates and closing, skip messages, the package write, printed
    lines). Arguments are Python values (\<open>pyval\<close>) because \<open>fire\<close> parses the
    command line. \<open>derive_title\<close>, \<open>apkg_path_of\<close>, \<open>read_file\<close>,
    \<open>assert_csv\<close> (line 32), \<open>derive_title\<close>, \<open>apkg_path_of\<close>,
    \<open>read_file\<close>, \<open>read_double\<close> (line 47), \<open>read_single\<close> (lines 49-50),
    \<open>load_frame\<close>, \<open>py_int_of_float\<close>, \<open>row_fields\<close> (lines 66-67),
    \<open>row_step\<close>/\<open>process_rows\<close> (the loop, with \<open>tick\<close> for
    \<open>pbar.update(1)\<close>), \<open>write_to_file\<close> and \<open>saved_message\<close> (line 83)
    are the steps of the function in source order; the step relation of
    \<open>RunMachine\<close> uses the same definitions; each exception is an \<open>Inl\<close> result returned
    with the world as it stood. The section "abstract specification" gives what
    the loop promises without the loop: \<open>spec_notes\<close>, \<open>spec_events\<close>,
    \<open>final_deck\<close>.
  \<^item> \<open>RunMachine\<close>: the same function read statement by statement: a
    datatype \<open>phase\<close> of program points (\<open>Start\<close> before the assert,
    \<open>Checked\<close> after it, \<open>Looping\<close> with the rows still to visit and the
    loop state, \<open>Closed\<close> after the \<open>with\<close> block, \<open>Written\<close> after line 81,
    \<open>Done\<close>, \<open>Raised\<close>), the arguments as a record \<open>args\<close>, and an inductive
    relation \<open>run_step\<close> with one rule per outcome of each statement group
    (\<open>loop_start\<close> for lines 55-61, \<open>close_bar\<close> for the bar's close on
    leaving the \<open>with\<close> block, also on an exception). Its lemmas are the
    inversion rules, determinism, the simulation of \<open>process_rows\<close> by the
    loop phase and of \<open>csv2apkg\<close> by a run, and the rule induction that
    no file changes before the write.
  \<^item> \<open>Cli\<close>: the command line entry (lines 85-90). \<open>main_run\<close> runs the
    module as a script: fire turns the tokens into Python values and calls
    \<open>csv2apkg\<close>; the result is the exit status (\<open>script_exit\<close>: 0, 1
    after an exception; 2 after a fire error) and the world, or
    \<open>NotModelled\<close> when the call's outcome lies outside the model. fire is library code, modelled from its
    documented parsing rules (version 0.5 and later): \<open>fire_value\<close>
    (\<open>DefaultParseValue\<close>: bool, None, decimal ints, words that stay text),
    \<open>fire_kw\<close> (\<open>_ParseKeywordArgs\<close>: \<open>--name v\<close>, \<open>--name=v\<close>,
    \<open>-n v\<close>, boolean \<open>--name\<close>/\<open>--noname\<close>), \<open>fire_bind\<close>
    (\<open>_ParseArgs\<close>: flag value, else next positional token, else the default
    of \<open>csv2apkg_params\<close>, line 28) and \<open>fire_call\<close>.
  \<^item> \<open>Render\<close>: how Anki shows a card of \<open>MODEL\<close>, modelled from the
    specification's rendering rule (section 3) and Anki's template syntax:
    \<open>render_tmpl\<close> replaces \<open>{{Field}}\<close> by the field's HTML, \<open>render_note\<close>
    renders the question and then the answer with \<open>{{FrontSide}}\<close> bound to
    it; sections, filters and unknown fields are \<open>NotModelled\<close>.
  \<^item> \<open>Cards\<close>: the cards genanki writes for a note, from genanki's source:
    \<open>model_req\<close> for \<open>Model._req\<close> (per template, the fields the front
    needs, found by rendering \<open>qfmt\<close> with a sentinel; \<open>render_tmpl\<close>
    stands in for pystache, with which it agrees on these templates and
    values) and \<open>front_cards\<close> for \<open>Note._front_cards\<close>, with its
    \<open>IndexError\<close> and \<open>KeyError\<close> branches.
  \<^item> \<open>Spec2Isabelle\<close> (this theory): sample inputs and the properties that span
    the components, each with a closed witness evaluated in the kernel
    (\<open>simp\<close>/\<open>code_simp\<close>).

  \<^bold>\<open>What is proved.\<close>
  End to end (C1-C10): the functional behaviour of a normal run in both modes
  (one note per row, in order, with the row's strings; single mode's blank back);
  every error path (wrong name, bad mode, missing file, ragged rows, the last
  with pandas' message naming the offending file line) raises the right
  exception and leaves the world unchanged; the run changes no file but the
  output and never overwrites the input; the output path is
  \<open>parent/stem.apkg\<close>; the effects come in the order bar-open, per-row
  messages and updates 1..n, bar-close, one write, final message.
  The loop (C11-C12): a refinement of \<open>process_rows\<close> against \<open>spec_notes\<close>
  and \<open>spec_events\<close> through the abstraction "fields of the notes", and the
  invariant that keeps genanki's write check from raising. The title (C13-C14),
  and the findings modelling showed (C9, C14-C17): presence is checked per
  column, NA strings become the text \<open>nan\<close>, the \<open>'Deck'\<close> fallback is dead,
  non-string titles are ignored, single mode ignores \<open>sep\<close>, deck ids collide
  within a second. The reader and the cards (C18-C20): the renaming of header
  names always returns; every note of a written package has exactly one card,
  because the only template requires \<open>Front\<close> and no question is empty; the
  frame double mode reads has distinct column names, each header name kept or
  an empty one named \<open>Unnamed: k\<close>, and is rectangular with one row per line.
  The statement-level reading (C21): before the package write no file has
  changed and the clock is the one the run started with, shown by rule
  induction over runs of \<open>run_step\<close>. Further input shapes (C22-C24): a file
  of line breaks only raises \<open>EmptyDataError\<close> in double mode and writes an
  empty deck in single mode; in single mode a comma per line moves the text
  before it into the row index, off the card; removing the input's empty lines
  changes neither world nor result, except for the line number a
  \<open>ParserError\<close> names. The command line (C25-C29): a bare file name runs
  with the defaults and exits 0 exactly on success and 1 on an exception; the
  four spellings of the title are one run; a numeric title is dropped; a
  missing file name is a fire error with nothing changed; a token too many
  still writes the package and then exits 2. The cards of a written package
  (C30) show the row's question and, on the back, the question,
  \<open><hr id=answer>\<close> and the answer. Type inference (C31-C32): a file of plain
  text cells written as \<open>csv_of_pairs\<close> reads back to exactly its pairs, one
  note each in order; a numeric question column next to an empty answer column
  prints as floats (\<open>007\<close> gives the front \<open>7.0\<close>).

  \<^bold>\<open>Bounds and termination.\<close> Every loop of the program and of the modelled
  library code but one is a structural recursion over a finite list (rows, lines,
  characters), so these definitions are total and executable without fuel; the
  theorems about normal runs state the result itself, not only "if it returns".
  The exception is pandas' search for a free column name (\<open>mangle_loop\<close>),
  which on an arbitrary dictionary of counts can run forever; it is a
  \<open>partial_function (option)\<close>, and C18 proves it returns on every header:
  while the dictionary's keys are names of the header, the loop stops at the
  least \<open>k\<close> from its start count with \<open>old.k\<close> outside the header, which
  exists since \<open>k \<mapsto> old.k\<close> is injective (\<open>nat_str_inj\<close>) and the header
  finite (\<open>mangle_loop_returns\<close>, \<open>mangle_cols_ok\<close>).
  The two recursions that are not structural, \<open>nat_str\<close> (on \<open>n div 10\<close>)
  and fire's flag scan \<open>fire_kw\<close> (which may consume two tokens), are
  \<open>fun\<close>s with termination proved by the package's size measure.
  \<open>norm_newlines\<close> (which may consume \<open>\r\n\<close> at once) is also a \<open>fun\<close>
  with a size measure. Type inference is exact for integers of magnitude
  below \<open>2^53\<close>: up to that bound an int64 value, its float64 cast and
  Python's printing of both (\<open>7\<close>, \<open>7.0\<close>) are what \<open>int_str\<close> gives;
  columns with larger integers are \<open>NotModelled\<close>, which no claim relies on.
  The claims that state a card's text from the file's text assume the column
  stays text (\<open>text_field\<close>: not an NA string, a number or a boolean); C32
  states what a numeric column becomes. The exit status is given only for
  outcomes inside the model: where \<open>csv2apkg\<close> gives \<open>NotModelled\<close>,
  \<open>main_run\<close> does too.

  \<^bold>\<open>Not modelled.\<close> The parts of fire outside the modelled subset:
  option values that are floats, containers or quoted strings, fire's own flags
  (\<open>--\<close>, \<open>--help\<close>, \<open>--trace\<close>) and member access on the returned
  \<open>None\<close> (all \<open>NotModelled\<close> results); fire's usage messages on standard
  error. pandas' quoted fields, a UTF-8 byte order mark opening the file, the
  quote or a line break character as separator, multi-character (regular
  expression) separators, float columns and integers beyond \<open>2^53\<close> (all
  \<open>NotModelled\<close>); type inference chunk by chunk in pandas' low-memory mode, which
  agrees with the whole-column inference modelled here while a file fits one
  chunk; genanki's SQLite/zip serialisation, note GUIDs and HTML warnings, cloze
  note types (\<open>MODEL\<close> is a front/back type), pystache's HTML escaping and
  sections;
  tqdm's rendering; Anki's template sections and filters (unused by
  \<open>MODEL\<close>); Windows paths.
\<close>

section \<open>Sample inputs\<close>

definition demo_csv :: string where
  "demo_csv = ''question,answer\<newline>q1,a1\<newline>q2,\<newline>''"

definition demo_world :: world where
  "demo_world = \<lparr>files = [parse_path ''dir/cards.csv'' \<mapsto> TextFile demo_csv], clock = 1700000000, out = []\<rparr>"

definition demo_world_later :: world where
  "demo_world_later =
     \<lparr>files = [parse_path ''b.csv'' \<mapsto> TextFile ''question,answer\<newline>x,y\<newline>''],
      clock = 1700000000 + 1/2, out = []\<rparr>"

definition demo_frame :: frame where
  "demo_frame = \<lparr>columns = [''question'', ''answer''], rows = [[Text ''q1'', Text ''a1''], [Text ''q2'', NaN]]\<rparr>"

definition set_input :: "string \<Rightarrow> string \<Rightarrow> world \<Rightarrow> world" where
  "set_input fn t w = w\<lparr>files := (files w)(parse_path fn \<mapsto> TextFile t)\<rparr>"

definition demo_args :: args where
  "demo_args = args_of ''dir/cards.csv'' PyNone '','' (PyStr ''double'')"

section \<open>The conversion, end to end\<close>

text \<open>
  C1. Double mode: when the input has a \<open>.csv\<close> name, exists, and parses to a
  frame with both a \<open>question\<close> and an \<open>answer\<close> column, \<open>csv2apkg\<close> returns
  normally and writes a package at the derived path whose deck holds one note
  per row, in row order, with the string forms of the row's question and answer
  as fields (the row as \<open>iterrows\<close> yields it, cast to the columns' common dtype), all of the fixed note type \<open>MODEL\<close>; the deck is named by the
  derived title and identified by the integer part of the clock.
\<close>

theorem csv2apkg_double_notes:
  assumes "path_suffix (parse_path fn) = ''.csv''"
    and "files w (parse_path fn) = Some (TextFile t)"
    and "read_csv t sep HeaderRow = Inr df"
    and "''question'' \<in> set (columns df)" and "''answer'' \<in> set (columns df)"
  shows "\<exists>w' d. csv2apkg fn title sep (PyStr ''double'') w = (Inr (), w')
    \<and> files w' (apkg_path_of (parse_path fn)) = Some (ApkgFile d)
    \<and> map note_fields (deck_notes d) =
        map (\<lambda>r. [row_field (columns df) r ''question'', row_field (columns df) r ''answer'']) (iter_rows df)
    \<and> list_all (\<lambda>n. note_model n = MODEL) (deck_notes d)
    \<and> deck_name d = derive_title title (parse_path fn)
    \<and> deck_id d = py_int_of_float (clock w)"
proof -
  have l: "load_frame (PyStr ''double'') sep w (parse_path fn) = Inr df"
    using assms(2,3) read_csv_sep [OF assms(3)] by (simp add: load_frame_def read_double_def read_single_def read_file_def)
  have qa: "has_qa (columns df)"
    using assms(4,5) by (simp add: has_qa_def series_contains_def)
  show ?thesis
    using csv2apkg_success [OF assms(1) l, of title] qa
    by (simp add: final_deck_def spec_notes_def list_all_iff o_def)
qed

theorem csv2apkg_double_notes_witness:
  "path_suffix (parse_path ''dir/cards.csv'') = ''.csv''
   \<and> files demo_world (parse_path ''dir/cards.csv'') = Some (TextFile demo_csv)
   \<and> read_csv demo_csv '','' HeaderRow = Inr demo_frame
   \<and> ''question'' \<in> set (columns demo_frame) \<and> ''answer'' \<in> set (columns demo_frame)
   \<and> (\<exists>w' d. csv2apkg ''dir/cards.csv'' PyNone '','' (PyStr ''double'') demo_world = (Inr (), w')
    \<and> files w' (apkg_path_of (parse_path ''dir/cards.csv'')) = Some (ApkgFile d)
    \<and> map note_fields (deck_notes d) =
        map (\<lambda>r. [row_field (columns demo_frame) r ''question'', row_field (columns demo_frame) r ''answer''])
          (iter_rows demo_frame)
    \<and> list_all (\<lambda>n. note_model n = MODEL) (deck_notes d)
    \<and> deck_name d = derive_title PyNone (parse_path ''dir/cards.csv'')
    \<and> deck_id d = py_int_of_float (clock demo_world))"
proof -
  have h1: "path_suffix (parse_path ''dir/cards.csv'') = ''.csv''" by code_simp
  have h2: "files demo_world (parse_path ''dir/cards.csv'') = Some (TextFile demo_csv)"
    by (simp add: demo_world_def)
  have h3: "read_csv demo_csv '','' HeaderRow = Inr demo_frame"
    by (simp add: demo_csv_def demo_frame_def) code_simp
  have h4: "''question'' \<in> set (columns demo_frame)" "''answer'' \<in> set (columns demo_frame)"
    by (simp_all add: demo_frame_def)
  from h1 h2 h3 h4 csv2apkg_double_notes [OF h1 h2 h3 h4, of PyNone] show ?thesis by blast
qed

text \<open>
  C2. Validation (line 32): a file name whose last component is not of the form
  \<open>s.csv\<close> with a non-empty \<open>s\<close> makes \<open>csv2apkg\<close> raise
  \<open>AssertionError\<close> before anything else happens: no file is written and
  nothing is printed. This includes the bare name \<open>.csv\<close>, whose pathlib
  suffix is empty.
\<close>

theorem csv2apkg_rejects_non_csv:
  assumes "\<not> (\<exists>s. s \<noteq> [] \<and> path_name (parse_path fn) = s @ ''.csv'')"
  shows "csv2apkg fn title sep mode w = (Inl (AssertionError ''Input file must be a .csv file''), w)"
proof -
  from assms have "path_suffix (parse_path fn) \<noteq> ''.csv''" by (simp add: csv_suffix_iff)
  then show ?thesis by (rule csv2apkg_suffix_error)
qed

theorem csv2apkg_rejects_non_csv_witness:
  "\<not> (\<exists>s. s \<noteq> [] \<and> path_name (parse_path ''dir/.csv'') = s @ ''.csv'')
   \<and> csv2apkg ''dir/.csv'' PyNone '','' (PyStr ''double'') demo_world
       = (Inl (AssertionError ''Input file must be a .csv file''), demo_world)"
proof -
  have "path_suffix (parse_path ''dir/.csv'') = []" by code_simp
  then have h: "\<not> (\<exists>s. s \<noteq> [] \<and> path_name (parse_path ''dir/.csv'') = s @ ''.csv'')"
    by (simp add: csv_suffix_iff [symmetric])
  with csv2apkg_rejects_non_csv [OF h] show ?thesis by blast
qed

text \<open>
  C3. Mode dispatch (lines 46-52): with a \<open>.csv\<close> name and a mode other than
  \<open>'double'\<close> and \<open>'single'\<close>, \<open>csv2apkg\<close> raises \<open>ValueError\<close> before
  reading the file or creating the deck, and leaves the world unchanged.
\<close>

theorem csv2apkg_rejects_mode:
  assumes "path_suffix (parse_path fn) = ''.csv''"
    and "mode \<noteq> PyStr ''double''" and "mode \<noteq> PyStr ''single''"
  shows "csv2apkg fn title sep mode w = (Inl (ValueError ''Invalid mode: csv format error''), w)"
  using assms by (simp add: csv2apkg_load_error load_frame_bad_mode)

theorem csv2apkg_rejects_mode_witness:
  "path_suffix (parse_path ''cards.csv'') = ''.csv''
   \<and> PyStr ''triple'' \<noteq> PyStr ''double'' \<and> PyStr ''triple'' \<noteq> PyStr ''single''
   \<and> csv2apkg ''cards.csv'' PyNone '','' (PyStr ''triple'') demo_world
       = (Inl (ValueError ''Invalid mode: csv format error''), demo_world)"
proof -
  have h1: "path_suffix (parse_path ''cards.csv'') = ''.csv''" by code_simp
  have h2: "PyStr ''triple'' \<noteq> PyStr ''double''" "PyStr ''triple'' \<noteq> PyStr ''single''" by simp_all
  from h1 h2 csv2apkg_rejects_mode [OF h1 h2] show ?thesis by blast
qed

text \<open>
  C4. A missing input file: with a \<open>.csv\<close> name and a valid mode (in double
  mode with a separator other than a line break, which pandas rejects first), a path
  with no file makes \<open>pandas.read_csv\<close> raise \<open>FileNotFoundError\<close>, which
  propagates out of \<open>csv2apkg\<close> with the world unchanged.
\<close>

theorem csv2apkg_missing_file:
  assumes "path_suffix (parse_path fn) = ''.csv''"
    and "mode = PyStr ''double'' \<and> sep \<noteq> ''\<newline>'' \<or> mode = PyStr ''single''"
    and "files w (parse_path fn) = None"
  shows "csv2apkg fn title sep mode w = (Inl (FileNotFoundError (path_str (parse_path fn))), w)"
proof -
  from assms(2,3) have "load_frame mode sep w (parse_path fn) = Inl (FileNotFoundError (path_str (parse_path fn)))"
    by (auto simp: load_frame_def read_double_def read_single_def read_file_def)
  with assms(1) show ?thesis by (rule csv2apkg_load_error)
qed

theorem csv2apkg_missing_file_witness:
  "path_suffix (parse_path ''other.csv'') = ''.csv''
   \<and> (PyStr ''single'' = PyStr ''double'' \<and> '','' \<noteq> ''\<newline>'' \<or> PyStr ''single'' = PyStr ''single'')
   \<and> files demo_world (parse_path ''other.csv'') = None
   \<and> csv2apkg ''other.csv'' PyNone '','' (PyStr ''single'') demo_world
       = (Inl (FileNotFoundError (path_str (parse_path ''other.csv''))), demo_world)"
proof -
  have h1: "path_suffix (parse_path ''other.csv'') = ''.csv''" by code_simp
  have h2: "PyStr ''single'' = PyStr ''double'' \<and> '','' \<noteq> ''\<newline>'' \<or> PyStr ''single'' = PyStr ''single''" by simp
  have h3: "files demo_world (parse_path ''other.csv'') = None"
    by (simp add: demo_world_def) code_simp
  from h1 h2 h3 csv2apkg_missing_file [OF h1 h2 h3] show ?thesis by blast
qed

text \<open>
  C5. Ragged input (section 7 of the specification): in double mode, when a
  data line has more fields than the header and the first data line, the
  reader raises the tokenizer's \<open>ParserError\<close>, naming the expected width,
  the first such line's number in the file (blank lines counted) and its field
  count; it propagates out of \<open>csv2apkg\<close> before the deck or the progress
  bar exist, and no file is written.
\<close>

theorem csv2apkg_ragged_rows:
  assumes "path_suffix (parse_path fn) = ''.csv''"
    and "files w (parse_path fn) = Some (TextFile t)"
    and "csv_in_model c t" and "c \<noteq> CHR ''\<newline>''"
    and "csv_records c t = h # r0 # recs"
    and "list_ex (\<lambda>r. max (length h) (length r0) < length r) recs"
  shows "\<exists>l r. find (\<lambda>(l, r). max (length h) (length r0) < length r) (zip (tl (record_lines c t)) (r0 # recs))
      = Some (l, r)
    \<and> csv2apkg fn title [c] (PyStr ''double'') w
      = (Inl (ParserError (''Error tokenizing data. C error: Expected '' @ nat_str (max (length h) (length r0))
           @ '' fields in line '' @ nat_str l @ '', saw '' @ nat_str (length r) @ ''\<newline>'')), w)"
proof -
  have len: "length (tl (record_lines c t)) = length (r0 # recs)"
    using assms(5) by (simp add: length_record_lines)
  have ex: "list_ex (\<lambda>r. max (length h) (length r0) < length r) (r0 # recs)"
    using assms(6) by simp
  obtain l r where f: "find (\<lambda>(l, r). max (length h) (length r0) < length r) (zip (tl (record_lines c t)) (r0 # recs))
      = Some (l, r)"
    using find_zip_list_ex [OF len ex] by blast
  from assms(2-5) ex f have "load_frame (PyStr ''double'') [c] w (parse_path fn)
      = Inl (ParserError (''Error tokenizing data. C error: Expected '' @ nat_str (max (length h) (length r0))
           @ '' fields in line '' @ nat_str l @ '', saw '' @ nat_str (length r) @ ''\<newline>''))"
    by (simp add: load_frame_def read_double_def read_file_def read_csv_def read_with_header_def shape_rows_def Let_def)
  with f assms(1) csv2apkg_load_error show ?thesis by blast
qed

theorem csv2apkg_ragged_rows_witness:
  "csv_records CHR '','' ''question,answer\<newline>\<newline>q1,a1\<newline>q2,a2,x\<newline>''
       = [''question'', ''answer''] # [''q1'', ''a1''] # [[''q2'', ''a2'', ''x'']]
   \<and> list_ex (\<lambda>r. max (length [''question'', ''answer'']) (length [''q1'', ''a1'']) < length r) [[''q2'', ''a2'', ''x'']]
   \<and> csv2apkg ''r.csv'' PyNone '','' (PyStr ''double'') \<lparr>files = [parse_path ''r.csv'' \<mapsto> TextFile ''question,answer\<newline>\<newline>q1,a1\<newline>q2,a2,x\<newline>''], clock = 0, out = []\<rparr>
     = (Inl (ParserError ''Error tokenizing data. C error: Expected 2 fields in line 4, saw 3\<newline>''), \<lparr>files = [parse_path ''r.csv'' \<mapsto> TextFile ''question,answer\<newline>\<newline>q1,a1\<newline>q2,a2,x\<newline>''], clock = 0, out = []\<rparr>)"
proof -
  have h1: "path_suffix (parse_path ''r.csv'') = ''.csv''" by code_simp
  have h2: "files \<lparr>files = [parse_path ''r.csv'' \<mapsto> TextFile ''question,answer\<newline>\<newline>q1,a1\<newline>q2,a2,x\<newline>''], clock = 0, out = []\<rparr> (parse_path ''r.csv'') = Some (TextFile ''question,answer\<newline>\<newline>q1,a1\<newline>q2,a2,x\<newline>'')" by simp
  have hm: "csv_in_model CHR '','' ''question,answer\<newline>\<newline>q1,a1\<newline>q2,a2,x\<newline>''" "CHR '','' \<noteq> CHR ''\<newline>''" by code_simp+
  have h3: "csv_records CHR '','' ''question,answer\<newline>\<newline>q1,a1\<newline>q2,a2,x\<newline>''
       = [''question'', ''answer''] # [''q1'', ''a1''] # [[''q2'', ''a2'', ''x'']]" by code_simp
  have h4: "list_ex (\<lambda>r. max (length [''question'', ''answer'']) (length [''q1'', ''a1'']) < length r)
       [[''q2'', ''a2'', ''x'']]" by simp
  have r: "tl (record_lines CHR '','' ''question,answer\<newline>\<newline>q1,a1\<newline>q2,a2,x\<newline>'') = [3, 4]" by code_simp
  obtain l r where
    "find (\<lambda>(l, r). max (length [''question'', ''answer'']) (length [''q1'', ''a1'']) < length r)
        (zip (tl (record_lines CHR '','' ''question,answer\<newline>\<newline>q1,a1\<newline>q2,a2,x\<newline>'')) ([''q1'', ''a1''] # [[''q2'', ''a2'', ''x'']])) = Some (l, r)"
    and c: "csv2apkg ''r.csv'' PyNone '','' (PyStr ''double'') \<lparr>files = [parse_path ''r.csv'' \<mapsto> TextFile ''question,answer\<newline>\<newline>q1,a1\<newline>q2,a2,x\<newline>''], clock = 0, out = []\<rparr>
      = (Inl (ParserError (''Error tokenizing data. C error: Expected '' @ nat_str (max (length [''question'', ''answer'']) (length [''q1'', ''a1'']))
           @ '' fields in line '' @ nat_str l @ '', saw '' @ nat_str (length r) @ ''\<newline>'')), \<lparr>files = [parse_path ''r.csv'' \<mapsto> TextFile ''question,answer\<newline>\<newline>q1,a1\<newline>q2,a2,x\<newline>''], clock = 0, out = []\<rparr>)"
    using csv2apkg_ragged_rows [OF h1 h2 hm h3 h4, of PyNone] by auto
  moreover have "l = 4" "r = [''q2'', ''a2'', ''x'']" using calculation(1) unfolding r by simp_all
  moreover have "nat_str 2 = ''2''" "nat_str 3 = ''3''" "nat_str 4 = ''4''"
    by (simp_all add: nat_str_small char_of_def bit_0)
  ultimately show ?thesis using h3 h4 by (simp add: numeral_2_eq_2 numeral_3_eq_3)
qed

text \<open>
  C6. Frame (section 3 and 4.1 steps 6-7): whatever \<open>csv2apkg\<close> does, it
  changes no file but the derived \<open>.apkg\<close> path, never overwrites the input
  file, and does not touch the clock.
\<close>

theorem csv2apkg_frame:
  assumes "csv2apkg fn title sep mode w = (r, w')"
  shows "files w' (parse_path fn) = files w (parse_path fn)
    \<and> (\<forall>p. p \<noteq> apkg_path_of (parse_path fn) \<longrightarrow> files w' p = files w p)
    \<and> clock w' = clock w"
  using assms
proof (cases rule: csv2apkg_cases)
  case (success df)
  from success(1) have "apkg_path_of (parse_path fn) \<noteq> parse_path fn"
    by (rule apkg_path_not_input)
  with success(4) show ?thesis by simp
qed simp_all

theorem csv2apkg_frame_witness:
  "csv2apkg ''dir/cards.csv'' PyNone '','' (PyStr ''double'') demo_world
     = (fst (csv2apkg ''dir/cards.csv'' PyNone '','' (PyStr ''double'') demo_world),
        snd (csv2apkg ''dir/cards.csv'' PyNone '','' (PyStr ''double'') demo_world))
   \<and> files (snd (csv2apkg ''dir/cards.csv'' PyNone '','' (PyStr ''double'') demo_world)) (parse_path ''dir/cards.csv'')
       = files demo_world (parse_path ''dir/cards.csv'')
   \<and> parse_path ''dir/notes.txt'' \<noteq> apkg_path_of (parse_path ''dir/cards.csv'')
   \<and> files (snd (csv2apkg ''dir/cards.csv'' PyNone '','' (PyStr ''double'') demo_world)) (parse_path ''dir/notes.txt'')
       = files demo_world (parse_path ''dir/notes.txt'')
   \<and> clock (snd (csv2apkg ''dir/cards.csv'' PyNone '','' (PyStr ''double'') demo_world)) = clock demo_world"
proof -
  have h: "csv2apkg ''dir/cards.csv'' PyNone '','' (PyStr ''double'') demo_world
     = (fst (csv2apkg ''dir/cards.csv'' PyNone '','' (PyStr ''double'') demo_world),
        snd (csv2apkg ''dir/cards.csv'' PyNone '','' (PyStr ''double'') demo_world))" by simp
  have n: "parse_path ''dir/notes.txt'' \<noteq> apkg_path_of (parse_path ''dir/cards.csv'')" by code_simp
  from h n csv2apkg_frame [OF h] show ?thesis by blast
qed

text \<open>
  C7. Output path (section 3 and the example of section 8): for an accepted
  name, the package goes to the same directory, under the input's stem with the
  suffix \<open>.apkg\<close>; \<open>cards.csv\<close> gives \<open>cards.apkg\<close>.
\<close>

theorem csv2apkg_output_path:
  assumes "path_suffix (parse_path fn) = ''.csv''"
  shows "path_parent (apkg_path_of (parse_path fn)) = path_parent (parse_path fn)
    \<and> path_name (apkg_path_of (parse_path fn)) = path_stem (parse_path fn) @ ''.apkg''
    \<and> path_suffix (apkg_path_of (parse_path fn)) = ''.apkg''
    \<and> path_stem (apkg_path_of (parse_path fn)) = path_stem (parse_path fn)"
proof -
  have wf: "wf_path (parse_path fn)" by (rule wf_parse_path)
  have ne: "path_stem (parse_path fn) \<noteq> []" using assms by (intro suffix_stem_not_Nil) simp
  from wf ne have "path_suffix (apkg_path_of (parse_path fn)) = ''.apkg''
      \<and> path_stem (apkg_path_of (parse_path fn)) = path_stem (parse_path fn)"
    by (rule apkg_path_suffix_stem)
  moreover from wf have "path_parent (apkg_path_of (parse_path fn)) = path_parent (parse_path fn)
      \<and> path_name (apkg_path_of (parse_path fn)) = path_stem (parse_path fn) @ ''.apkg''"
    by (simp add: apkg_path_shape)
  ultimately show ?thesis by simp
qed

theorem csv2apkg_output_path_witness:
  "path_suffix (parse_path ''cards.csv'') = ''.csv''
   \<and> apkg_path_of (parse_path ''cards.csv'') = parse_path ''cards.apkg''
   \<and> path_parent (apkg_path_of (parse_path ''cards.csv'')) = path_parent (parse_path ''cards.csv'')
   \<and> path_name (apkg_path_of (parse_path ''cards.csv'')) = path_stem (parse_path ''cards.csv'') @ ''.apkg''
   \<and> path_suffix (apkg_path_of (parse_path ''cards.csv'')) = ''.apkg''
   \<and> path_stem (apkg_path_of (parse_path ''cards.csv'')) = path_stem (parse_path ''cards.csv'')"
proof -
  have h: "path_suffix (parse_path ''cards.csv'') = ''.csv''" by code_simp
  have e: "apkg_path_of (parse_path ''cards.csv'') = parse_path ''cards.apkg''" by code_simp
  from h e csv2apkg_output_path [OF h] show ?thesis by blast
qed

text \<open>
  C8. Order of effects (section 4.1 steps 5-7 and the guarantee that no file
  is written before step 6): a normal run appends to the output exactly the
  progress bar's opening, then per row an optional skip message and one
  update numbered 1 to n, then the bar's closing at n, the single package
  write, and the final message; nothing is written during the loop.
\<close>

theorem csv2apkg_event_order:
  assumes "csv2apkg fn title sep mode w = (Inr (), w')"
  shows "\<exists>n evs. out w' = out w @ ProgressOpen n # evs @
      [ProgressClose n, FileWritten (apkg_path_of (parse_path fn)),
       Stdout (''Anki deck saved to '' @ path_str (apkg_path_of (parse_path fn)))]
    \<and> filter is_update evs = map ProgressUpdate [1..<Suc n]
    \<and> (\<forall>p. FileWritten p \<notin> set evs)"
  using assms
proof (cases rule: csv2apkg_cases)
  case (success df)
  then show ?thesis
    using spec_events_updates [of "columns df" 0 "iter_rows df"] spec_events_no_write
    by (intro exI [of _ "length (rows df)"] exI [of _ "spec_events (columns df) 0 (iter_rows df)"])
       (simp add: iter_rows_shape)
qed simp_all

theorem csv2apkg_event_order_witness:
  "csv2apkg ''dir/cards.csv'' PyNone '','' (PyStr ''double'') demo_world
     = (Inr (), snd (csv2apkg ''dir/cards.csv'' PyNone '','' (PyStr ''double'') demo_world))
   \<and> (\<exists>n evs. out (snd (csv2apkg ''dir/cards.csv'' PyNone '','' (PyStr ''double'') demo_world))
        = out demo_world @ ProgressOpen n # evs @
      [ProgressClose n, FileWritten (apkg_path_of (parse_path ''dir/cards.csv'')),
       Stdout (''Anki deck saved to '' @ path_str (apkg_path_of (parse_path ''dir/cards.csv'')))]
    \<and> filter is_update evs = map ProgressUpdate [1..<Suc n]
    \<and> (\<forall>p. FileWritten p \<notin> set evs))"
proof -
  have h: "csv2apkg ''dir/cards.csv'' PyNone '','' (PyStr ''double'') demo_world
     = (Inr (), snd (csv2apkg ''dir/cards.csv'' PyNone '','' (PyStr ''double'') demo_world))"
  proof -
    have "fst (csv2apkg ''dir/cards.csv'' PyNone '','' (PyStr ''double'') demo_world) = Inr ()"
      by (simp add: demo_world_def demo_csv_def) code_simp
    then show ?thesis by (metis prod.collapse)
  qed
  from h csv2apkg_event_order [OF h] show ?thesis by blast
qed

text \<open>
  C9. Presence is checked per column, not per cell (line 64 tests the row's
  index): in double mode, when the header lacks a \<open>question\<close> or an
  \<open>answer\<close> column, every row is skipped with one message each, the deck
  stays empty, and the (empty) package is still written.
\<close>

theorem csv2apkg_missing_columns:
  assumes "path_suffix (parse_path fn) = ''.csv''"
    and "files w (parse_path fn) = Some (TextFile t)"
    and "read_csv t sep HeaderRow = Inr df"
    and "''question'' \<notin> set (columns df) \<or> ''answer'' \<notin> set (columns df)"
  shows "\<exists>w' d. csv2apkg fn title sep (PyStr ''double'') w = (Inr (), w')
    \<and> files w' (apkg_path_of (parse_path fn)) = Some (ApkgFile d)
    \<and> deck_notes d = []
    \<and> (\<exists>evs. out w' = out w @ ProgressOpen (length (rows df)) # evs @
          [ProgressClose (length (rows df)), FileWritten (apkg_path_of (parse_path fn)),
           Stdout (''Anki deck saved to '' @ path_str (apkg_path_of (parse_path fn)))]
        \<and> filter (\<lambda>e. \<not> is_update e) evs = map (SkipRow (columns df)) (iter_rows df))"
proof -
  have l: "load_frame (PyStr ''double'') sep w (parse_path fn) = Inr df"
    using assms(2,3) read_csv_sep [OF assms(3)] by (simp add: load_frame_def read_double_def read_single_def read_file_def)
  have qa: "\<not> has_qa (columns df)"
    using assms(4) by (auto simp: has_qa_def series_contains_def)
  show ?thesis
    using csv2apkg_success [OF assms(1) l, of title] qa
      spec_events_skips [OF qa, of 0 "iter_rows df"]
    by (simp add: final_deck_def spec_notes_def iter_rows_shape)
qed

theorem csv2apkg_missing_columns_witness:
  "path_suffix (parse_path ''cards.csv'') = ''.csv''
   \<and> files \<lparr>files = [parse_path ''cards.csv'' \<mapsto> TextFile ''front,back\<newline>q1,a1\<newline>''],
            clock = 0, out = []\<rparr> (parse_path ''cards.csv'') = Some (TextFile ''front,back\<newline>q1,a1\<newline>'')
   \<and> read_csv ''front,back\<newline>q1,a1\<newline>'' '','' HeaderRow
       = Inr \<lparr>columns = [''front'', ''back''], rows = [[Text ''q1'', Text ''a1'']]\<rparr>
   \<and> ''question'' \<notin> set [''front'', ''back'']
   \<and> (\<exists>w' d. csv2apkg ''cards.csv'' PyNone '','' (PyStr ''double'')
          \<lparr>files = [parse_path ''cards.csv'' \<mapsto> TextFile ''front,back\<newline>q1,a1\<newline>''],
           clock = 0, out = []\<rparr> = (Inr (), w')
    \<and> files w' (apkg_path_of (parse_path ''cards.csv'')) = Some (ApkgFile d)
    \<and> deck_notes d = []
    \<and> (\<exists>evs. out w' = [] @ ProgressOpen 1 # evs @
          [ProgressClose 1, FileWritten (apkg_path_of (parse_path ''cards.csv'')),
           Stdout (''Anki deck saved to '' @ path_str (apkg_path_of (parse_path ''cards.csv'')))]
        \<and> filter (\<lambda>e. \<not> is_update e) evs = map (SkipRow [''front'', ''back'']) [[Text ''q1'', Text ''a1'']]))"
proof -
  have h1: "path_suffix (parse_path ''cards.csv'') = ''.csv''" by code_simp
  have h2: "files \<lparr>files = [parse_path ''cards.csv'' \<mapsto> TextFile ''front,back\<newline>q1,a1\<newline>''],
            clock = 0, out = []\<rparr> (parse_path ''cards.csv'') = Some (TextFile ''front,back\<newline>q1,a1\<newline>'')"
    by simp
  have h3: "read_csv ''front,back\<newline>q1,a1\<newline>'' '','' HeaderRow
       = Inr \<lparr>columns = [''front'', ''back''], rows = [[Text ''q1'', Text ''a1'']]\<rparr>" by code_simp
  have h4: "''question'' \<notin> set (columns \<lparr>columns = [''front'', ''back''], rows = [[Text ''q1'', Text ''a1'']]\<rparr>)
    \<or> ''answer'' \<notin> set (columns \<lparr>columns = [''front'', ''back''], rows = [[Text ''q1'', Text ''a1'']]\<rparr>)"
    by simp
  have i: "iter_rows \<lparr>columns = [''front'', ''back''], rows = [[Text ''q1'', Text ''a1'']]\<rparr>
      = [[Text ''q1'', Text ''a1'']]" by code_simp
  from h1 h2 h3 h4 csv2apkg_missing_columns [OF h1 h2 h3 h4, of PyNone] i show ?thesis by simp
qed

text \<open>
  C10. Single mode (lines 48-50 and the property of section 8): when the column
  keeps its text (some line is not a number, a boolean or an NA string), every
  non-blank line of a one-column file becomes one note, in order, whose front is
  the string form of the line's cell and whose back is a single space.
\<close>

theorem csv2apkg_single_notes:
  assumes "path_suffix (parse_path fn) = ''.csv''"
    and "files w (parse_path fn) = Some (TextFile t)"
    and "csv_in_model CHR '','' t"
    and "csv_records CHR '','' t \<noteq> []"
    and "list_all (\<lambda>r. length r = 1) (csv_records CHR '','' t)"
    and "list_ex (\<lambda>r. text_field (hd r)) (csv_records CHR '','' t)"
  shows "\<exists>w' d. csv2apkg fn title sep (PyStr ''single'') w = (Inr (), w')
    \<and> files w' (apkg_path_of (parse_path fn)) = Some (ApkgFile d)
    \<and> map note_fields (deck_notes d) =
        map (\<lambda>r. [py_str_cell (parse_cell (hd r)), '' '']) (csv_records CHR '','' t)"
proof -
  have l: "\<forall>r \<in> set (csv_records CHR '','' t). last r = hd r"
    using assms(5) by (auto simp: list_all_iff length_Suc_conv)
  then have tf: "list_ex (\<lambda>r. text_field (last r)) (csv_records CHR '','' t)"
    using assms(6) by (auto simp: list_ex_iff)
  have m: "map (\<lambda>r. [py_str_cell (parse_cell (last r)), '' '']) (csv_records CHR '','' t)
      = map (\<lambda>r. [py_str_cell (parse_cell (hd r)), '' '']) (csv_records CHR '','' t)"
    using l by simp
  have k0: "0 < (1::nat)" by simp
  from csv2apkg_single_text [OF assms(1-5) k0 tf, of title sep] show ?thesis unfolding m .
qed

theorem csv2apkg_single_notes_witness:
  "path_suffix (parse_path ''words.csv'') = ''.csv''
   \<and> files \<lparr>files = [parse_path ''words.csv'' \<mapsto> TextFile ''alpha\<newline>\<newline>beta\<newline>''],
            clock = 0, out = []\<rparr> (parse_path ''words.csv'') = Some (TextFile ''alpha\<newline>\<newline>beta\<newline>'')
   \<and> csv_in_model CHR '','' ''alpha\<newline>\<newline>beta\<newline>''
   \<and> csv_records CHR '','' ''alpha\<newline>\<newline>beta\<newline>'' \<noteq> []
   \<and> list_all (\<lambda>r. length r = 1) (csv_records CHR '','' ''alpha\<newline>\<newline>beta\<newline>'')
   \<and> list_ex (\<lambda>r. text_field (hd r)) (csv_records CHR '','' ''alpha\<newline>\<newline>beta\<newline>'')
   \<and> (\<exists>w' d. csv2apkg ''words.csv'' PyNone ''|'' (PyStr ''single'')
          \<lparr>files = [parse_path ''words.csv'' \<mapsto> TextFile ''alpha\<newline>\<newline>beta\<newline>''],
           clock = 0, out = []\<rparr> = (Inr (), w')
    \<and> files w' (apkg_path_of (parse_path ''words.csv'')) = Some (ApkgFile d)
    \<and> map note_fields (deck_notes d) = [[''alpha'', '' ''], [''beta'', '' '']])"
proof -
  have h1: "path_suffix (parse_path ''words.csv'') = ''.csv''" by code_simp
  have h2: "files \<lparr>files = [parse_path ''words.csv'' \<mapsto> TextFile ''alpha\<newline>\<newline>beta\<newline>''],
            clock = 0, out = []\<rparr> (parse_path ''words.csv'') = Some (TextFile ''alpha\<newline>\<newline>beta\<newline>'')"
    by simp
  have e: "csv_records CHR '','' ''alpha\<newline>\<newline>beta\<newline>'' = [[''alpha''], [''beta'']]" by code_simp
  have hm: "csv_in_model CHR '','' ''alpha\<newline>\<newline>beta\<newline>''" by code_simp
  have h3: "csv_records CHR '','' ''alpha\<newline>\<newline>beta\<newline>'' \<noteq> []" by (simp add: e)
  have h4: "list_all (\<lambda>r. length r = 1) (csv_records CHR '','' ''alpha\<newline>\<newline>beta\<newline>'')"
    by (simp add: e)
  have h5: "list_ex (\<lambda>r. text_field (hd r)) (csv_records CHR '','' ''alpha\<newline>\<newline>beta\<newline>'')"
    unfolding e by code_simp
  have p: "py_str_cell (parse_cell ''alpha'') = ''alpha''" "py_str_cell (parse_cell ''beta'') = ''beta''"
    by (simp_all add: parse_cell_def pandas_na_values_def)
  from h1 h2 hm h3 h4 h5 csv2apkg_single_notes [OF h1 h2 hm h3 h4 h5, of PyNone "''|''"] e p
  show ?thesis by simp
qed

section \<open>The row loop against its specification\<close>

text \<open>
  C11. Refinement of the loop (lines 61-78): on the rows of a rectangular
  frame the loop never raises, and, read through the abstraction "the fields
  of the deck's notes", it appends exactly \<open>spec_notes\<close> (all rows, in order,
  when both columns exist; none otherwise), advances the progress bar once per
  row and emits exactly \<open>spec_events\<close>.
\<close>

theorem process_rows_refines:
  assumes "list_all (\<lambda>r. length r = length cols) rs"
  shows "map note_fields (deck_notes (st_deck (fst (process_rows cols rs st))))
      = map note_fields (deck_notes (st_deck st)) @ spec_notes cols rs
    \<and> st_bar_n (fst (process_rows cols rs st)) = st_bar_n st + length rs
    \<and> st_out (fst (process_rows cols rs st)) = st_out st @ spec_events cols (st_bar_n st) rs
    \<and> snd (process_rows cols rs st) = Inr ()"
  using process_rows_spec [OF assms, of st] by (simp add: o_def)

theorem process_rows_refines_witness:
  "list_all (\<lambda>r. length r = length [''question'', ''answer'']) [[Text ''q1'', Text ''a1''], [NaN, Text ''a2'']]
   \<and> map note_fields (deck_notes (st_deck (fst (process_rows [''question'', ''answer'']
          [[Text ''q1'', Text ''a1''], [NaN, Text ''a2'']]
          \<lparr>st_deck = new_deck 0 ''d'', st_bar_n = 0, st_out = []\<rparr>))))
      = [[''q1'', ''a1''], [''nan'', ''a2'']]
   \<and> st_bar_n (fst (process_rows [''question'', ''answer''] [[Text ''q1'', Text ''a1''], [NaN, Text ''a2'']]
          \<lparr>st_deck = new_deck 0 ''d'', st_bar_n = 0, st_out = []\<rparr>)) = 2"
proof -
  have h: "list_all (\<lambda>r. length r = length [''question'', ''answer''])
      [[Text ''q1'', Text ''a1''], [NaN, Text ''a2'']]" by simp
  from process_rows_refines [OF h, of "\<lparr>st_deck = new_deck 0 ''d'', st_bar_n = 0, st_out = []\<rparr>"] h
  show ?thesis
    by (simp add: new_deck_def spec_notes_def has_qa_def series_contains_def row_field_def)
qed

text \<open>
  C12. Invariant of the loop: every note the loop adds has as many fields as
  its note type, so the check \<open>Package.write_to_file\<close> makes on each note
  (genanki raises \<open>ValueError\<close> otherwise) passes on the loop's deck, whatever
  the rows are and even when the loop stops on an exception.
\<close>

theorem process_rows_package_ok:
  assumes "list_all fields_match (deck_notes (st_deck st))"
  shows "package_write (st_deck (fst (process_rows cols rs st))) = Inr (st_deck (fst (process_rows cols rs st)))"
  by (rule package_write_ok) (rule process_rows_fields_match [OF assms])

theorem process_rows_package_ok_witness:
  "list_all fields_match (deck_notes (st_deck \<lparr>st_deck = new_deck 0 ''d'', st_bar_n = 0, st_out = []\<rparr>))
   \<and> package_write (st_deck (fst (process_rows [''question''] [[Text ''q'']]
        \<lparr>st_deck = new_deck 0 ''d'', st_bar_n = 0, st_out = []\<rparr>)))
     = Inr (st_deck (fst (process_rows [''question''] [[Text ''q'']]
        \<lparr>st_deck = new_deck 0 ''d'', st_bar_n = 0, st_out = []\<rparr>)))"
proof -
  have h: "list_all fields_match (deck_notes (st_deck \<lparr>st_deck = new_deck 0 ''d'', st_bar_n = 0, st_out = []\<rparr>))"
    by (simp add: new_deck_def)
  from h process_rows_package_ok [OF h, of "[''question'']" "[[Text ''q'']]"] show ?thesis by blast
qed

section \<open>Deck title\<close>

text \<open>
  C13. An explicit non-empty string title names the deck, whatever the input
  file is called (section 8: title "My Deck" gives deck name "My Deck").
\<close>

theorem derive_title_given:
  assumes "s \<noteq> []"
  shows "derive_title (PyStr s) p = s"
  using assms by (simp add: derive_title_def)

theorem derive_title_given_witness:
  "''My Deck'' \<noteq> [] \<and> derive_title (PyStr ''My Deck'') (parse_path ''cards.csv'') = ''My Deck''"
proof -
  have h: "''My Deck'' \<noteq> []" by simp
  from h derive_title_given [OF h, of "parse_path ''cards.csv''"] show ?thesis by blast
qed

text \<open>
  C14. Without a usable title (none, empty, or not a string, as \<open>fire\<close>
  passes \<open>--title 2024\<close>), the deck is named after the input's stem; for any
  name that passed the \<open>.csv\<close> check that stem is non-empty, so the fallback
  \<open>'Deck'\<close> of line 39 is never taken.
\<close>

theorem derive_title_default:
  assumes "path_suffix p = ''.csv''" and "\<not> (py_truthy title \<and> is_pystr title)"
  shows "derive_title title p = path_stem p \<and> path_stem p \<noteq> []"
proof -
  from assms(1) have "path_stem p \<noteq> []" by (intro suffix_stem_not_Nil) simp
  with assms(2) show ?thesis by (auto simp: derive_title_def)
qed

theorem derive_title_default_witness:
  "path_suffix (parse_path ''dir/cards.csv'') = ''.csv''
   \<and> \<not> (py_truthy (PyInt 2024) \<and> is_pystr (PyInt 2024))
   \<and> derive_title (PyInt 2024) (parse_path ''dir/cards.csv'') = ''cards''"
proof -
  have h1: "path_suffix (parse_path ''dir/cards.csv'') = ''.csv''" by code_simp
  have h2: "\<not> (py_truthy (PyInt 2024) \<and> is_pystr (PyInt 2024))" by simp
  have s: "path_stem (parse_path ''dir/cards.csv'') = ''cards''" by code_simp
  from h1 h2 derive_title_default [OF h1 h2] s show ?thesis by simp
qed

section \<open>Findings\<close>

text \<open>
  C15. A cell is never "missing" for the skip check of line 64: an answer cell
  holding one of pandas' default NA strings (the empty string, \<open>NA\<close>,
  \<open>None\<close>, \<open>null\<close>, \<open>nan\<close>, ...) is read as NaN and the note is still made,
  with the back \<open>str(nan)\<close>, the text \<open>nan\<close>, instead of the cell's text.
\<close>

theorem csv2apkg_na_answer:
  assumes "path_suffix (parse_path fn) = ''.csv''"
    and "files w (parse_path fn) = Some (TextFile (''question,answer'' @ CHR ''\<newline>'' # q @ CHR '','' # a))"
    and "text_field q" and "a \<in> set pandas_na_values"
    and "plain_field CHR '','' q" and "plain_field CHR '','' a"
  shows "\<exists>w' d. csv2apkg fn title '','' (PyStr ''double'') w = (Inr (), w')
    \<and> files w' (apkg_path_of (parse_path fn)) = Some (ApkgFile d)
    \<and> map note_fields (deck_notes d) = [[q, ''nan'']]"
proof -
  have t: "csv_of_pairs [(q, a)] = ''question,answer'' @ CHR ''\<newline>'' # q @ CHR '','' # a"
    by (simp add: csv_of_pairs_def)
  have cq: "column_convert (map (\<lambda>(q, a). parse_cell q) [(q, a)]) = Inr (map (\<lambda>(q, a). Text q) [(q, a)])"
    using column_convert_text_field [of q "[Text q]"] assms(3) by (simp add: text_field_parse)
  have ca: "column_convert (map (\<lambda>(q, a). parse_cell a) [(q, a)]) = Inr (map (\<lambda>(q, a). NaN) [(q, a)])"
    using column_convert_NaN [of 1] assms(4) by (simp add: parse_cell_def)
  have r: "read_csv (''question,answer'' @ CHR ''\<newline>'' # q @ CHR '','' # a) '','' HeaderRow
      = Inr \<lparr>columns = [''question'', ''answer''], rows = [[Text q, NaN]]\<rparr>"
    using read_csv_pairs_map [OF _ _ cq ca] assms(5,6) t by simp
  have i: "iter_rows \<lparr>columns = [''question'', ''answer''], rows = [[Text q, NaN]]\<rparr> = [[Text q, NaN]]"
    using iter_rows_keep [where n = 2 and c = "Text q" and r = "[Text q, NaN]"
        and df = "\<lparr>columns = [''question'', ''answer''], rows = [[Text q, NaN]]\<rparr>"] by simp
  show ?thesis
    using csv2apkg_qa_frame [OF assms(1,2) r, of title] i by simp
qed

theorem csv2apkg_na_answer_witness:
  "path_suffix (parse_path ''quiz.csv'') = ''.csv''
   \<and> files \<lparr>files = [parse_path ''quiz.csv'' \<mapsto> TextFile (''question,answer'' @ CHR ''\<newline>'' #
              ''Python null value?'' @ CHR '','' # ''None'')], clock = 0, out = []\<rparr> (parse_path ''quiz.csv'')
       = Some (TextFile (''question,answer'' @ CHR ''\<newline>'' # ''Python null value?'' @ CHR '','' # ''None''))
   \<and> text_field ''Python null value?'' \<and> ''None'' \<in> set pandas_na_values
   \<and> plain_field CHR '','' ''Python null value?'' \<and> plain_field CHR '','' ''None''
   \<and> (\<exists>w' d. csv2apkg ''quiz.csv'' PyNone '','' (PyStr ''double'')
          \<lparr>files = [parse_path ''quiz.csv'' \<mapsto> TextFile (''question,answer'' @ CHR ''\<newline>'' #
              ''Python null value?'' @ CHR '','' # ''None'')], clock = 0, out = []\<rparr> = (Inr (), w')
    \<and> files w' (apkg_path_of (parse_path ''quiz.csv'')) = Some (ApkgFile d)
    \<and> map note_fields (deck_notes d) = [[''Python null value?'', ''nan'']])"
proof -
  have h1: "path_suffix (parse_path ''quiz.csv'') = ''.csv''" by code_simp
  have h2: "files \<lparr>files = [parse_path ''quiz.csv'' \<mapsto> TextFile (''question,answer'' @ CHR ''\<newline>'' #
              ''Python null value?'' @ CHR '','' # ''None'')], clock = 0, out = []\<rparr> (parse_path ''quiz.csv'')
       = Some (TextFile (''question,answer'' @ CHR ''\<newline>'' # ''Python null value?'' @ CHR '','' # ''None''))"
    by simp
  have h3: "text_field ''Python null value?''" by code_simp
  have h4: "''None'' \<in> set pandas_na_values" by (simp add: pandas_na_values_def)
  have h5: "plain_field CHR '','' ''Python null value?''" "plain_field CHR '','' ''None''" by code_simp+
  from h1 h2 h3 h4 h5 csv2apkg_na_answer [OF h1 h2 h3 h4 h5, of PyNone] show ?thesis by blast
qed

text \<open>
  C16. The separator is ignored in single mode (line 49 calls \<open>read_csv\<close>
  without \<open>sep\<close>): the whole run is the same for every value of \<open>sep\<close>.
\<close>

theorem csv2apkg_single_ignores_sep:
  "csv2apkg fn title sep1 (PyStr ''single'') w = csv2apkg fn title sep2 (PyStr ''single'') w"
proof -
  have "\<And>p. load_frame (PyStr ''single'') sep1 w p = load_frame (PyStr ''single'') sep2 w p"
    by (simp add: load_frame_def read_double_def read_single_def)
  then show ?thesis by (simp add: csv2apkg_def assert_csv_def saved_message_def Let_def)
qed

text \<open>
  C17. The deck id is the clock's integer part (line 56): two successful runs
  whose clocks fall in the same second write decks with the same id, whatever
  their inputs (the collision the specification's design notes point out).
\<close>

theorem csv2apkg_same_second_same_id:
  assumes "csv2apkg fn1 t1 s1 m1 w1 = (Inr (), w1')" and "csv2apkg fn2 t2 s2 m2 w2 = (Inr (), w2')"
    and "files w1' (apkg_path_of (parse_path fn1)) = Some (ApkgFile d1)"
    and "files w2' (apkg_path_of (parse_path fn2)) = Some (ApkgFile d2)"
    and "0 \<le> clock w1" and "0 \<le> clock w2" and "\<lfloor>clock w1\<rfloor> = \<lfloor>clock w2\<rfloor>"
  shows "deck_id d1 = deck_id d2"
proof -
  have "deck_id d1 = py_int_of_float (clock w1)"
    using assms(1)
  proof (cases rule: csv2apkg_cases)
    case (success df)
    with assms(3) show ?thesis by (auto simp: final_deck_def)
  qed simp_all
  moreover have "deck_id d2 = py_int_of_float (clock w2)"
    using assms(2)
  proof (cases rule: csv2apkg_cases)
    case (success df)
    with assms(4) show ?thesis by (auto simp: final_deck_def)
  qed simp_all
  ultimately show ?thesis using assms(5-7) by (simp add: py_int_of_float_def)
qed

theorem csv2apkg_same_second_same_id_witness:
  "csv2apkg ''dir/cards.csv'' PyNone '','' (PyStr ''double'') demo_world
     = (Inr (), snd (csv2apkg ''dir/cards.csv'' PyNone '','' (PyStr ''double'') demo_world))
   \<and> csv2apkg ''b.csv'' (PyStr ''B'') '','' (PyStr ''double'') demo_world_later
     = (Inr (), snd (csv2apkg ''b.csv'' (PyStr ''B'') '','' (PyStr ''double'') demo_world_later))
   \<and> files (snd (csv2apkg ''dir/cards.csv'' PyNone '','' (PyStr ''double'') demo_world))
       (apkg_path_of (parse_path ''dir/cards.csv''))
     = Some (ApkgFile \<lparr>deck_id = 1700000000, deck_name = ''cards'', deck_description = [],
         deck_notes = [new_note MODEL [''q1'', ''a1''], new_note MODEL [''q2'', ''nan'']]\<rparr>)
   \<and> files (snd (csv2apkg ''b.csv'' (PyStr ''B'') '','' (PyStr ''double'') demo_world_later))
       (apkg_path_of (parse_path ''b.csv''))
     = Some (ApkgFile \<lparr>deck_id = 1700000000, deck_name = ''B'', deck_description = [],
         deck_notes = [new_note MODEL [''x'', ''y'']]\<rparr>)
   \<and> 0 \<le> clock demo_world \<and> 0 \<le> clock demo_world_later
   \<and> \<lfloor>clock demo_world\<rfloor> = \<lfloor>clock demo_world_later\<rfloor>
   \<and> deck_id \<lparr>deck_id = 1700000000, deck_name = ''cards'', deck_description = [],
         deck_notes = [new_note MODEL [''q1'', ''a1''], new_note MODEL [''q2'', ''nan'']]\<rparr>
     = deck_id \<lparr>deck_id = 1700000000, deck_name = ''B'', deck_description = [],
         deck_notes = [new_note MODEL [''x'', ''y'']]\<rparr>"
proof -
  have r1: "fst (csv2apkg ''dir/cards.csv'' PyNone '','' (PyStr ''double'') demo_world) = Inr ()"
    by (simp add: demo_world_def demo_csv_def) code_simp
  have r2: "fst (csv2apkg ''b.csv'' (PyStr ''B'') '','' (PyStr ''double'') demo_world_later) = Inr ()"
    by (simp add: demo_world_later_def) code_simp
  have h1: "csv2apkg ''dir/cards.csv'' PyNone '','' (PyStr ''double'') demo_world
     = (Inr (), snd (csv2apkg ''dir/cards.csv'' PyNone '','' (PyStr ''double'') demo_world))"
    using r1 by (metis prod.collapse)
  have h2: "csv2apkg ''b.csv'' (PyStr ''B'') '','' (PyStr ''double'') demo_world_later
     = (Inr (), snd (csv2apkg ''b.csv'' (PyStr ''B'') '','' (PyStr ''double'') demo_world_later))"
    using r2 by (metis prod.collapse)
  have h3: "files (snd (csv2apkg ''dir/cards.csv'' PyNone '','' (PyStr ''double'') demo_world))
       (apkg_path_of (parse_path ''dir/cards.csv''))
     = Some (ApkgFile \<lparr>deck_id = 1700000000, deck_name = ''cards'', deck_description = [],
         deck_notes = [new_note MODEL [''q1'', ''a1''], new_note MODEL [''q2'', ''nan'']]\<rparr>)"
    by (simp add: demo_world_def demo_csv_def) code_simp
  have h4: "files (snd (csv2apkg ''b.csv'' (PyStr ''B'') '','' (PyStr ''double'') demo_world_later))
       (apkg_path_of (parse_path ''b.csv''))
     = Some (ApkgFile \<lparr>deck_id = 1700000000, deck_name = ''B'', deck_description = [],
         deck_notes = [new_note MODEL [''x'', ''y'']]\<rparr>)"
    by (simp add: demo_world_later_def) code_simp
  have h5: "0 \<le> clock demo_world" "0 \<le> clock demo_world_later"
    by (simp_all add: demo_world_def demo_world_later_def)
  have h6: "\<lfloor>clock demo_world\<rfloor> = \<lfloor>clock demo_world_later\<rfloor>"
    by (simp add: demo_world_def demo_world_later_def)
  from h1 h2 h3 h4 h5 h6 csv2apkg_same_second_same_id [OF h1 h2 h3 h4 h5 h6] show ?thesis by blast
qed

section \<open>Reading the table, cards, and the statement-level run\<close>

text \<open>
  C18. The renaming of header names in \<open>pd.read_csv\<close> (line 47) always
  returns: once the header line and the data lines parse, double mode reads a
  frame, with one column name per header field and the converted rows; the
  search for a free name \<open>old.k\<close> never runs forever.
\<close>

theorem load_frame_header_total:
  assumes "files w p = Some (TextFile t)" and "csv_in_model c t"
    and "csv_records c t = h # recs" and "shape_rows (length h) (tl (record_lines c t)) recs = Inr rs"
    and "infer_dtypes rs = Inr rs'"
  shows "\<exists>cols. load_frame (PyStr ''double'') [c] w p = Inr \<lparr>columns = cols, rows = rs'\<rparr> \<and> length cols = length h"
proof -
  obtain cols where "header_names h = Some cols" "length cols = length h"
    using header_names_total [of h] by blast
  moreover have "(of_char c :: nat) \<noteq> 10"
    using assms(2,3) by (simp add: csv_in_model_def)
  then have "[c] \<noteq> ''\<newline>''" by auto
  ultimately show ?thesis
    using assms by (simp add: load_frame_def read_double_def read_single_def read_file_def read_csv_def read_with_header_def)
qed

theorem load_frame_header_total_witness:
  "\<exists>cols. load_frame (PyStr ''double'') '';'' \<lparr>files = [parse_path ''d.csv'' \<mapsto> TextFile ''q;q;\<newline>1;2;3\<newline>''], clock = 0, out = []\<rparr> (parse_path ''d.csv'')
     = Inr \<lparr>columns = cols, rows = [[IntV 1, IntV 2, IntV 3]]\<rparr> \<and> length cols = 3"
proof -
  have h1: "files \<lparr>files = [parse_path ''d.csv'' \<mapsto> TextFile ''q;q;\<newline>1;2;3\<newline>''], clock = 0, out = []\<rparr> (parse_path ''d.csv'') = Some (TextFile ''q;q;\<newline>1;2;3\<newline>'')" by simp
  have h2: "csv_in_model CHR '';'' ''q;q;\<newline>1;2;3\<newline>''" by code_simp
  have h3: "csv_records CHR '';'' ''q;q;\<newline>1;2;3\<newline>'' = [''q'', ''q'', []] # [[''1'', ''2'', ''3'']]" by code_simp
  have h4: "shape_rows (length [''q'', ''q'', []]) (tl (record_lines CHR '';'' ''q;q;\<newline>1;2;3\<newline>'')) [[''1'', ''2'', ''3'']] = Inr [[Text ''1'', Text ''2'', Text ''3'']]" by code_simp
  have h5: "infer_dtypes [[Text ''1'', Text ''2'', Text ''3'']] = Inr [[IntV 1, IntV 2, IntV 3]]" by code_simp
  from load_frame_header_total [OF h1 h2 h3 h4 h5] show ?thesis by (simp add: numeral_3_eq_3)
qed

text \<open>
  C19. Every note of a written package has exactly one card (genanki's
  \<open>Note._front_cards\<close> on \<open>MODEL\<close>, line 81): \<open>Model._req\<close> makes the
  field \<open>Front\<close> required for the only template, and the question field is
  never empty, since pandas reads an empty cell as NA, which \<open>str\<close> prints as
  \<open>nan\<close>. So no row becomes a note without a card.
\<close>

theorem csv2apkg_one_card:
  assumes "path_suffix (parse_path fn) = ''.csv''"
    and "load_frame mode sep w (parse_path fn) = Inr df"
  shows "\<exists>w' d. csv2apkg fn title sep mode w = (Inr (), w')
    \<and> files w' (apkg_path_of (parse_path fn)) = Some (ApkgFile d)
    \<and> list_all (\<lambda>n. front_cards n = Inr [0]) (deck_notes d)"
proof -
  have rect: "list_all (\<lambda>r. length r = length (columns df)) (iter_rows df)"
    using load_frame_rectangular [OF assms(2)] by (simp add: rectangular_def iter_rows_shape)
  have ne: "list_all (list_all (\<lambda>c. c \<noteq> Text [])) (iter_rows df)"
    by (rule load_frame_not_empty [OF assms(2)])
  have "list_all (\<lambda>n. front_cards n = Inr [0]) (deck_notes (final_deck w title (parse_path fn) df))"
    using rect ne
    by (auto simp: final_deck_def spec_notes_def has_qa_def list_all_iff front_cards_MODEL row_field_not_empty)
  then show ?thesis using csv2apkg_success [OF assms, of title] by simp
qed

theorem csv2apkg_one_card_witness:
  "path_suffix (parse_path ''dir/cards.csv'') = ''.csv''
   \<and> load_frame (PyStr ''double'') '','' demo_world (parse_path ''dir/cards.csv'') = Inr demo_frame
   \<and> (\<exists>w' d. csv2apkg ''dir/cards.csv'' PyNone '','' (PyStr ''double'') demo_world = (Inr (), w')
       \<and> files w' (apkg_path_of (parse_path ''dir/cards.csv'')) = Some (ApkgFile d)
       \<and> list_all (\<lambda>n. front_cards n = Inr [0]) (deck_notes d))"
proof -
  have h1: "path_suffix (parse_path ''dir/cards.csv'') = ''.csv''" by code_simp
  have h2: "load_frame (PyStr ''double'') '','' demo_world (parse_path ''dir/cards.csv'') = Inr demo_frame"
    by code_simp
  from h1 h2 csv2apkg_one_card [OF h1 h2, of PyNone] show ?thesis by blast
qed

text \<open>
  C20. Shape of the frame double mode reads (line 47, with a one-character
  separator): its column names are distinct, one per field of the first
  non-blank line, each given name kept and an empty one named
  \<open>Unnamed: k\<close> after its position; it has one row per further non-blank
  line, and every row has one cell per column.
\<close>

theorem load_frame_double_shape:
  assumes "files w p = Some (TextFile t)"
    and "load_frame (PyStr ''double'') [c] w p = Inr df"
  shows "distinct (columns df) \<and> length (columns df) = length (hd (csv_records c t))
    \<and> set (map (\<lambda>(k, n). if n = [] then ''Unnamed: '' @ nat_str k else n)
              (zip [0..<length (hd (csv_records c t))] (hd (csv_records c t)))) \<subseteq> set (columns df)
    \<and> length (rows df) = length (csv_records c t) - 1 \<and> rectangular df"
proof -
  from assms have "read_csv t [c] HeaderRow = Inr df"
    by (simp add: load_frame_def read_double_def read_single_def read_file_def split: if_splits)
  then have s: "header_names (hd (csv_records c t)) = Some (columns df)"
    and r: "length (rows df) = length (csv_records c t) - 1 \<and> rectangular df"
    using read_csv_header_shape by blast+
  from s header_names_total [of "hd (csv_records c t)"] have
    "distinct (columns df) \<and> length (columns df) = length (hd (csv_records c t))
    \<and> set (map (\<lambda>(k, n). if n = [] then ''Unnamed: '' @ nat_str k else n)
              (zip [0..<length (hd (csv_records c t))] (hd (csv_records c t)))) \<subseteq> set (columns df)"
    by auto
  with r show ?thesis by blast
qed

theorem load_frame_double_shape_witness:
  "load_frame (PyStr ''double'') '';'' \<lparr>files = [parse_path ''d.csv'' \<mapsto> TextFile ''q;q;\<newline>1;2;3\<newline>''], clock = 0, out = []\<rparr> (parse_path ''d.csv'')
     = Inr \<lparr>columns = [''q'', ''q.1'', ''Unnamed: 2''], rows = [[IntV 1, IntV 2, IntV 3]]\<rparr>
   \<and> distinct [''q'', ''q.1'', ''Unnamed: 2'']
   \<and> set (map (\<lambda>(k, n). if n = [] then ''Unnamed: '' @ nat_str k else n)
              (zip [0..<length (hd (csv_records CHR '';'' ''q;q;\<newline>1;2;3\<newline>''))] (hd (csv_records CHR '';'' ''q;q;\<newline>1;2;3\<newline>'')))) \<subseteq> set [''q'', ''q.1'', ''Unnamed: 2'']"
proof -
  have h1: "files \<lparr>files = [parse_path ''d.csv'' \<mapsto> TextFile ''q;q;\<newline>1;2;3\<newline>''], clock = 0, out = []\<rparr> (parse_path ''d.csv'') = Some (TextFile ''q;q;\<newline>1;2;3\<newline>'')" by simp
  have h2: "load_frame (PyStr ''double'') [CHR '';''] \<lparr>files = [parse_path ''d.csv'' \<mapsto> TextFile ''q;q;\<newline>1;2;3\<newline>''], clock = 0, out = []\<rparr> (parse_path ''d.csv'')
     = Inr \<lparr>columns = [''q'', ''q.1'', ''Unnamed: 2''], rows = [[IntV 1, IntV 2, IntV 3]]\<rparr>" by code_simp
  from load_frame_double_shape [OF h1 h2] h2 show ?thesis by simp
qed

text \<open>
  C21. Nothing is written before the package write: in every configuration a run
  from \<open>Start\<close> reaches before the phase \<open>Written\<close>, the files are those of
  the initial world (also after a failed assert, load, row or package check),
  and the clock is the one the run started with.
\<close>

theorem run_files_unchanged:
  assumes "(run_step a)\<^sup>*\<^sup>* (Start, w0) (p, w)" "p \<noteq> Written" "p \<noteq> Done"
  shows "files w = files w0 \<and> clock w = clock w0"
  using assms
proof (induction rule: rtranclp_induct2)
  case refl
  then show ?case by simp
next
  case (step p1 w1 p w)
  from run_step_before_write [OF step.hyps(2) step.prems] step.IH show ?case by simp
qed

theorem run_files_unchanged_witness:
  "(run_step demo_args)\<^sup>*\<^sup>* (Start, demo_world) (Checked, demo_world)
   \<and> files demo_world = files demo_world \<and> clock demo_world = clock demo_world"
proof -
  have "assert_csv (in_path demo_args) = Inr ()"
    by (simp add: demo_args_def args_of_def in_path_def) code_simp
  then have "(run_step demo_args)\<^sup>*\<^sup>* (Start, demo_world) (Checked, demo_world)"
    by (blast intro: run_step.check_ok)
  moreover have "Checked \<noteq> Written" "Checked \<noteq> Done" by simp_all
  ultimately show ?thesis using run_files_unchanged by blast
qed

text \<open>
  C22. An input file holding nothing but line breaks (an empty file included):
  in double mode \<open>pandas.read_csv\<close> raises \<open>EmptyDataError\<close> (no header
  to name the columns), which propagates before the deck exists and changes
  nothing; in single mode the names are given, pandas returns an empty frame,
  and the run writes a package whose deck has no notes.
\<close>

theorem csv2apkg_empty_file:
  assumes "path_suffix (parse_path fn) = ''.csv''"
    and "files w (parse_path fn) = Some (TextFile t)" and "set t \<subseteq> {CHR ''\<newline>''}"
    and "length sep = 1" and "sep \<noteq> ''\<newline>''"
  shows "csv2apkg fn title sep (PyStr ''double'') w = (Inl (EmptyDataError ''No columns to parse from file''), w)
    \<and> (\<exists>w' d. csv2apkg fn title sep (PyStr ''single'') w = (Inr (), w')
         \<and> files w' (apkg_path_of (parse_path fn)) = Some (ApkgFile d) \<and> deck_notes d = [])"
proof -
  have "load_frame (PyStr ''double'') sep w (parse_path fn) = Inl (EmptyDataError ''No columns to parse from file'')"
    using assms(2-5) by (simp add: load_frame_def read_double_def read_file_def read_csv_blank)
  with assms(1) have d: "csv2apkg fn title sep (PyStr ''double'') w = (Inl (EmptyDataError ''No columns to parse from file''), w)"
    by (rule csv2apkg_load_error)
  have l: "load_frame (PyStr ''single'') sep w (parse_path fn)
      = Inr (assign_const ''answer'' '' '' \<lparr>columns = [''question''], rows = []\<rparr>)"
    using assms(2,3) by (simp add: load_frame_def read_single_def read_file_def read_csv_blank_names)
  have "rows (assign_const ''answer'' '' '' \<lparr>columns = [''question''], rows = []\<rparr>) = []"
    by (simp add: assign_const_def)
  then have "iter_rows (assign_const ''answer'' '' '' \<lparr>columns = [''question''], rows = []\<rparr>) = []"
    by (simp add: iter_rows_def Let_def)
  with csv2apkg_success [OF assms(1) l, of title] d show ?thesis
    by (simp add: final_deck_def spec_notes_def)
qed

theorem csv2apkg_empty_file_witness:
  "csv2apkg ''dir/empty.csv'' PyNone '';'' (PyStr ''double'') \<lparr>files = [parse_path ''dir/empty.csv'' \<mapsto> TextFile ''\<newline>\<newline>''], clock = 0, out = []\<rparr>
     = (Inl (EmptyDataError ''No columns to parse from file''), \<lparr>files = [parse_path ''dir/empty.csv'' \<mapsto> TextFile ''\<newline>\<newline>''], clock = 0, out = []\<rparr>)
   \<and> (\<exists>w' d. csv2apkg ''dir/empty.csv'' PyNone '';'' (PyStr ''single'') \<lparr>files = [parse_path ''dir/empty.csv'' \<mapsto> TextFile ''\<newline>\<newline>''], clock = 0, out = []\<rparr> = (Inr (), w')
       \<and> files w' (apkg_path_of (parse_path ''dir/empty.csv'')) = Some (ApkgFile d) \<and> deck_notes d = [])"
proof -
  have s: "path_suffix (parse_path ''dir/empty.csv'') = ''.csv''" by code_simp
  have f: "files \<lparr>files = [parse_path ''dir/empty.csv'' \<mapsto> TextFile ''\<newline>\<newline>''], clock = 0, out = []\<rparr> (parse_path ''dir/empty.csv'') = Some (TextFile ''\<newline>\<newline>'')" by simp
  have t: "set ''\<newline>\<newline>'' \<subseteq> {CHR ''\<newline>''}" "length '';'' = 1" "'';'' \<noteq> ''\<newline>''" by simp_all
  from csv2apkg_empty_file [OF s f t, of PyNone] show ?thesis by simp
qed

text \<open>
  C23. Single mode reads without \<open>sep\<close> (line 49), so a comma splits a line;
  when every line holds exactly one comma, pandas takes the part before it as
  the row index and the note's front is only the part after the comma (for a
  column that keeps its text).
\<close>

theorem csv2apkg_single_comma:
  assumes "path_suffix (parse_path fn) = ''.csv''"
    and "files w (parse_path fn) = Some (TextFile t)"
    and "csv_in_model CHR '','' t"
    and "csv_records CHR '','' t \<noteq> []"
    and "list_all (\<lambda>r. length r = 2) (csv_records CHR '','' t)"
    and "list_ex (\<lambda>r. text_field (r ! 1)) (csv_records CHR '','' t)"
  shows "\<exists>w' d. csv2apkg fn title sep (PyStr ''single'') w = (Inr (), w')
    \<and> files w' (apkg_path_of (parse_path fn)) = Some (ApkgFile d)
    \<and> map note_fields (deck_notes d) =
        map (\<lambda>r. [py_str_cell (parse_cell (r ! 1)), '' '']) (csv_records CHR '','' t)"
proof -
  have l: "\<forall>r \<in> set (csv_records CHR '','' t). last r = r ! 1"
    using assms(5) by (auto simp: list_all_iff numeral_2_eq_2 length_Suc_conv)
  then have tf: "list_ex (\<lambda>r. text_field (last r)) (csv_records CHR '','' t)"
    using assms(6) by (auto simp: list_ex_iff)
  have m: "map (\<lambda>r. [py_str_cell (parse_cell (last r)), '' '']) (csv_records CHR '','' t)
      = map (\<lambda>r. [py_str_cell (parse_cell (r ! 1)), '' '']) (csv_records CHR '','' t)"
    using l by simp
  have k0: "0 < (2::nat)" by simp
  from csv2apkg_single_text [OF assms(1-5) k0 tf, of title sep] show ?thesis unfolding m .
qed

theorem csv2apkg_single_comma_witness:
  "path_suffix (parse_path ''words.csv'') = ''.csv''
   \<and> files \<lparr>files = [parse_path ''words.csv'' \<mapsto> TextFile ''1,alpha\<newline>2,beta\<newline>''],
            clock = 0, out = []\<rparr> (parse_path ''words.csv'') = Some (TextFile ''1,alpha\<newline>2,beta\<newline>'')
   \<and> csv_in_model CHR '','' ''1,alpha\<newline>2,beta\<newline>''
   \<and> csv_records CHR '','' ''1,alpha\<newline>2,beta\<newline>'' \<noteq> []
   \<and> list_all (\<lambda>r. length r = 2) (csv_records CHR '','' ''1,alpha\<newline>2,beta\<newline>'')
   \<and> list_ex (\<lambda>r. text_field (r ! 1)) (csv_records CHR '','' ''1,alpha\<newline>2,beta\<newline>'')
   \<and> (\<exists>w' d. csv2apkg ''words.csv'' PyNone '','' (PyStr ''single'') \<lparr>files = [parse_path ''words.csv'' \<mapsto> TextFile ''1,alpha\<newline>2,beta\<newline>''],
            clock = 0, out = []\<rparr> = (Inr (), w')
    \<and> files w' (apkg_path_of (parse_path ''words.csv'')) = Some (ApkgFile d)
    \<and> map note_fields (deck_notes d) = [[''alpha'', '' ''], [''beta'', '' '']])"
proof -
  have h1: "path_suffix (parse_path ''words.csv'') = ''.csv''" by code_simp
  have h2: "files \<lparr>files = [parse_path ''words.csv'' \<mapsto> TextFile ''1,alpha\<newline>2,beta\<newline>''],
            clock = 0, out = []\<rparr> (parse_path ''words.csv'') = Some (TextFile ''1,alpha\<newline>2,beta\<newline>'')"
    by simp
  have e: "csv_records CHR '','' ''1,alpha\<newline>2,beta\<newline>'' = [[''1'', ''alpha''], [''2'', ''beta'']]" by code_simp
  have h3: "csv_records CHR '','' ''1,alpha\<newline>2,beta\<newline>'' \<noteq> []" by (simp add: e)
  have h4: "list_all (\<lambda>r. length r = 2) (csv_records CHR '','' ''1,alpha\<newline>2,beta\<newline>'')"
    by (simp add: e)
  have hm: "csv_in_model CHR '','' ''1,alpha\<newline>2,beta\<newline>''" by code_simp
  have h5: "list_ex (\<lambda>r. text_field (r ! 1)) (csv_records CHR '','' ''1,alpha\<newline>2,beta\<newline>'')"
    unfolding e by code_simp
  have p: "py_str_cell (parse_cell ''alpha'') = ''alpha''" "py_str_cell (parse_cell ''beta'') = ''beta''"
    by (simp_all add: parse_cell_def pandas_na_values_def)
  from h1 h2 hm h3 h4 h5 csv2apkg_single_comma [OF h1 h2 hm h3 h4 h5, of PyNone "'',''"] e p
  show ?thesis by simp
qed

text \<open>
  C24. Blank lines of the input matter only for the line number a
  \<open>ParserError\<close> names: running on the file with its empty lines removed
  gives the same world, up to the input file's own text, and the same result,
  or a \<open>ParserError\<close> exactly when the original run raises one (pandas'
  \<open>skip_blank_lines\<close>, which the code keeps at its default).
\<close>

theorem csv2apkg_blank_lines:
  assumes lines: "\<forall>l \<in> set ls. CHR ''\<newline>'' \<notin> set l \<and> CHR 0x0D \<notin> set l"
    and input: "files w (parse_path fn) = Some (TextFile (join_with ''\<newline>'' ls))"
  shows "snd (csv2apkg fn title sep mode (set_input fn (join_with ''\<newline>'' (filter (\<lambda>l. l \<noteq> []) ls)) w)) = set_input fn (join_with ''\<newline>'' (filter (\<lambda>l. l \<noteq> []) ls)) (snd (csv2apkg fn title sep mode w))
    \<and> (fst (csv2apkg fn title sep mode (set_input fn (join_with ''\<newline>'' (filter (\<lambda>l. l \<noteq> []) ls)) w)) = fst (csv2apkg fn title sep mode w)
       \<or> (\<exists>m m'. fst (csv2apkg fn title sep mode w) = Inl (ParserError m) \<and> fst (csv2apkg fn title sep mode (set_input fn (join_with ''\<newline>'' (filter (\<lambda>l. l \<noteq> []) ls)) w)) = Inl (ParserError m')))"
proof -
  let ?t = "join_with ''\<newline>'' (filter (\<lambda>l. l \<noteq> []) ls)"
  let ?w = "set_input fn ?t w"
  show ?thesis
  proof (cases "path_suffix (parse_path fn) = ''.csv''")
    case False
    then show ?thesis by (simp add: csv2apkg_suffix_error)
  next
    case True
    have "files ?w (parse_path fn) = Some (TextFile ?t)" by (simp add: set_input_def)
    then have lf: "eq_up_to_parser_msg (load_frame mode sep ?w (parse_path fn)) (load_frame mode sep w (parse_path fn))"
      by (rule load_frame_same_records [OF _ input]) (rule csv_records_drop_blank [OF lines])
    show ?thesis
    proof (cases "load_frame mode sep ?w (parse_path fn) = load_frame mode sep w (parse_path fn)")
      case same: True
      show ?thesis
      proof (cases "load_frame mode sep w (parse_path fn)")
        case (Inl e)
        with True same show ?thesis by (simp add: csv2apkg_load_error set_input_def)
      next
        case (Inr df)
        have ne: "apkg_path_of (parse_path fn) \<noteq> parse_path fn"
          using True by (rule apkg_path_not_input)
        from Inr same have "load_frame mode sep ?w (parse_path fn) = Inr df" by simp
        with True Inr ne show ?thesis
          by (simp add: csv2apkg_success final_deck_def set_input_def fun_upd_twist)
      qed
    next
      case False
      with lf obtain m m' where "load_frame mode sep ?w (parse_path fn) = Inl (ParserError m')"
        "load_frame mode sep w (parse_path fn) = Inl (ParserError m)"
        by (auto simp: eq_up_to_parser_msg_def)
      with True show ?thesis by (simp add: csv2apkg_load_error set_input_def)
    qed
  qed
qed

theorem csv2apkg_blank_lines_witness:
  "snd (csv2apkg ''x.csv'' PyNone '','' (PyStr ''double'') (set_input ''x.csv'' (join_with ''\<newline>'' [''question,answer'', ''q1,a1'']) \<lparr>files = [parse_path ''x.csv'' \<mapsto> TextFile (join_with ''\<newline>'' [''question,answer'', [], ''q1,a1'', [], []])], clock = 5, out = []\<rparr>)) = set_input ''x.csv'' (join_with ''\<newline>'' [''question,answer'', ''q1,a1'']) (snd (csv2apkg ''x.csv'' PyNone '','' (PyStr ''double'') \<lparr>files = [parse_path ''x.csv'' \<mapsto> TextFile (join_with ''\<newline>'' [''question,answer'', [], ''q1,a1'', [], []])], clock = 5, out = []\<rparr>))
   \<and> (fst (csv2apkg ''x.csv'' PyNone '','' (PyStr ''double'') (set_input ''x.csv'' (join_with ''\<newline>'' [''question,answer'', ''q1,a1'']) \<lparr>files = [parse_path ''x.csv'' \<mapsto> TextFile (join_with ''\<newline>'' [''question,answer'', [], ''q1,a1'', [], []])], clock = 5, out = []\<rparr>)) = fst (csv2apkg ''x.csv'' PyNone '','' (PyStr ''double'') \<lparr>files = [parse_path ''x.csv'' \<mapsto> TextFile (join_with ''\<newline>'' [''question,answer'', [], ''q1,a1'', [], []])], clock = 5, out = []\<rparr>)
      \<or> (\<exists>m m'. fst (csv2apkg ''x.csv'' PyNone '','' (PyStr ''double'') \<lparr>files = [parse_path ''x.csv'' \<mapsto> TextFile (join_with ''\<newline>'' [''question,answer'', [], ''q1,a1'', [], []])], clock = 5, out = []\<rparr>) = Inl (ParserError m) \<and> fst (csv2apkg ''x.csv'' PyNone '','' (PyStr ''double'') (set_input ''x.csv'' (join_with ''\<newline>'' [''question,answer'', ''q1,a1'']) \<lparr>files = [parse_path ''x.csv'' \<mapsto> TextFile (join_with ''\<newline>'' [''question,answer'', [], ''q1,a1'', [], []])], clock = 5, out = []\<rparr>)) = Inl (ParserError m')))"
proof -
  have l: "\<forall>l \<in> set [''question,answer'', [], ''q1,a1'', [], []]. CHR ''\<newline>'' \<notin> set l \<and> CHR 0x0D \<notin> set l"
    by simp
  have f: "files \<lparr>files = [parse_path ''x.csv'' \<mapsto> TextFile (join_with ''\<newline>'' [''question,answer'', [], ''q1,a1'', [], []])], clock = 5, out = []\<rparr> (parse_path ''x.csv'') = Some (TextFile (join_with ''\<newline>'' [''question,answer'', [], ''q1,a1'', [], []]))" by simp
  have e: "filter (\<lambda>l. l \<noteq> []) [''question,answer'', [], ''q1,a1'', [], []] = [''question,answer'', ''q1,a1'']" by simp
  from csv2apkg_blank_lines [OF l f, of PyNone "'',''" "PyStr ''double''"] e
  show ?thesis by (simp only:)
qed

text \<open>
  C25. The command line with only a file name (lines 85-90): fire calls
  \<open>csv2apkg\<close> with the defaults \<open>title=None\<close>, \<open>sep=','\<close>,
  \<open>mode='double'\<close>; the process exits with status 0 exactly when the call
  returns, and 1 when it raises, with the world the call leaves
  (\<open>script_exit\<close>; an outcome outside the model stays \<open>NotModelled\<close>).
\<close>

theorem main_bare_file:
  assumes "\<not> is_flag fn" and "fire_value fn = Inr (PyStr fn)"
  shows "main_run [fn] w =
    (script_exit (fst (csv2apkg fn PyNone '','' (PyStr ''double'') w)),
     snd (csv2apkg fn PyNone '','' (PyStr ''double'') w))"
proof -
  have call: "fire_call [fn] = Inr ([PyStr fn, PyNone, PyStr '','', PyStr ''double''], [])"
    using assms by (simp add: fire_call_def add_rarg_def csv2apkg_params_def bind_cons_def)
  have own: "\<not> fire_own_flags [fn]"
    using assms(1) own_flags_are_flags by (auto simp: fire_own_flags_def)
  show ?thesis
    using own call
    by (simp add: main_run_def script_exit_def split: prod.split sum.split)
qed

theorem main_bare_file_witness:
  "\<not> is_flag ''dir/cards.csv'' \<and> fire_value ''dir/cards.csv'' = Inr (PyStr ''dir/cards.csv'')
   \<and> main_run [''dir/cards.csv''] demo_world =
      (script_exit (fst (csv2apkg ''dir/cards.csv'' PyNone '','' (PyStr ''double'') demo_world)),
       snd (csv2apkg ''dir/cards.csv'' PyNone '','' (PyStr ''double'') demo_world))
   \<and> fst (csv2apkg ''dir/cards.csv'' PyNone '','' (PyStr ''double'') demo_world) = Inr ()"
proof -
  have f: "\<not> is_flag ''dir/cards.csv''" by (simp add: is_flag_def)
  have v: "fire_value ''dir/cards.csv'' = Inr (PyStr ''dir/cards.csv'')" by code_simp
  have r: "fst (csv2apkg ''dir/cards.csv'' PyNone '','' (PyStr ''double'') demo_world) = Inr ()" by code_simp
  from f v r main_bare_file [OF f v, of demo_world] show ?thesis by blast
qed

text \<open>
  C26. The title can be given as the second positional token, as
  \<open>--title t\<close>, as \<open>--title=t\<close> or as the short flag \<open>-t t\<close> (also before
  the file name): fire binds the same value and the run is the same.
\<close>

theorem main_title_spellings:
  assumes fn: "\<not> is_flag fn" and t: "\<not> is_flag t"
  shows "main_run [fn, ''--title'', t] w = main_run [fn, t] w
    \<and> main_run [''--title='' @ t, fn] w = main_run [fn, t] w
    \<and> main_run [''-t'', t, fn] w = main_run [fn, t] w"
proof -
  have own: "fire_own_flags [fn, t] = False" "fire_own_flags [fn, ''--title'', t] = False"
    "fire_own_flags [''--title='' @ t, fn] = False" "fire_own_flags [''-t'', t, fn] = False"
    using fn t own_flags_are_flags by (auto simp: fire_own_flags_def)
  have k: "fire_kw [fn, t] = ([], [], [fn, t])"
    "fire_kw [fn, ''--title'', t] = ([(''title'', t)], [], [fn])"
    "fire_kw [''--title='' @ t, fn] = ([(''title'', t)], [], [fn])"
    "fire_kw [''-t'', t, fn] = ([(''title'', t)], [], [fn])"
    by (simp_all only: fire_kw_plain_head [OF fn] fire_kw_plain_head [OF t] fire_kw_title_flag [OF t]
        fire_kw_title_eq fire_kw_title_short [OF t] fire_kw.simps(1)) (simp_all add: add_kw_def add_rarg_def)
  have "fire_call [fn, ''--title'', t] = fire_call [fn, t]"
    "fire_call [''--title='' @ t, fn] = fire_call [fn, t]"
    "fire_call [''-t'', t, fn] = fire_call [fn, t]"
    by (simp_all only: fire_call_def k prod.case fire_bind_title)
  with own show ?thesis by (simp only: main_run_same_call)
qed

theorem main_title_spellings_witness:
  "\<not> is_flag ''cards.csv'' \<and> \<not> is_flag ''My Deck''
   \<and> main_run [''cards.csv'', ''--title'', ''My Deck''] demo_world = main_run [''cards.csv'', ''My Deck''] demo_world
   \<and> main_run [''--title='' @ ''My Deck'', ''cards.csv''] demo_world = main_run [''cards.csv'', ''My Deck''] demo_world
   \<and> main_run [''-t'', ''My Deck'', ''cards.csv''] demo_world = main_run [''cards.csv'', ''My Deck''] demo_world"
proof -
  have f: "\<not> is_flag ''cards.csv''" "\<not> is_flag ''My Deck''" by (simp_all add: is_flag_def)
  from f main_title_spellings [OF f, of demo_world] show ?thesis by blast
qed
text \<open>
  C27. A title that fire reads as a number (\<open>--title 2024\<close>) reaches
  \<open>csv2apkg\<close> as an int, which the title test of line 34 rejects: the run is
  exactly the run without a title, the deck named after the file.
\<close>

theorem main_numeric_title_ignored:
  assumes fn: "\<not> is_flag fn"
  shows "main_run [fn, ''--title'', int_str i] w = main_run [fn] w"
proof -
  have own: "fire_own_flags [fn] = False" "fire_own_flags [fn, ''--title'', int_str i] = False"
    using fn int_str_not_flag own_flags_are_flags by (auto simp: fire_own_flags_def)
  have k: "fire_kw [fn] = ([], [], [fn])"
    "fire_kw [fn, ''--title'', int_str i] = ([(''title'', int_str i)], [], [fn])"
    by (simp_all only: fire_kw_plain_head [OF fn] fire_kw_title_flag [OF int_str_not_flag]
        fire_kw.simps(1)) (simp_all add: add_kw_def add_rarg_def)
  have c: "fire_call [fn] = bind_cons (fire_value fn) (Inr ([PyNone, PyStr '','', PyStr ''double''], []))"
    "fire_call [fn, ''--title'', int_str i] = bind_cons (fire_value fn) (Inr ([PyInt i, PyStr '','', PyStr ''double''], []))"
    by (simp_all only: fire_call_def k prod.case fire_bind_defaults append_leftover_Nil)
       (simp add: fire_value_int_str)
  have same: "csv2apkg f (PyInt i) s m w = csv2apkg f PyNone s m w" for f s m
    by (rule csv2apkg_same_title, rule derive_title_non_str) simp
  show ?thesis
    unfolding main_run_def own c
    by (cases "fire_value fn") (simp_all add: same split: pyval.split)
qed

theorem main_numeric_title_ignored_witness:
  "\<not> is_flag ''dir/cards.csv'' \<and> int_str 2024 = ''2024''
   \<and> main_run [''dir/cards.csv'', ''--title'', int_str 2024] demo_world = main_run [''dir/cards.csv''] demo_world"
proof -
  have f: "\<not> is_flag ''dir/cards.csv''" by (simp add: is_flag_def)
  have i: "int_str 2024 = ''2024''" by code_simp
  from f i main_numeric_title_ignored [OF f, of 2024 demo_world] show ?thesis by blast
qed

text \<open>
  C28. Without a file name (no positional token and no \<open>--filename\<close>), fire
  raises \<open>FireError\<close> before calling \<open>csv2apkg\<close>: exit status 2 and nothing
  changed, also when other options are given.
\<close>

theorem main_missing_filename:
  assumes t: "\<not> is_flag t"
  shows "main_run [] w = (Inr 2, w) \<and> main_run [''--title'', t] w = (Inr 2, w)"
proof -
  have own: "fire_own_flags [] = False" "fire_own_flags [''--title'', t] = False"
    using t own_flags_are_flags by (auto simp: fire_own_flags_def)
  have k: "fire_kw [''--title'', t] = ([(''title'', t)], [], [])"
    by (simp only: fire_kw_title_flag [OF t] fire_kw.simps(1)) (simp add: add_kw_def)
  have "fire_call [] = Inl (FireError (''The function received no value for the required argument: '' @ ''filename''))"
    "fire_call [''--title'', t] = Inl (FireError (''The function received no value for the required argument: '' @ ''filename''))"
    by (simp_all only: fire_call_def k fire_kw.simps(1) prod.case) (simp_all add: csv2apkg_params_def)
  with own show ?thesis by (simp add: main_run_def)
qed

theorem main_missing_filename_witness:
  "\<not> is_flag ''Deck'' \<and> main_run [] demo_world = (Inr 2, demo_world)
   \<and> main_run [''--title'', ''Deck''] demo_world = (Inr 2, demo_world)"
proof -
  have f: "\<not> is_flag ''Deck''" by (simp add: is_flag_def)
  from f main_missing_filename [OF f, of demo_world] show ?thesis by blast
qed

text \<open>
  C29. A token left over after the four parameters are bound does not stop the
  call: \<open>csv2apkg\<close> runs and writes the package, and only then fire reports
  the unconsumed argument and the process exits with status 2; when the call
  raises, the exception comes first (\<open>script_exit\<close>).
\<close>

theorem main_extra_argument:
  assumes fn: "\<not> is_flag fn" "fire_value fn = Inr (PyStr fn)" and x: "x \<noteq> []" "is_letter (hd x)"
  shows "main_run [fn, ''Deck'', '','', ''double'', x] w =
    (if fst (csv2apkg fn (PyStr ''Deck'') '','' (PyStr ''double'') w) = Inr () then Inr 2
     else script_exit (fst (csv2apkg fn (PyStr ''Deck'') '','' (PyStr ''double'') w)),
     snd (csv2apkg fn (PyStr ''Deck'') '','' (PyStr ''double'') w))"
proof -
  obtain c cs where xe: "x = c # cs" and c: "c \<noteq> CHR ''-''" "c \<noteq> CHR ''_''"
    using x letter_chars by (cases x) auto
  have xf: "\<not> is_flag x" using xe c by (auto dest: is_flag_shape)
  have plain: "\<not> is_flag ''Deck''" "\<not> is_flag '',''" "\<not> is_flag ''double''"
    by (simp_all add: is_flag_def)
  have own: "fire_own_flags [fn, ''Deck'', '','', ''double'', x] = False"
    using fn(1) xf own_flags_are_flags by (auto simp: fire_own_flags_def)
  have k: "fire_kw [fn, ''Deck'', '','', ''double'', x] = ([], [], [fn, ''Deck'', '','', ''double'', x])"
    using fn(1) xf plain by (simp add: add_rarg_def)
  have v: "fire_value ''Deck'' = Inr (PyStr ''Deck'')" "fire_value '','' = Inr (PyStr '','')"
    "fire_value ''double'' = Inr (PyStr ''double'')"
    by code_simp+
  have call: "fire_call [fn, ''Deck'', '','', ''double'', x] =
      Inr ([PyStr fn, PyStr ''Deck'', PyStr '','', PyStr ''double''], [x])"
    by (simp only: fire_call_def k prod.case) (simp add: csv2apkg_params_def fn(2) v)
  have m: "\<not> names_member_of_None x"
    using xe c by (simp add: names_member_of_None_def underscore_dashes_def)
  show ?thesis
    using own call m
    by (simp add: main_run_def script_exit_def split: prod.split sum.split)
qed

theorem main_extra_argument_witness:
  "\<not> is_flag ''dir/cards.csv'' \<and> fire_value ''dir/cards.csv'' = Inr (PyStr ''dir/cards.csv'')
   \<and> ''extra'' \<noteq> [] \<and> is_letter (hd ''extra'')
   \<and> fst (csv2apkg ''dir/cards.csv'' (PyStr ''Deck'') '','' (PyStr ''double'') demo_world) = Inr ()
   \<and> main_run [''dir/cards.csv'', ''Deck'', '','', ''double'', ''extra''] demo_world =
      (if fst (csv2apkg ''dir/cards.csv'' (PyStr ''Deck'') '','' (PyStr ''double'') demo_world) = Inr ()
       then Inr 2 else script_exit (fst (csv2apkg ''dir/cards.csv'' (PyStr ''Deck'') '','' (PyStr ''double'') demo_world)),
       snd (csv2apkg ''dir/cards.csv'' (PyStr ''Deck'') '','' (PyStr ''double'') demo_world))"
proof -
  have f: "\<not> is_flag ''dir/cards.csv''" by (simp add: is_flag_def)
  have v: "fire_value ''dir/cards.csv'' = Inr (PyStr ''dir/cards.csv'')" by code_simp
  have x: "''extra'' \<noteq> []" "is_letter (hd ''extra'')" by (simp_all add: is_letter_def)
  have r: "fst (csv2apkg ''dir/cards.csv'' (PyStr ''Deck'') '','' (PyStr ''double'') demo_world) = Inr ()"
    by code_simp
  from f v x r main_extra_argument [OF f v x, of demo_world] show ?thesis by blast
qed

text \<open>
  C30. What the package shows (spec section 3 with lines 10-25 and 61-81):
  after a successful run, in either mode, every card of the written deck shows
  the row's question on the front and, on the back, the question, the rule
  \<open><hr id=answer>\<close> and the row's answer, in row order.
\<close>

theorem csv2apkg_cards_render:
  assumes "path_suffix (parse_path fn) = ''.csv''"
    and "load_frame mode sep w (parse_path fn) = Inr df"
  shows "\<exists>w' d. csv2apkg fn title sep mode w = (Inr (), w')
    \<and> files w' (apkg_path_of (parse_path fn)) = Some (ApkgFile d)
    \<and> map render_note (deck_notes d) =
        (if has_qa (columns df)
         then map (\<lambda>r. Inr (row_field (columns df) r ''question'',
                            row_field (columns df) r ''question'' @ ''\<newline>\<newline><hr id=answer>\<newline>\<newline>''
                              @ row_field (columns df) r ''answer'')) (iter_rows df)
         else [])"
  using csv2apkg_success [OF assms, of title]
  by (simp add: final_deck_def spec_notes_def render_MODEL_note)

theorem csv2apkg_cards_render_witness:
  "path_suffix (parse_path ''dir/cards.csv'') = ''.csv''
   \<and> load_frame (PyStr ''double'') '','' demo_world (parse_path ''dir/cards.csv'') = Inr demo_frame
   \<and> (\<exists>w' d. csv2apkg ''dir/cards.csv'' PyNone '','' (PyStr ''double'') demo_world = (Inr (), w')
       \<and> files w' (apkg_path_of (parse_path ''dir/cards.csv'')) = Some (ApkgFile d)
       \<and> map render_note (deck_notes d) =
           [Inr (''q1'', ''q1\<newline>\<newline><hr id=answer>\<newline>\<newline>a1''),
            Inr (''q2'', ''q2\<newline>\<newline><hr id=answer>\<newline>\<newline>nan'')])"
proof -
  have h1: "path_suffix (parse_path ''dir/cards.csv'') = ''.csv''" by code_simp
  have h2: "load_frame (PyStr ''double'') '','' demo_world (parse_path ''dir/cards.csv'') = Inr demo_frame"
    by code_simp
  have e: "((if has_qa (columns demo_frame)
         then map (\<lambda>r. Inr (row_field (columns demo_frame) r ''question'',
                            row_field (columns demo_frame) r ''question'' @ ''\<newline>\<newline><hr id=answer>\<newline>\<newline>''
                              @ row_field (columns demo_frame) r ''answer'')) (iter_rows demo_frame)
         else []) :: (py_error + string \<times> string) list) =
      [Inr (''q1'', ''q1\<newline>\<newline><hr id=answer>\<newline>\<newline>a1''),
       Inr (''q2'', ''q2\<newline>\<newline><hr id=answer>\<newline>\<newline>nan'')]"
    by code_simp
  from h1 h2 csv2apkg_cards_render [OF h1 h2, of PyNone] e show ?thesis by auto
qed

section \<open>Reading the cells: round trip and type inference\<close>

text \<open>
  C31. Round trip (section 8, first property, with the cells' text): a
  comma-separated file with the header \<open>question,answer\<close> and one line per
  pair, whose cells are plain text (no separator, line break or opening quote;
  not an NA string, a number or a boolean), gives in double mode exactly one
  note per line, in file order, whose fields are the line's two cells unchanged.
\<close>

theorem csv2apkg_roundtrip:
  assumes "path_suffix (parse_path fn) = ''.csv''"
    and "files w (parse_path fn) = Some (TextFile (csv_of_pairs ps))"
    and "list_all (\<lambda>(q, a). plain_field CHR '','' q \<and> plain_field CHR '','' a \<and> text_field q \<and> text_field a) ps"
  shows "\<exists>w' d. csv2apkg fn title '','' (PyStr ''double'') w = (Inr (), w')
    \<and> files w' (apkg_path_of (parse_path fn)) = Some (ApkgFile d)
    \<and> map note_fields (deck_notes d) = map (\<lambda>(q, a). [q, a]) ps"
proof (cases "ps = []")
  case True
  have r: "read_csv (csv_of_pairs []) '','' HeaderRow = Inr \<lparr>columns = [''question'', ''answer''], rows = []\<rparr>"
    by (simp add: csv_of_pairs_def) code_simp
  have "iter_rows \<lparr>columns = [''question'', ''answer''], rows = []\<rparr> = []"
    by (simp add: iter_rows_def)
  with True csv2apkg_qa_frame [OF assms(1) _ r, where title = title] assms(2) show ?thesis by simp
next
  case False
  have pf: "\<forall>(q, a) \<in> set ps. plain_field CHR '','' q \<and> plain_field CHR '','' a"
    and tf: "\<forall>(q, a) \<in> set ps. text_field q \<and> text_field a"
    using assms(3) by (auto simp: list_all_iff)
  obtain q0 a0 where p0: "(q0, a0) \<in> set ps" using False by (cases ps) auto
  have pq: "map (\<lambda>(q, a). parse_cell q) ps = map (\<lambda>(q, a). Text q) ps"
    and pa: "map (\<lambda>(q, a). parse_cell a) ps = map (\<lambda>(q, a). Text a) ps"
    using tf by (auto simp: text_field_parse)
  have "Text q0 \<in> set (map (\<lambda>(q, a). Text q) ps)" "Text a0 \<in> set (map (\<lambda>(q, a). Text a) ps)"
    using p0 by force+
  then have cq: "column_convert (map (\<lambda>(q, a). parse_cell q) ps) = Inr (map (\<lambda>(q, a). Text q) ps)"
    and ca: "column_convert (map (\<lambda>(q, a). parse_cell a) ps) = Inr (map (\<lambda>(q, a). Text a) ps)"
    using tf p0 pq pa column_convert_text_field by fastforce+
  have r: "read_csv (csv_of_pairs ps) '','' HeaderRow
      = Inr \<lparr>columns = [''question'', ''answer''], rows = map (\<lambda>(q, a). [Text q, Text a]) ps\<rparr>"
    by (rule read_csv_pairs_map [OF pf False cq ca])
  have "[Text q0, Text a0] \<in> set (map (\<lambda>(q, a). [Text q, Text a]) ps)" using p0 by force
  then have i: "iter_rows \<lparr>columns = [''question'', ''answer''], rows = map (\<lambda>(q, a). [Text q, Text a]) ps\<rparr>
      = map (\<lambda>(q, a). [Text q, Text a]) ps"
    using iter_rows_keep [where n = 2 and c = "Text q0" and r = "[Text q0, Text a0]"
        and df = "\<lparr>columns = [''question'', ''answer''], rows = map (\<lambda>(q, a). [Text q, Text a]) ps\<rparr>"]
    by (auto simp: list_all_iff split: prod.splits)
  have l: "list_all (\<lambda>r. length r = 2) (map (\<lambda>(q, a). [Text q, Text a]) ps)"
    by (auto simp: list_all_iff)
  have m: "map (\<lambda>r. [py_str_cell (r ! 0), py_str_cell (r ! 1)]) (map (\<lambda>(q, a). [Text q, Text a]) ps)
      = map (\<lambda>(q, a). [q, a]) ps"
    by (induction ps) auto
  from csv2apkg_qa_frame [OF assms(1,2) r l, of title] show ?thesis unfolding i m .
qed

theorem csv2apkg_roundtrip_witness:
  "path_suffix (parse_path ''geo.csv'') = ''.csv''
   \<and> files \<lparr>files = [parse_path ''geo.csv'' \<mapsto> TextFile (csv_of_pairs [(''capital of France'', ''Paris''), (''two plus two'', ''four'')])],
            clock = 0, out = []\<rparr> (parse_path ''geo.csv'')
       = Some (TextFile (csv_of_pairs [(''capital of France'', ''Paris''), (''two plus two'', ''four'')]))
   \<and> list_all (\<lambda>(q, a). plain_field CHR '','' q \<and> plain_field CHR '','' a \<and> text_field q \<and> text_field a)
       [(''capital of France'', ''Paris''), (''two plus two'', ''four'')]
   \<and> (\<exists>w' d. csv2apkg ''geo.csv'' PyNone '','' (PyStr ''double'')
          \<lparr>files = [parse_path ''geo.csv'' \<mapsto> TextFile (csv_of_pairs [(''capital of France'', ''Paris''), (''two plus two'', ''four'')])],
           clock = 0, out = []\<rparr> = (Inr (), w')
    \<and> files w' (apkg_path_of (parse_path ''geo.csv'')) = Some (ApkgFile d)
    \<and> map note_fields (deck_notes d) = [[''capital of France'', ''Paris''], [''two plus two'', ''four'']])"
proof -
  have h1: "path_suffix (parse_path ''geo.csv'') = ''.csv''" by code_simp
  have h2: "files \<lparr>files = [parse_path ''geo.csv'' \<mapsto> TextFile (csv_of_pairs [(''capital of France'', ''Paris''), (''two plus two'', ''four'')])],
            clock = 0, out = []\<rparr> (parse_path ''geo.csv'')
       = Some (TextFile (csv_of_pairs [(''capital of France'', ''Paris''), (''two plus two'', ''four'')]))" by simp
  have h3: "list_all (\<lambda>(q, a). plain_field CHR '','' q \<and> plain_field CHR '','' a \<and> text_field q \<and> text_field a)
       [(''capital of France'', ''Paris''), (''two plus two'', ''four'')]" by code_simp
  from h1 h2 h3 csv2apkg_roundtrip [OF h1 h2 h3, of PyNone] show ?thesis by simp
qed

text \<open>
  C32. pandas infers column types, so a card does not always show the cell's
  text: in double mode, when every question is a decimal numeral and every
  answer cell is empty or an NA string, the question column is int64, the
  answer column float64, and \<open>iterrows\<close> casts each row to float64, so the
  front is the number without leading zeros and with \<open>.0\<close> appended
  (\<open>007\<close> becomes \<open>7.0\<close>) and the back is \<open>nan\<close>.
\<close>

theorem csv2apkg_int_question_float:
  assumes "path_suffix (parse_path fn) = ''.csv''"
    and "files w (parse_path fn) = Some (TextFile (csv_of_pairs ps))"
    and "ps \<noteq> []"
    and "list_all (\<lambda>(q, a). q \<noteq> [] \<and> list_all is_digit q \<and> digits_value q < 2 ^ 53
           \<and> a \<in> set pandas_na_values \<and> plain_field CHR '','' a) ps"
  shows "\<exists>w' d. csv2apkg fn title '','' (PyStr ''double'') w = (Inr (), w')
    \<and> files w' (apkg_path_of (parse_path fn)) = Some (ApkgFile d)
    \<and> map note_fields (deck_notes d) = map (\<lambda>(q, a). [nat_str (digits_value q) @ ''.0'', ''nan'']) ps"
proof -
  have h: "\<forall>(q, a) \<in> set ps. q \<noteq> [] \<and> list_all is_digit q \<and> digits_value q < 2 ^ 53
           \<and> a \<in> set pandas_na_values \<and> plain_field CHR '','' a"
    using assms(4) by (simp add: list_all_iff)
  have nd: "\<not> is_digit CHR '',''" by (simp add: is_digit_def)
  have pf: "\<forall>(q, a) \<in> set ps. plain_field CHR '','' q \<and> plain_field CHR '','' a"
    using h digits_plain_field [OF _ nd] by fast
  have pq: "map (\<lambda>(q, a). parse_cell q) ps = map Text (map fst ps)"
    using h by (auto simp: parse_cell_def digits_not_na)
  have pa: "map (\<lambda>(q, a). parse_cell a) ps = map (\<lambda>_. NaN) ps"
    using h by (auto simp: map_eq_conv parse_cell_def)
  have "column_convert (map Text (map fst ps)) = Inr (map (\<lambda>s. IntV (int (digits_value s))) (map fst ps))"
    using h by (intro column_convert_ints) auto
  then have cq: "column_convert (map (\<lambda>(q, a). parse_cell q) ps) = Inr (map (\<lambda>(q, a). IntV (int (digits_value q))) ps)"
    by (simp add: pq case_prod_beta)
  have ca: "column_convert (map (\<lambda>(q, a). parse_cell a) ps) = Inr (map (\<lambda>(q, a). NaN) ps)"
  proof -
    have "map (\<lambda>(q, a). NaN) ps = replicate (length ps) NaN" by (induction ps) auto
    then show ?thesis using column_convert_NaN [of "length ps"] by (simp add: pa map_replicate_const)
  qed
  have r: "read_csv (csv_of_pairs ps) '','' HeaderRow
      = Inr \<lparr>columns = [''question'', ''answer''], rows = map (\<lambda>(q, a). [IntV (int (digits_value q)), NaN]) ps\<rparr>"
    by (rule read_csv_pairs_map [OF pf assms(3) cq ca])
  have l: "list_all (\<lambda>r. length r = 2) (map (\<lambda>(q, a). [IntV (int (digits_value q)), NaN]) ps)"
    by (auto simp: list_all_iff)
  have i: "iter_rows \<lparr>columns = [''question'', ''answer''], rows = map (\<lambda>(q, a). [IntV (int (digits_value q)), NaN]) ps\<rparr>
      = map (\<lambda>(q, a). [FloatV (int (digits_value q)), NaN]) ps"
    by (rule iter_rows_int_float [OF assms(3)])
  have m: "map (\<lambda>r. [py_str_cell (r ! 0), py_str_cell (r ! 1)]) (map (\<lambda>(q, a). [FloatV (int (digits_value q)), NaN]) ps)
      = map (\<lambda>(q, a). [nat_str (digits_value q) @ ''.0'', ''nan'']) ps"
    by (induction ps) (auto simp: int_str_def)
  from csv2apkg_qa_frame [OF assms(1,2) r l, of title] show ?thesis unfolding i m .
qed

theorem csv2apkg_int_question_float_witness:
  "path_suffix (parse_path ''nums.csv'') = ''.csv''
   \<and> files \<lparr>files = [parse_path ''nums.csv'' \<mapsto> TextFile (csv_of_pairs [(''007'', []), (''12'', ''NA'')])],
            clock = 0, out = []\<rparr> (parse_path ''nums.csv'')
       = Some (TextFile (csv_of_pairs [(''007'', []), (''12'', ''NA'')]))
   \<and> [(''007'', []), (''12'', ''NA'')] \<noteq> []
   \<and> list_all (\<lambda>(q, a). q \<noteq> [] \<and> list_all is_digit q \<and> digits_value q < 2 ^ 53
           \<and> a \<in> set pandas_na_values \<and> plain_field CHR '','' a) [(''007'', []), (''12'', ''NA'')]
   \<and> (\<exists>w' d. csv2apkg ''nums.csv'' PyNone '','' (PyStr ''double'')
          \<lparr>files = [parse_path ''nums.csv'' \<mapsto> TextFile (csv_of_pairs [(''007'', []), (''12'', ''NA'')])],
           clock = 0, out = []\<rparr> = (Inr (), w')
    \<and> files w' (apkg_path_of (parse_path ''nums.csv'')) = Some (ApkgFile d)
    \<and> map note_fields (deck_notes d) = [[''7.0'', ''nan''], [''12.0'', ''nan'']])"
proof -
  have h1: "path_suffix (parse_path ''nums.csv'') = ''.csv''" by code_simp
  have h2: "files \<lparr>files = [parse_path ''nums.csv'' \<mapsto> TextFile (csv_of_pairs [(''007'', []), (''12'', ''NA'')])],
            clock = 0, out = []\<rparr> (parse_path ''nums.csv'')
       = Some (TextFile (csv_of_pairs [(''007'', []), (''12'', ''NA'')]))" by simp
  have h3: "[(''007'', []), (''12'', ''NA'')] \<noteq> []" by simp
  have h4: "list_all (\<lambda>(q, a). q \<noteq> [] \<and> list_all is_digit q \<and> digits_value q < 2 ^ 53
           \<and> a \<in> set pandas_na_values \<and> plain_field CHR '','' a) [(''007'', []), (''12'', ''NA'')]"
    by (simp add: is_digit_def digits_value_def pandas_na_values_def plain_field_def)
  have v: "map (\<lambda>(q, a). [nat_str (digits_value q) @ ''.0'', ''nan'']) [(''007'', []), (''12'', ''NA'')]
      = [[''7.0'', ''nan''], [''12.0'', ''nan'']]"
    by (simp add: digits_value_def nat_str_small nat_str_large char_of_def bit_0)
  from h1 h2 h3 h4 csv2apkg_int_question_float [OF h1 h2 h3 h4, of PyNone] v show ?thesis by simp
qed

end
